theory Spec2Isabelle
  imports Complex_Main "HOL-Library.Char_ord" "HOL-Library.List_Lexorder"
begin

section \<open>Python values used by the matching and ranking engine\<close>

text \<open>
  The development embeds three modules of the backend:
  \<^verbatim>\<open>services/ai_service.py\<close> (cosine similarity, requirement scoring, the weighted
  aggregate), \<^verbatim>\<open>services/recommendation_service.py\<close> (preference evaluation, job
  embeddings, ranking) and \<^verbatim>\<open>services/resume_fit_service.py\<close> (the cached fit score).

  Conventions. A Python \<^verbatim>\<open>float\<close> is a \<open>double\<close>: a finite value, an infinity or
  NaN, and every arithmetic operation rounds its exact result to the nearest binary64
  number, a tie to the even one, as IEEE 754 prescribes. The sign of a zero is not
  recorded; no comparison or result of the embedded code depends on it. A Python
  \<^verbatim>\<open>int\<close> is an \<^typ>\<open>int\<close>. A \<^verbatim>\<open>str\<close> is a \<^typ>\<open>string\<close> of ASCII characters.
  Every \<^verbatim>\<open>raise\<close> is a value \<open>Inl e\<close> of a sum type. A function whose source name
  starts with an underscore keeps the name without it (\<^verbatim>\<open>_rank_jobs\<close> is \<open>rank_jobs\<close>);
  \<^verbatim>\<open>_cosine_similarity\<close> is \<open>cosine_similarity_impl\<close>, since the module also exports
  \<^verbatim>\<open>cosine_similarity\<close>.
\<close>

datatype py_error =
    ValueError string
  | AttributeError string
  | IndexError
  | ZeroDivisionError
  | ProviderError string
  | OverflowError

text \<open>\<^verbatim>\<open>round(x)\<close> rounds to the nearest integer, a tie to the even neighbour.\<close>

definition py_round :: "real \<Rightarrow> int" where
  "py_round x =
     (let f = \<lfloor>x\<rfloor>; d = x - of_int f in
      if d < 1 / 2 then f
      else if 1 / 2 < d then f + 1
      else if even f then f else f + 1)"

subsection \<open>Binary64 numbers\<close>

datatype double = Fin real | PInf | NInf | NaN

text \<open>
  Rounding a real number to binary64. The unit in the last place of \<open>x\<close> is
  \<open>2 ^ ulp_exponent x\<close>: 52 binary places below the leading bit for a normal number,
  \<open>2 ^ -1074\<close> for a subnormal one. A result of magnitude \<open>2 ^ 1024\<close> overflows.
\<close>

definition ulp_exponent :: "real \<Rightarrow> int" where
  "ulp_exponent x = max \<lfloor>log 2 \<bar>x\<bar>\<rfloor> (- 1022) - 52"

definition rnd :: "real \<Rightarrow> double" where
  "rnd x =
     (if x = 0 then Fin 0
      else let u = 2 powr of_int (ulp_exponent x);
               y = of_int (py_round (x / u)) * u
           in if 2 ^ 1024 \<le> \<bar>y\<bar> then (if 0 < x then PInf else NInf) else Fin y)"

fun fl_add :: "double \<Rightarrow> double \<Rightarrow> double" where
  "fl_add (Fin x) (Fin y) = rnd (x + y)"
| "fl_add NaN d = NaN"
| "fl_add d NaN = NaN"
| "fl_add PInf NInf = NaN"
| "fl_add NInf PInf = NaN"
| "fl_add PInf d = PInf"
| "fl_add d PInf = PInf"
| "fl_add NInf d = NInf"
| "fl_add d NInf = NInf"

text \<open>The infinity of the sign of \<open>s\<close>; zero times infinity is NaN.\<close>

definition signed_inf :: "real \<Rightarrow> double" where
  "signed_inf s = (if s = 0 then NaN else if 0 < s then PInf else NInf)"

fun fl_mul :: "double \<Rightarrow> double \<Rightarrow> double" where
  "fl_mul (Fin x) (Fin y) = rnd (x * y)"
| "fl_mul NaN d = NaN"
| "fl_mul d NaN = NaN"
| "fl_mul (Fin x) PInf = signed_inf x"
| "fl_mul (Fin x) NInf = signed_inf (- x)"
| "fl_mul PInf (Fin y) = signed_inf y"
| "fl_mul NInf (Fin y) = signed_inf (- y)"
| "fl_mul PInf PInf = PInf"
| "fl_mul NInf NInf = PInf"
| "fl_mul PInf NInf = NInf"
| "fl_mul NInf PInf = NInf"

text \<open>\<^verbatim>\<open>/\<close> raises on a zero divisor, whatever the dividend.\<close>

fun fl_div :: "double \<Rightarrow> double \<Rightarrow> py_error + double" where
  "fl_div (Fin x) (Fin y) = (if y = 0 then Inl ZeroDivisionError else Inr (rnd (x / y)))"
| "fl_div PInf (Fin y) = (if y = 0 then Inl ZeroDivisionError else Inr (signed_inf y))"
| "fl_div NInf (Fin y) = (if y = 0 then Inl ZeroDivisionError else Inr (signed_inf (- y)))"
| "fl_div NaN (Fin y) = (if y = 0 then Inl ZeroDivisionError else Inr NaN)"
| "fl_div d NaN = Inr NaN"
| "fl_div (Fin x) d = Inr (Fin 0)"
| "fl_div d e = Inr NaN"

text \<open>\<^verbatim>\<open>math.sqrt\<close> raises on a negative argument.\<close>

fun fl_sqrt :: "double \<Rightarrow> py_error + double" where
  "fl_sqrt (Fin x) =
     (if x < 0 then Inl (ValueError ''math domain error'') else Inr (rnd (sqrt x)))"
| "fl_sqrt PInf = Inr PInf"
| "fl_sqrt NInf = Inl (ValueError ''math domain error'')"
| "fl_sqrt NaN = Inr NaN"

text \<open>The comparisons \<^verbatim>\<open><\<close>, \<^verbatim>\<open><=\<close> and \<^verbatim>\<open>==\<close>: each is false when a side is NaN.\<close>

fun dbl_less :: "double \<Rightarrow> double \<Rightarrow> bool" where
  "dbl_less (Fin x) (Fin y) = (x < y)"
| "dbl_less NaN d = False"
| "dbl_less d NaN = False"
| "dbl_less d NInf = False"
| "dbl_less PInf d = False"
| "dbl_less NInf d = True"
| "dbl_less d PInf = True"

fun dbl_eq :: "double \<Rightarrow> double \<Rightarrow> bool" where
  "dbl_eq (Fin x) (Fin y) = (x = y)"
| "dbl_eq PInf PInf = True"
| "dbl_eq NInf NInf = True"
| "dbl_eq d e = False"

definition dbl_le :: "double \<Rightarrow> double \<Rightarrow> bool" where
  "dbl_le a b = (dbl_less a b \<or> dbl_eq a b)"

text \<open>A float is truthy unless it equals zero; NaN is truthy.\<close>

definition truthy_double :: "double \<Rightarrow> bool" where
  "truthy_double d = (\<not> dbl_eq d (Fin 0))"

text \<open>\<^verbatim>\<open>max(a, b)\<close> and \<^verbatim>\<open>min(a, b)\<close> keep the first argument unless the second is
  strictly beyond it.\<close>

definition py_max :: "double \<Rightarrow> double \<Rightarrow> double" where
  "py_max a b = (if dbl_less a b then b else a)"

definition py_min :: "double \<Rightarrow> double \<Rightarrow> double" where
  "py_min a b = (if dbl_less b a then b else a)"

text \<open>
  \<^verbatim>\<open>sum\<close> starts from 0 and adds from left to right, one rounding per addition, as
  CPython does up to version 3.11. (Later versions carry a correction term for the
  rounding errors of a float sum; the two agree whenever every addition is exact, as in
  the vectors of integers evaluated below.)
\<close>

definition py_sum :: "double list \<Rightarrow> double" where
  "py_sum ds = foldl fl_add (Fin 0) ds"

text \<open>
  \<^verbatim>\<open>round(x)\<close> and \<^verbatim>\<open>int(x)\<close> of a float raise on NaN and on an infinity;
  \<^verbatim>\<open>round(x, n)\<close> rounds the exact value of \<open>x\<close> at the \<open>n\<close>-th decimal and returns
  the binary64 number nearest to that decimal; converting an \<^verbatim>\<open>int\<close> to a float rounds,
  and raises when the integer is too large.
\<close>

fun py_round_double :: "double \<Rightarrow> py_error + int" where
  "py_round_double (Fin x) = Inr (py_round x)"
| "py_round_double NaN = Inl (ValueError ''cannot convert float NaN to integer'')"
| "py_round_double d = Inl OverflowError"

fun py_round_ndigits :: "double \<Rightarrow> nat \<Rightarrow> double" where
  "py_round_ndigits (Fin x) n = rnd (of_int (py_round (x * 10 ^ n)) / 10 ^ n)"
| "py_round_ndigits d n = d"

fun py_int :: "double \<Rightarrow> py_error + int" where
  "py_int (Fin x) = Inr (if 0 \<le> x then \<lfloor>x\<rfloor> else \<lceil>x\<rceil>)"
| "py_int NaN = Inl (ValueError ''cannot convert float NaN to integer'')"
| "py_int d = Inl OverflowError"

definition int_to_double :: "int \<Rightarrow> py_error + double" where
  "int_to_double i =
     (case rnd (of_int i) of Fin x \<Rightarrow> Inr (Fin x) | d \<Rightarrow> Inl OverflowError)"

text \<open>The finite value of a float that is known to be finite.\<close>

fun fin_value :: "double \<Rightarrow> real" where
  "fin_value (Fin x) = x"
| "fin_value d = 0"

subsection \<open>Strings\<close>

text \<open>\<^verbatim>\<open>str.strip()\<close>, \<^verbatim>\<open>str.lower()\<close>, \<^verbatim>\<open>sep.join(xs)\<close> and \<^verbatim>\<open>str(n)\<close> on ASCII text.\<close>

definition py_isspace :: "char \<Rightarrow> bool" where
  "py_isspace c = (c \<in> set [CHR 0x09, CHR 0x0A, CHR 0x0B, CHR 0x0C, CHR 0x0D,
                              CHR 0x1C, CHR 0x1D, CHR 0x1E, CHR 0x1F, CHR '' ''])"

definition py_strip :: "string \<Rightarrow> string" where
  "py_strip s = rev (dropWhile py_isspace (rev (dropWhile py_isspace s)))"

definition lower_char :: "char \<Rightarrow> char" where
  "lower_char c =
     (if CHR ''A'' \<le> c \<and> c \<le> CHR ''Z'' then char_of (of_char c + (32::nat)) else c)"

definition py_lower :: "string \<Rightarrow> string" where
  "py_lower s = map lower_char s"

fun py_join :: "string \<Rightarrow> string list \<Rightarrow> string" where
  "py_join sep [] = []"
| "py_join sep [x] = x"
| "py_join sep (x # y # ys) = x @ sep @ py_join sep (y # ys)"

definition digit_char :: "nat \<Rightarrow> char" where
  "digit_char d = char_of (48 + d)"

fun digits_of :: "nat \<Rightarrow> nat \<Rightarrow> string" where
  "digits_of 0 n = []"
| "digits_of (Suc fuel) n =
     (if n < 10 then [digit_char n] else digits_of fuel (n div 10) @ [digit_char (n mod 10)])"

definition py_str_int :: "int \<Rightarrow> string" where
  "py_str_int i =
     (if i < 0 then CHR ''-'' # digits_of (Suc (nat (- i))) (nat (- i))
      else digits_of (Suc (nat i)) (nat i))"

section \<open>ai\_service: cosine similarity\<close>

type_synonym vector = "double list"

definition dot_product :: "vector \<Rightarrow> vector \<Rightarrow> double" where
  "dot_product a b = py_sum (map (\<lambda>(x, y). fl_mul x y) (zip a b))"

definition sum_squares :: "vector \<Rightarrow> double" where
  "sum_squares a = py_sum (map (\<lambda>x. fl_mul x x) a)"

definition cosine_similarity_impl :: "vector \<Rightarrow> vector \<Rightarrow> py_error + double" where
  "cosine_similarity_impl a b =
     (let dot = dot_product a b in
      case fl_sqrt (sum_squares a) of
        Inl e \<Rightarrow> Inl e
      | Inr norm_a \<Rightarrow>
          (case fl_sqrt (sum_squares b) of
             Inl e \<Rightarrow> Inl e
           | Inr norm_b \<Rightarrow>
               if dbl_eq norm_a (Fin 0) \<or> dbl_eq norm_b (Fin 0) then Inr (Fin 0)
               else fl_div dot (fl_mul norm_a norm_b)))"

definition cosine_similarity :: "vector \<Rightarrow> vector \<Rightarrow> py_error + double" where
  "cosine_similarity vec_a vec_b = cosine_similarity_impl vec_a vec_b"

definition clean_similarity :: "double option \<Rightarrow> double option" where
  "clean_similarity v = (case v of None \<Rightarrow> None | Some x \<Rightarrow> Some (py_round_ndigits x 3))"

text \<open>
  \<^verbatim>\<open>_batched_embeddings\<close> returns the empty list for no texts and otherwise asks the
  embedding provider, an external service that may fail: the provider is the parameter
  \<open>provider\<close>. \<^verbatim>\<open>embed_for_matching\<close> forwards to it.
\<close>

type_synonym embedder = "string list \<Rightarrow> py_error + vector list"

definition batched_embeddings :: "embedder \<Rightarrow> string list \<Rightarrow> py_error + vector list" where
  "batched_embeddings provider texts = (if texts = [] then Inr [] else provider texts)"

definition embed_for_matching :: "embedder \<Rightarrow> string list \<Rightarrow> py_error + vector list" where
  "embed_for_matching provider texts = batched_embeddings provider texts"

section \<open>ai\_service: scoring one dimension\<close>

text \<open>
  A requirement arrives as a dictionary. \<open>item_label\<close> is the value under the label
  field the caller names (\<^verbatim>\<open>name\<close>, \<^verbatim>\<open>description\<close> or \<^verbatim>\<open>term\<close>), \<open>None\<close> when the
  key is absent or null; \<open>item_critical\<close> is \<^verbatim>\<open>bool(item.get("critical", False))\<close>.
\<close>

record requirement_item =
  item_label :: "string option"
  item_critical :: bool
  item_notes :: "string option"

record cleaned_requirement =
  req_label :: string
  req_critical :: bool
  req_notes :: string

record match_entry =
  entry_requirement :: string
  entry_critical :: bool
  entry_matched_text :: "string option"
  entry_similarity :: "double option"

record dimension_result =
  dim_score :: int
  dim_applicable :: bool
  dim_matched :: "match_entry list"
  dim_missing :: "match_entry list"
  dim_weight :: real

definition str_or_empty :: "string option \<Rightarrow> string" where
  "str_or_empty v = (case v of None \<Rightarrow> [] | Some s \<Rightarrow> s)"

fun clean_requirements :: "requirement_item list \<Rightarrow> cleaned_requirement list" where
  "clean_requirements [] = []"
| "clean_requirements (item # items) =
     (let label = py_strip (str_or_empty (item_label item)) in
      if label = [] then clean_requirements items
      else \<lparr>req_label = label, req_critical = item_critical item,
            req_notes = str_or_empty (item_notes item)\<rparr> # clean_requirements items)"

definition clean_evidence :: "string list \<Rightarrow> string list" where
  "clean_evidence evidence_texts =
     map py_strip (filter (\<lambda>t. py_strip t \<noteq> []) evidence_texts)"

definition critical_weight :: "bool \<Rightarrow> int" where
  "critical_weight c = (if c then 2 else 1)"

definition missing_entry :: "cleaned_requirement \<Rightarrow> double option \<Rightarrow> match_entry" where
  "missing_entry item sim =
     \<lparr>entry_requirement = req_label item, entry_critical = req_critical item,
      entry_matched_text = None, entry_similarity = sim\<rparr>"

text \<open>
  The inner loop over the evidence vectors: it keeps the best similarity seen so far
  (starting from \<open>-1.0\<close>) and the entry built for it. \<^verbatim>\<open>evidence[evidence_idx]\<close> raises
  when the provider returned more vectors than there are evidence texts.
\<close>

fun best_match_loop ::
  "cleaned_requirement \<Rightarrow> vector \<Rightarrow> string list \<Rightarrow> nat \<Rightarrow> vector list \<Rightarrow>
   match_entry option \<times> double \<Rightarrow> py_error + (match_entry option \<times> double)" where
  "best_match_loop item req_vector evidence evidence_idx [] acc = Inr acc"
| "best_match_loop item req_vector evidence evidence_idx (ev_vector # rest)
     (best_match, best_similarity) =
     (case cosine_similarity_impl req_vector ev_vector of
        Inl e \<Rightarrow> Inl e
      | Inr sim \<Rightarrow>
          if dbl_less best_similarity sim then
            (if evidence_idx < length evidence then
               best_match_loop item req_vector evidence (Suc evidence_idx) rest
                 (Some \<lparr>entry_requirement = req_label item, entry_critical = req_critical item,
                        entry_matched_text = Some (evidence ! evidence_idx),
                        entry_similarity = clean_similarity (Some sim)\<rparr>, sim)
             else Inl IndexError)
          else best_match_loop item req_vector evidence (Suc evidence_idx) rest
                 (best_match, best_similarity))"

text \<open>
  The outer loop over the cleaned requirements; \<^verbatim>\<open>requirement_embeddings[idx]\<close> raises
  when the provider returned fewer vectors than requirements.
\<close>

fun match_loop ::
  "vector list \<Rightarrow> string list \<Rightarrow> vector list \<Rightarrow> double \<Rightarrow> nat \<Rightarrow>
   cleaned_requirement list \<Rightarrow> match_entry list \<times> match_entry list \<Rightarrow>
   py_error + (match_entry list \<times> match_entry list)" where
  "match_loop requirement_embeddings evidence evidence_embeddings threshold idx [] acc = Inr acc"
| "match_loop requirement_embeddings evidence evidence_embeddings threshold idx (item # items)
     (matched, missing) =
     (if idx < length requirement_embeddings then
        (case best_match_loop item (requirement_embeddings ! idx) evidence 0
                evidence_embeddings (None, Fin (- 1)) of
           Inl e \<Rightarrow> Inl e
         | Inr (best_match, best_similarity) \<Rightarrow>
             (case best_match of
                Some entry \<Rightarrow>
                  if dbl_le threshold best_similarity then
                    match_loop requirement_embeddings evidence evidence_embeddings threshold
                      (Suc idx) items (matched @ [entry], missing)
                  else
                    match_loop requirement_embeddings evidence evidence_embeddings threshold
                      (Suc idx) items
                      (matched, missing @ [missing_entry item (clean_similarity
                         (if dbl_less (Fin (- 1)) best_similarity then Some best_similarity else None))])
              | None \<Rightarrow>
                  match_loop requirement_embeddings evidence evidence_embeddings threshold
                    (Suc idx) items
                    (matched, missing @ [missing_entry item (clean_similarity
                       (if dbl_less (Fin (- 1)) best_similarity then Some best_similarity else None))])))
      else Inl IndexError)"

text \<open>
  The default of the \<^verbatim>\<open>threshold\<close> parameter is the literal \<^verbatim>\<open>0.72\<close>. In
  \<^verbatim>\<open>int(round(100 * matched_weight / total_weight))\<close> both operands of the division are
  ints, and Python returns the float nearest to their exact quotient; the score is modelled
  as the rounding of the exact quotient. Rounding the float instead gives the same
  integer unless the exact quotient lies within \<open>2\<^sup>-\<^sup>4\<^sup>7\<close> of a half-integer without
  being one, which takes a total weight of at least \<open>2\<^sup>4\<^sup>6\<close>.
\<close>

definition DEFAULT_THRESHOLD :: double where
  "DEFAULT_THRESHOLD = rnd (72 / 100)"

definition score_requirements ::
  "embedder \<Rightarrow> requirement_item list \<Rightarrow> string list \<Rightarrow> double \<Rightarrow> py_error + dimension_result" where
  "score_requirements provider requirements evidence_texts threshold =
     (let cleaned_requirements = clean_requirements requirements in
      if cleaned_requirements = [] then
        Inr \<lparr>dim_score = 100, dim_applicable = False, dim_matched = [], dim_missing = [],
             dim_weight = 0\<rparr>
      else
        let evidence = clean_evidence evidence_texts in
        if evidence = [] then
          Inr \<lparr>dim_score = 0, dim_applicable = True, dim_matched = [],
               dim_missing = map (\<lambda>item. missing_entry item None) cleaned_requirements,
               dim_weight = of_int (sum_list (map (\<lambda>item. critical_weight (req_critical item))
                                        cleaned_requirements))\<rparr>
        else
          (case batched_embeddings provider (map req_label cleaned_requirements @ evidence) of
             Inl e \<Rightarrow> Inl e
           | Inr embeddings \<Rightarrow>
               let req_count = length cleaned_requirements;
                   requirement_embeddings = take req_count embeddings;
                   evidence_embeddings = drop req_count embeddings
               in (case match_loop requirement_embeddings evidence evidence_embeddings
                          threshold 0 cleaned_requirements ([], []) of
                     Inl e \<Rightarrow> Inl e
                   | Inr (matched, missing) \<Rightarrow>
                       let total_weight = sum_list (map (\<lambda>item. critical_weight (req_critical item))
                                                     cleaned_requirements);
                           matched_weight = sum_list (map (\<lambda>entry. critical_weight (entry_critical entry))
                                                       matched);
                           score = (if total_weight \<noteq> 0
                                    then py_round (of_int (100 * matched_weight) / of_int total_weight)
                                    else 0)
                       in Inr \<lparr>dim_score = score, dim_applicable = True, dim_matched = matched,
                               dim_missing = missing, dim_weight = of_int total_weight\<rparr>)))"

definition score_keywords ::
  "embedder \<Rightarrow> requirement_item list \<Rightarrow> string \<Rightarrow> string list \<Rightarrow> py_error + dimension_result" where
  "score_keywords provider requirements resume_text extra_evidence =
     score_requirements provider requirements (resume_text # extra_evidence) DEFAULT_THRESHOLD"

section \<open>ai\_service: the overall score\<close>

record work_item =
  work_role :: string
  work_company :: string
  work_tasks :: string

record education_item =
  edu_degree :: string
  edu_school :: string
  edu_year :: string
  edu_gpa :: string

record resume_data =
  resume_skills :: "string list"
  resume_work_experience :: "work_item list"
  resume_education :: "education_item list"

record job_data =
  job_req_skills :: "requirement_item list"
  job_req_experience :: "requirement_item list"
  job_req_education :: "requirement_item list"
  job_req_keywords :: "requirement_item list"

definition compose_parts :: "string list \<Rightarrow> string list" where
  "compose_parts parts =
     (let text = py_strip (py_join '' '' (filter (\<lambda>part. part \<noteq> []) parts)) in
      if text \<noteq> [] then [text] else [])"

definition compose_experience_evidence :: "resume_data \<Rightarrow> string list" where
  "compose_experience_evidence rd =
     concat (map (\<lambda>item. compose_parts [work_role item, work_company item, work_tasks item])
               (resume_work_experience rd))"

definition compose_education_evidence :: "resume_data \<Rightarrow> string list" where
  "compose_education_evidence rd =
     concat (map (\<lambda>item. compose_parts [edu_degree item, edu_school item, edu_year item, edu_gpa item])
               (resume_education rd))"

text \<open>The base weights, the literals \<^verbatim>\<open>0.35\<close> and \<^verbatim>\<open>0.15\<close> as floats.\<close>

definition DIMENSION_WEIGHTS :: "(string \<times> double) list" where
  "DIMENSION_WEIGHTS =
     [(''skills'', rnd (35 / 100)), (''experience'', rnd (35 / 100)),
      (''education'', rnd (15 / 100)), (''keywords'', rnd (15 / 100))]"

text \<open>
  The aggregation loop of \<^verbatim>\<open>score_resume_against_job\<close>: it runs over the breakdown in
  insertion order and accumulates \<^verbatim>\<open>active_weight\<close> and \<^verbatim>\<open>weighted_score\<close>, both
  floats starting at \<^verbatim>\<open>0.0\<close>. The product \<^verbatim>\<open>weight * result["score"]\<close> converts the
  integer score to a float first.
\<close>

fun aggregate_loop ::
  "(string \<times> dimension_result) list \<Rightarrow> double \<times> double \<Rightarrow> py_error + double \<times> double" where
  "aggregate_loop [] acc = Inr acc"
| "aggregate_loop ((key, result) # rest) (active_weight, weighted_score) =
     (if dim_applicable result then
        (let weight = (case map_of DIMENSION_WEIGHTS key of None \<Rightarrow> Fin 0 | Some v \<Rightarrow> v) in
         case int_to_double (dim_score result) of
           Inl e \<Rightarrow> Inl e
         | Inr score \<Rightarrow>
             aggregate_loop rest
               (fl_add active_weight weight, fl_add weighted_score (fl_mul weight score)))
      else aggregate_loop rest (active_weight, weighted_score))"

definition aggregate_breakdown :: "(string \<times> dimension_result) list \<Rightarrow> py_error + int" where
  "aggregate_breakdown breakdown =
     (case aggregate_loop breakdown (Fin 0, Fin 0) of
        Inl e \<Rightarrow> Inl e
      | Inr (active_weight, weighted_score) \<Rightarrow>
          if truthy_double active_weight then
            (case fl_div weighted_score active_weight of
               Inl e \<Rightarrow> Inl e
             | Inr ratio \<Rightarrow> py_round_double ratio)
          else Inr 0)"

definition reclean_entry :: "match_entry \<Rightarrow> match_entry" where
  "reclean_entry entry = entry\<lparr>entry_similarity := clean_similarity (entry_similarity entry)\<rparr>"

definition reclean_result :: "dimension_result \<Rightarrow> dimension_result" where
  "reclean_result v =
     v\<lparr>dim_matched := map reclean_entry (dim_matched v),
       dim_missing := map reclean_entry (dim_missing v)\<rparr>"

record overall_result =
  overall_score :: int
  overall_breakdown :: "(string \<times> dimension_result) list"
  overall_weights :: "(string \<times> double) list"

definition make_breakdown ::
  "dimension_result \<Rightarrow> dimension_result \<Rightarrow> dimension_result \<Rightarrow> dimension_result \<Rightarrow>
   (string \<times> dimension_result) list" where
  "make_breakdown skills_result experience_result education_result keywords_result =
     [(''skills'', skills_result), (''experience'', experience_result),
      (''education'', education_result), (''keywords'', keywords_result)]"

definition score_resume_against_job ::
  "embedder \<Rightarrow> resume_data \<Rightarrow> job_data \<Rightarrow> string \<Rightarrow> py_error + overall_result" where
  "score_resume_against_job provider rd jd resume_text =
     (case score_requirements provider (job_req_skills jd) (resume_skills rd)
             DEFAULT_THRESHOLD of
        Inl e \<Rightarrow> Inl e
      | Inr skills_result \<Rightarrow>
     (case score_requirements provider (job_req_experience jd)
             (compose_experience_evidence rd) DEFAULT_THRESHOLD of
        Inl e \<Rightarrow> Inl e
      | Inr experience_result \<Rightarrow>
     (case score_requirements provider (job_req_education jd)
             (compose_education_evidence rd) DEFAULT_THRESHOLD of
        Inl e \<Rightarrow> Inl e
      | Inr education_result \<Rightarrow>
     (case score_keywords provider (job_req_keywords jd) resume_text
             (resume_skills rd @ compose_experience_evidence rd) of
        Inl e \<Rightarrow> Inl e
      | Inr keywords_result \<Rightarrow>
          let breakdown = make_breakdown skills_result experience_result
                            education_result keywords_result
          in (case aggregate_breakdown breakdown of
                Inl e \<Rightarrow> Inl e
              | Inr overall \<Rightarrow>
                  Inr \<lparr>overall_score = overall,
                       overall_breakdown = map (\<lambda>(key, v). (key, reclean_result v)) breakdown,
                       overall_weights = DIMENSION_WEIGHTS\<rparr>)))))"

section \<open>recommendation\_service: preferences, embeddings, ranking\<close>

text \<open>
  A job document. \<open>job_metadata\<close> is \<open>None\<close> when the \<^verbatim>\<open>metadata\<close> field is not a
  dictionary; \<open>job_embedding\<close> is \<open>None\<close> when the \<^verbatim>\<open>embedding\<close> field is not a list.
  Timestamps count microseconds, the resolution of \<^verbatim>\<open>datetime\<close>.
\<close>

record job_metadata =
  meta_industry :: "string list"
  meta_company_size :: string

record job_record =
  job_id :: string
  job_title :: string
  job_company :: string
  job_description :: string
  job_summary :: string
  job_skills :: "string list"
  job_categories :: "string list"
  job_levels :: "string list"
  job_metadata :: "job_metadata option"
  job_embedding :: "vector option"
  job_embedding_updated_at :: "int option"

record preference_payload =
  role_families :: "string list"
  seniority_levels :: "string list"
  company_sizes :: "string list"
  industries_like :: "string list"
  industries_avoid :: "string list"

record profile_record =
  profile_user_id :: string
  profile_skills :: "string list option"
  profile_resume_embedding :: "vector option"

record fit_payload =
  fit_score :: int
  fit_summary :: string
  fit_matched :: "string list"
  fit_gaps :: "string list"
  fit_last_calculated :: "int option"
  fit_updated_at :: "int option"

record job_user_link =
  link_state :: "string option"
  link_resume_score_cache :: "fit_payload option"

text \<open>The three collections of the document store the engine reads and writes.\<close>

record database =
  profiles_collection :: "string \<rightharpoonup> profile_record"
  jobs_collection :: "string \<rightharpoonup> job_record"
  job_user_collection :: "string \<times> string \<rightharpoonup> job_user_link"

definition SIMILARITY_WEIGHT :: double where
  "SIMILARITY_WEIGHT = Fin 70"

definition PREFERENCE_BONUS :: real where
  "PREFERENCE_BONUS = 10"

definition extract_profile_skills :: "profile_record \<Rightarrow> string list" where
  "extract_profile_skills profile = (case profile_skills profile of None \<Rightarrow> [] | Some s \<Rightarrow> s)"

definition lower_set :: "string list \<Rightarrow> string set" where
  "lower_set items = set (map py_lower items)"

text \<open>One rule of the evaluator: when the condition holds, change the score and append
  the reason.\<close>

definition apply_rule ::
  "bool \<Rightarrow> real \<Rightarrow> string \<Rightarrow> real \<times> string list \<Rightarrow> real \<times> string list" where
  "apply_rule fires delta reason acc =
     (if fires then (fst acc + delta, snd acc @ [reason]) else acc)"

definition evaluate_preferences ::
  "job_record \<Rightarrow> preference_payload \<Rightarrow> string list \<Rightarrow> real \<times> string list" where
  "evaluate_preferences job preferences profile_skill_list =
     (let categories = lower_set (job_categories job);
          acc1 = apply_rule (role_families preferences \<noteq> []
                             \<and> categories \<inter> lower_set (role_families preferences) \<noteq> {})
                   PREFERENCE_BONUS ''Matches preferred role focus'' (0, []);
          levels = lower_set (job_levels job);
          acc2 = apply_rule (seniority_levels preferences \<noteq> []
                             \<and> levels \<inter> lower_set (seniority_levels preferences) \<noteq> {})
                   PREFERENCE_BONUS ''Requested seniority level'' acc1;
          industries = (case job_metadata job of
                          None \<Rightarrow> {}
                        | Some metadata \<Rightarrow> lower_set (meta_industry metadata));
          acc3 = (case job_metadata job of
                    None \<Rightarrow> acc2
                  | Some metadata \<Rightarrow>
                      let company_size = py_lower (meta_company_size metadata) in
                      apply_rule (company_sizes preferences \<noteq> [] \<and> company_size \<noteq> []
                                  \<and> list_ex (\<lambda>item. company_size = py_lower item)
                                       (company_sizes preferences))
                        PREFERENCE_BONUS ''Preferred company size'' acc2);
          acc4 = apply_rule (industries_like preferences \<noteq> []
                             \<and> industries \<inter> lower_set (industries_like preferences) \<noteq> {})
                   PREFERENCE_BONUS ''Preferred industry'' acc3;
          acc5 = apply_rule (industries_avoid preferences \<noteq> []
                             \<and> industries \<inter> lower_set (industries_avoid preferences) \<noteq> {})
                   (- PREFERENCE_BONUS) ''Industry on avoid list'' acc4;
          job_skill_set = lower_set (job_skills job);
          profile_skill_set = lower_set profile_skill_list;
          overlap = job_skill_set \<inter> profile_skill_set
      in apply_rule (job_skill_set \<noteq> {} \<and> profile_skill_set \<noteq> {} \<and> overlap \<noteq> {})
           PREFERENCE_BONUS
           (''Skill overlap: '' @ take 60 (py_join '', '' (sorted_list_of_set overlap))) acc5)"

definition job_to_text :: "job_record \<Rightarrow> string" where
  "job_to_text job =
     (let description = (if job_description job \<noteq> [] then job_description job
                         else job_summary job);
          chunks = [job_title job, job_company job]
                   @ (if description \<noteq> [] then [description] else [])
                   @ (if job_skills job \<noteq> []
                      then [''Skills: '' @ py_join '', '' (job_skills job)] else [])
                   @ (if job_categories job \<noteq> []
                      then [''Categories: '' @ py_join '', '' (job_categories job)] else [])
                   @ (if job_levels job \<noteq> []
                      then [''Levels: '' @ py_join '', '' (job_levels job)] else [])
      in py_join ('' '' @ [CHR 0x0A]) (filter (\<lambda>chunk. chunk \<noteq> []) chunks))"

definition embed_text :: "embedder \<Rightarrow> string \<Rightarrow> py_error + vector option" where
  "embed_text provider text =
     (let snippet = py_strip text in
      if snippet = [] then Inr None
      else (case embed_for_matching provider [snippet] of
              Inl e \<Rightarrow> Inl e
            | Inr vectors \<Rightarrow> Inr (case vectors of [] \<Rightarrow> None | v # rest \<Rightarrow> Some v)))"

text \<open>\<^verbatim>\<open>update_one\<close> without upsert changes the document with the given id, if any.\<close>

definition update_job :: "database \<Rightarrow> string \<Rightarrow> (job_record \<Rightarrow> job_record) \<Rightarrow> database" where
  "update_job db ident change =
     (case jobs_collection db ident of
        None \<Rightarrow> db
      | Some doc \<Rightarrow> db\<lparr>jobs_collection := (jobs_collection db)(ident \<mapsto> change doc)\<rparr>)"

text \<open>A Python list is truthy when it is not empty; \<open>None\<close> is falsy.\<close>

definition truthy_vector :: "vector option \<Rightarrow> bool" where
  "truthy_vector v = (case v of None \<Rightarrow> False | Some xs \<Rightarrow> xs \<noteq> [])"

definition ensure_job_embedding ::
  "embedder \<Rightarrow> int \<Rightarrow> database \<Rightarrow> job_record \<Rightarrow> database \<times> (py_error + vector option)" where
  "ensure_job_embedding provider now db job =
     (if truthy_vector (job_embedding job) then (db, Inr (job_embedding job))
      else (case embed_text provider (job_to_text job) of
              Inl e \<Rightarrow> (db, Inl e)
            | Inr vec \<Rightarrow>
                if truthy_vector vec then
                  (update_job db (job_id job)
                     (\<lambda>doc. doc\<lparr>job_embedding := vec, job_embedding_updated_at := Some now\<rparr>),
                   Inr vec)
                else (db, Inr vec)))"

record ranked_entry =
  ranked_job :: job_record
  ranked_score :: double
  ranked_reasons :: "string list"

text \<open>
  \<^verbatim>\<open>total_score = min(100.0, max(0.0, sim_score + pref_score))\<close>, stored as
  \<^verbatim>\<open>round(total_score, 2)\<close>. The preference score is a float that
  \<^verbatim>\<open>_evaluate_preferences\<close> builds from \<^verbatim>\<open>0.0\<close> by adding or subtracting \<^verbatim>\<open>10.0\<close> at
  most six times; these sums are exact, so it is kept as its value and enters the float
  sum as \<open>Fin pref_score\<close>.
\<close>

definition make_ranked_entry ::
  "job_record \<Rightarrow> double \<Rightarrow> real \<Rightarrow> string list \<Rightarrow> ranked_entry" where
  "make_ranked_entry job sim_score pref_score reasons =
     (let total_score = py_min (Fin 100) (py_max (Fin 0) (fl_add sim_score (Fin pref_score))) in
      \<lparr>ranked_job = job, ranked_score = py_round_ndigits total_score 2,
       ranked_reasons = reasons\<rparr>)"

text \<open>The percentage of the reason text, \<^verbatim>\<open>int(similarity * 100)\<close>.\<close>

definition similarity_percent :: "double \<Rightarrow> py_error + int" where
  "similarity_percent sim = py_int (fl_mul sim (Fin 100))"

text \<open>The body of the loop of \<^verbatim>\<open>_rank_jobs\<close>, for one job.\<close>

definition rank_one ::
  "embedder \<Rightarrow> int \<Rightarrow> preference_payload \<Rightarrow> string list \<Rightarrow> vector option \<Rightarrow>
   database \<Rightarrow> job_record \<Rightarrow> database \<times> (py_error + ranked_entry)" where
  "rank_one provider now preferences profile_skill_list resume_vector db job =
     (case evaluate_preferences job preferences profile_skill_list of
        (pref_score, pref_reasons) \<Rightarrow>
          if truthy_vector resume_vector then
            (case ensure_job_embedding provider now db job of
               (db', Inl e) \<Rightarrow> (db', Inl e)
             | (db', Inr job_vector) \<Rightarrow>
                 if truthy_vector job_vector then
                   (case cosine_similarity (the resume_vector) (the job_vector) of
                      Inl e \<Rightarrow> (db', Inl e)
                    | Inr sim \<Rightarrow>
                        if dbl_less (Fin 0) sim then
                          (case similarity_percent sim of
                             Inl e \<Rightarrow> (db', Inl e)
                           | Inr percent \<Rightarrow>
                               (db', Inr (make_ranked_entry job (fl_mul sim SIMILARITY_WEIGHT)
                                  pref_score
                                  (pref_reasons @ [''Resume alignment ''
                                     @ py_str_int percent @ ''%'']))))
                        else (db', Inr (make_ranked_entry job (Fin 0) pref_score pref_reasons)))
                 else (db', Inr (make_ranked_entry job (Fin 0) pref_score pref_reasons)))
          else (db, Inr (make_ranked_entry job (Fin 0) pref_score pref_reasons)))"

fun rank_loop ::
  "embedder \<Rightarrow> int \<Rightarrow> preference_payload \<Rightarrow> string list \<Rightarrow> vector option \<Rightarrow>
   database \<Rightarrow> job_record list \<Rightarrow> ranked_entry list \<Rightarrow>
   database \<times> (py_error + ranked_entry list)" where
  "rank_loop provider now preferences profile_skill_list resume_vector db [] ranked =
     (db, Inr ranked)"
| "rank_loop provider now preferences profile_skill_list resume_vector db (job # jobs) ranked =
     (case rank_one provider now preferences profile_skill_list resume_vector db job of
        (db', Inl e) \<Rightarrow> (db', Inl e)
      | (db', Inr entry) \<Rightarrow>
          rank_loop provider now preferences profile_skill_list resume_vector db' jobs
            (ranked @ [entry]))"

text \<open>
  \<^verbatim>\<open>ranked.sort(key=..., reverse=True)\<close> is a stable sort by descending score: entries
  with equal scores keep their order. Every score is the rounding of a total between 0
  and 100, so it is finite, and the sort compares the values. \<open>sort_key\<close> is a stable
  insertion sort in ascending order of the key, here the negated value of the score.
\<close>

definition rank_jobs ::
  "embedder \<Rightarrow> int \<Rightarrow> database \<Rightarrow> job_record list \<Rightarrow> preference_payload \<Rightarrow>
   profile_record \<Rightarrow> vector option \<Rightarrow> database \<times> (py_error + ranked_entry list)" where
  "rank_jobs provider now db jobs preferences profile resume_vector =
     (case rank_loop provider now preferences (extract_profile_skills profile)
             resume_vector db jobs [] of
        (db', Inl e) \<Rightarrow> (db', Inl e)
      | (db', Inr ranked) \<Rightarrow>
          (db', Inr (sort_key (\<lambda>item. - fin_value (ranked_score item)) ranked)))"

text \<open>What the specification says the skill reason lists: the overlapping skills as the
  job spells them.\<close>

definition spec_skill_overlap_reason :: "job_record \<Rightarrow> string list \<Rightarrow> string" where
  "spec_skill_overlap_reason job profile_skill_list =
     ''Skill overlap: '' @ take 60 (py_join '', ''
        (sort (remdups (filter (\<lambda>skill. py_lower skill \<in> lower_set profile_skill_list)
                          (job_skills job)))))"

section \<open>resume\_fit\_service: the cached fit score\<close>

definition CACHE_TTL_HOURS :: int where
  "CACHE_TTL_HOURS = 24"

text \<open>\<^verbatim>\<open>timedelta(hours=h)\<close>, in microseconds.\<close>

definition timedelta_hours :: "int \<Rightarrow> int" where
  "timedelta_hours h = h * 3600 * 1000000"

definition collect_profile_skills :: "profile_record \<Rightarrow> string list" where
  "collect_profile_skills profile = (case profile_skills profile of None \<Rightarrow> [] | Some s \<Rightarrow> s)"

fun normalize_skill_loop :: "string list \<Rightarrow> string list \<Rightarrow> string list" where
  "normalize_skill_loop unique [] = unique"
| "normalize_skill_loop unique (item # items) =
     (let cleaned = py_strip item in
      if cleaned \<noteq> [] \<and> py_lower cleaned \<notin> set (map py_lower unique)
      then normalize_skill_loop (unique @ [cleaned]) items
      else normalize_skill_loop unique items)"

definition normalize_skill_set :: "string list \<Rightarrow> string list" where
  "normalize_skill_set vals = normalize_skill_loop [] vals"

text \<open>
  A dictionary comprehension \<^verbatim>\<open>{item.lower(): item for item in xs}\<close>: a key keeps the
  place of its first insertion and the value of its last.
\<close>

fun dict_set :: "(string \<times> string) list \<Rightarrow> string \<Rightarrow> string \<Rightarrow> (string \<times> string) list" where
  "dict_set [] k v = [(k, v)]"
| "dict_set ((k', v') # rest) k v =
     (if k' = k then (k, v) # rest else (k', v') # dict_set rest k v)"

definition lower_dict :: "string list \<Rightarrow> (string \<times> string) list" where
  "lower_dict items = foldl (\<lambda>d item. dict_set d (py_lower item) item) [] items"

record skill_overlap_result =
  overlap_matched :: "string list"
  overlap_gaps :: "string list"

definition skill_overlap :: "string list \<Rightarrow> string list \<Rightarrow> skill_overlap_result" where
  "skill_overlap profile_skill_list job_skill_list =
     (let profile_set = lower_dict profile_skill_list;
          job_set = lower_dict job_skill_list;
          matched = map snd (filter (\<lambda>kv. fst kv \<in> fst ` set job_set) profile_set);
          gaps = map snd (filter (\<lambda>kv. fst kv \<notin> fst ` set profile_set) job_set)
      in \<lparr>overlap_matched = sort matched, overlap_gaps = sort gaps\<rparr>)"

definition load_profile :: "database \<Rightarrow> string \<Rightarrow> profile_record option" where
  "load_profile db user_id = profiles_collection db user_id"

text \<open>
  \<^verbatim>\<open>get_job_detail\<close> parses the id as an \<^verbatim>\<open>ObjectId\<close> (24 hexadecimal digits) and
  returns \<open>None\<close> when that fails or no job has the id. The jobs collection is keyed by
  the id in lower-case hexadecimal.
\<close>

definition is_hex_digit :: "char \<Rightarrow> bool" where
  "is_hex_digit c = (c \<in> set ''0123456789abcdefABCDEF'')"

definition get_job_detail :: "database \<Rightarrow> string \<Rightarrow> job_record option" where
  "get_job_detail db ident =
     (if length ident = 24 \<and> list_all is_hex_digit ident
      then jobs_collection db (py_lower ident) else None)"

definition cache_resume_score ::
  "int \<Rightarrow> database \<Rightarrow> string \<Rightarrow> string \<Rightarrow> fit_payload \<Rightarrow> database" where
  "cache_resume_score now db user_id ident payload =
     (let stored = payload\<lparr>fit_updated_at := Some now\<rparr>;
          link = (case job_user_collection db (user_id, ident) of
                    None \<Rightarrow> \<lparr>link_state = None, link_resume_score_cache = Some stored\<rparr>
                  | Some old \<Rightarrow> old\<lparr>link_resume_score_cache := Some stored\<rparr>)
      in db\<lparr>job_user_collection := (job_user_collection db)((user_id, ident) \<mapsto> link)\<rparr>)"

text \<open>
  The names bound at module scope in \<^verbatim>\<open>recommendation_service.py\<close>: its imports, its
  four constants and its functions, in source order. Reading any other attribute of the
  module raises \<^verbatim>\<open>AttributeError\<close>.
\<close>

definition recommendation_service_names :: "string list" where
  "recommendation_service_names =
     [''asyncio'', ''datetime'', ''Any'', ''Dict'', ''List'', ''Optional'', ''Tuple'',
      ''ObjectId'', ''jobs_collection'', ''job_user_collection'', ''profiles_collection'',
      ''GuestRecommendationRequest'', ''PreferencePayload'', ''cosine_similarity'',
      ''embed_for_matching'', ''logger'', ''DEFAULT_LIMIT'', ''MAX_CANDIDATES'',
      ''SIMILARITY_WEIGHT'', ''PREFERENCE_BONUS'', ''_normalize_strings'',
      ''_profile_to_text'', ''_job_to_text'', ''_embed_text'', ''_ensure_resume_embedding'',
      ''_ensure_job_embedding'', ''_base_job_query'', ''_load_jobs'',
      ''_extract_profile_skills'', ''_evaluate_preferences'', ''_rank_jobs'',
      ''_fetch_user_states'', ''_serialize_job_result'', ''recommend_for_user'',
      ''recommend_for_guest'', ''get_job_detail'', ''upsert_job'', ''mark_job_status'',
      ''save_job_for_user'', ''delete_saved_job'', ''list_user_jobs'', ''cache_resume_score'']"

definition module_getattr :: "string \<Rightarrow> py_error + unit" where
  "module_getattr name =
     (if name \<in> set recommendation_service_names then Inr ()
      else Inl (AttributeError name))"

text \<open>
  \<^verbatim>\<open>resume_fit_service\<close> calls three functions through the module that are not among
  these names. The record below stands for whatever such functions would compute; the
  code reaches them only after the attribute lookup has succeeded.
\<close>

record unbound_functions =
  impl_get_cached_resume_score ::
    "database \<Rightarrow> string \<Rightarrow> string \<Rightarrow> py_error + fit_payload option"
  impl_get_resume_embedding :: "profile_record \<Rightarrow> py_error + vector option"
  impl_get_job_embedding :: "job_record \<Rightarrow> py_error + vector option"

definition fit_summary_bits ::
  "double \<Rightarrow> skill_overlap_result \<Rightarrow> py_error + string list" where
  "fit_summary_bits sim overlap =
     (case (if truthy_double sim
            then (case similarity_percent sim of
                    Inl e \<Rightarrow> Inl e
                  | Inr percent \<Rightarrow>
                      Inr [''Overall similarity '' @ py_str_int percent @ ''%''])
            else Inr []) of
        Inl e \<Rightarrow> Inl e
      | Inr first \<Rightarrow>
          let bits = first
                 @ (if overlap_matched overlap \<noteq> []
                    then [''Matched skills: '' @ py_join '', '' (overlap_matched overlap)]
                    else [])
                 @ (if overlap_gaps overlap \<noteq> []
                    then [''Consider highlighting: ''
                          @ py_join '', '' (take 5 (overlap_gaps overlap))]
                    else [])
          in Inr (if bits = []
                  then [''No direct overlap detected; tailor your resume to highlight relevant skills.'']
                  else bits))"

definition compute_resume_fit ::
  "unbound_functions \<Rightarrow> int \<Rightarrow> database \<Rightarrow> string \<Rightarrow> job_record \<Rightarrow> py_error + fit_payload" where
  "compute_resume_fit impl now db user_id job =
     (case load_profile db user_id of
        None \<Rightarrow> Inl (ValueError ''Profile not found for resume scoring'')
      | Some profile \<Rightarrow>
     (case module_getattr ''get_resume_embedding'' of
        Inl e \<Rightarrow> Inl e
      | Inr u1 \<Rightarrow>
     (case impl_get_resume_embedding impl profile of
        Inl e \<Rightarrow> Inl e
      | Inr resume_vector \<Rightarrow>
     (case module_getattr ''get_job_embedding'' of
        Inl e \<Rightarrow> Inl e
      | Inr u2 \<Rightarrow>
     (case impl_get_job_embedding impl job of
        Inl e \<Rightarrow> Inl e
      | Inr job_vector \<Rightarrow>
     (case (if truthy_vector resume_vector \<and> truthy_vector job_vector
            then (case cosine_similarity (the resume_vector) (the job_vector) of
                    Inl e \<Rightarrow> Inl e
                  | Inr c \<Rightarrow> Inr (py_max (Fin 0) c))
            else Inr (Fin 0)) of
        Inl e \<Rightarrow> Inl e
      | Inr sim \<Rightarrow>
          let profile_skill_list = normalize_skill_set (collect_profile_skills profile);
              job_skill_list = normalize_skill_set (job_skills job);
              overlap = skill_overlap profile_skill_list job_skill_list;
              match_ratio = (if job_skill_list \<noteq> []
                             then rnd (real (length (overlap_matched overlap))
                                       / real (length job_skill_list))
                             else Fin 0)
          in (case py_round_double
                     (fl_add (fl_mul sim (Fin 60)) (fl_mul match_ratio (Fin 40))) of
                Inl e \<Rightarrow> Inl e
              | Inr score \<Rightarrow>
                  (case fit_summary_bits sim overlap of
                     Inl e \<Rightarrow> Inl e
                   | Inr summary_bits \<Rightarrow>
                       Inr \<lparr>fit_score = min 100 (max 0 score),
                            fit_summary = take 400 (py_join '' | '' summary_bits),
                            fit_matched = overlap_matched overlap,
                            fit_gaps = overlap_gaps overlap,
                            fit_last_calculated = Some now,
                            fit_updated_at = None\<rparr>))))))))"

text \<open>The timestamp of a cache entry: \<^verbatim>\<open>updated_at\<close>, or else \<^verbatim>\<open>last_calculated\<close>.\<close>

definition cache_timestamp :: "fit_payload \<Rightarrow> int option" where
  "cache_timestamp cached =
     (case fit_updated_at cached of Some t \<Rightarrow> Some t | None \<Rightarrow> fit_last_calculated cached)"

definition cache_is_fresh :: "int \<Rightarrow> fit_payload option \<Rightarrow> bool" where
  "cache_is_fresh now cached =
     (case cached of
        None \<Rightarrow> False
      | Some entry \<Rightarrow>
          (case cache_timestamp entry of
             None \<Rightarrow> False
           | Some t \<Rightarrow> now - t < timedelta_hours CACHE_TTL_HOURS))"

definition get_or_create_resume_fit ::
  "unbound_functions \<Rightarrow> int \<Rightarrow> database \<Rightarrow> string \<Rightarrow> string \<Rightarrow>
   database \<times> (py_error + fit_payload)" where
  "get_or_create_resume_fit impl now db user_id ident =
     (case module_getattr ''get_cached_resume_score'' of
        Inl e \<Rightarrow> (db, Inl e)
      | Inr u1 \<Rightarrow>
     (case impl_get_cached_resume_score impl db user_id ident of
        Inl e \<Rightarrow> (db, Inl e)
      | Inr cached \<Rightarrow>
          if cache_is_fresh now cached then (db, Inr (the cached))
          else
            (case module_getattr ''get_job_detail'' of
               Inl e \<Rightarrow> (db, Inl e)
             | Inr u2 \<Rightarrow>
            (case get_job_detail db ident of
               None \<Rightarrow> (db, Inl (ValueError ''Job not found''))
             | Some job \<Rightarrow>
            (case compute_resume_fit impl now db user_id job of
               Inl e \<Rightarrow> (db, Inl e)
             | Inr payload \<Rightarrow>
            (case module_getattr ''cache_resume_score'' of
               Inl e \<Rightarrow> (db, Inl e)
             | Inr u3 \<Rightarrow>
                 (cache_resume_score now db user_id ident payload, Inr payload)))))))"

section \<open>Quantities used in the statements\<close>

text \<open>
  The weight of a list of entries and of a list of cleaned requirements: 2 for a critical
  one, 1 for another.
\<close>

definition entries_weight :: "match_entry list \<Rightarrow> int" where
  "entries_weight entries = sum_list (map (\<lambda>entry. critical_weight (entry_critical entry)) entries)"

definition requirements_weight :: "cleaned_requirement list \<Rightarrow> int" where
  "requirements_weight items = sum_list (map (\<lambda>item. critical_weight (req_critical item)) items)"

text \<open>
  The best similarity of a requirement vector against the evidence vectors, as the inner
  loop keeps it: it starts at \<open>-1.0\<close> and is replaced by each cosine that is strictly
  greater.
\<close>

definition best_step :: "vector \<Rightarrow> double \<Rightarrow> vector \<Rightarrow> double" where
  "best_step req_vector best ev_vector =
     (case cosine_similarity_impl req_vector ev_vector of
        Inl e \<Rightarrow> best
      | Inr sim \<Rightarrow> if dbl_less best sim then sim else best)"

definition best_cosine :: "vector \<Rightarrow> vector list \<Rightarrow> double" where
  "best_cosine req_vector evidence_embeddings =
     foldl (best_step req_vector) (Fin (- 1)) evidence_embeddings"

text \<open>
  What a matched and a missing entry record about the similarity. The value \<open>b\<close> that is
  rounded to three decimals is the best cosine of one of the requirement vectors; when it
  is above \<open>-1\<close> it is the cosine of that vector with one of the evidence vectors. For a
  matched entry \<open>b\<close> is at least the bound \<open>lo\<close>; for a missing one it is not at least
  the threshold, and the similarity is absent when \<open>b\<close> is still \<open>-1\<close>.
\<close>

definition is_cosine_of :: "vector \<Rightarrow> vector list \<Rightarrow> double \<Rightarrow> bool" where
  "is_cosine_of req_vector evidence_embeddings b =
     list_ex (\<lambda>ev_vector. cosine_similarity_impl req_vector ev_vector = Inr b)
       evidence_embeddings"

definition matched_ok :: "double \<Rightarrow> vector list \<Rightarrow> vector list \<Rightarrow> match_entry \<Rightarrow> bool" where
  "matched_ok lo requirement_embeddings evidence_embeddings entry =
     list_ex (\<lambda>req_vector.
        let b = best_cosine req_vector evidence_embeddings in
        entry_similarity entry = Some (py_round_ndigits b 3)
        \<and> dbl_le lo b \<and> dbl_less (Fin (- 1)) b
        \<and> is_cosine_of req_vector evidence_embeddings b) requirement_embeddings"

definition missing_ok :: "double \<Rightarrow> vector list \<Rightarrow> vector list \<Rightarrow> match_entry \<Rightarrow> bool" where
  "missing_ok threshold requirement_embeddings evidence_embeddings entry =
     list_ex (\<lambda>req_vector.
        let b = best_cosine req_vector evidence_embeddings in
        if dbl_less (Fin (- 1)) b
        then entry_similarity entry = Some (py_round_ndigits b 3)
             \<and> \<not> dbl_le threshold b
             \<and> is_cosine_of req_vector evidence_embeddings b
        else entry_similarity entry = None) requirement_embeddings"

text \<open>The invariant of the inner loop: the entry kept so far belongs to the best
  similarity kept so far.\<close>

definition best_ok ::
  "cleaned_requirement \<Rightarrow> vector \<Rightarrow> vector list \<Rightarrow> match_entry option \<Rightarrow> double \<Rightarrow> bool" where
  "best_ok item req_vector evidence_embeddings best_match best_similarity =
     (case best_match of
        None \<Rightarrow> best_similarity = Fin (- 1)
      | Some entry \<Rightarrow>
          entry_requirement entry = req_label item
          \<and> entry_critical entry = req_critical item
          \<and> entry_similarity entry = Some (py_round_ndigits best_similarity 3)
          \<and> dbl_less (Fin (- 1)) best_similarity
          \<and> is_cosine_of req_vector evidence_embeddings best_similarity)"

text \<open>
  The aggregate as the specification writes it: the float sums of the base weights and of
  weight times score over the applicable dimensions only, and the rounded quotient.
\<close>

definition base_weight :: "string \<Rightarrow> double" where
  "base_weight key = (case map_of DIMENSION_WEIGHTS key of None \<Rightarrow> Fin 0 | Some v \<Rightarrow> v)"

definition applicable_dimensions ::
  "(string \<times> dimension_result) list \<Rightarrow> (string \<times> dimension_result) list" where
  "applicable_dimensions breakdown = filter (\<lambda>(key, result). dim_applicable result) breakdown"

definition spec_active_weight :: "(string \<times> dimension_result) list \<Rightarrow> double" where
  "spec_active_weight breakdown =
     py_sum (map (\<lambda>(key, result). base_weight key) (applicable_dimensions breakdown))"

definition spec_weighted_sum :: "(string \<times> dimension_result) list \<Rightarrow> double" where
  "spec_weighted_sum breakdown =
     py_sum (map (\<lambda>(key, result). fl_mul (base_weight key) (Fin (of_int (dim_score result))))
               (applicable_dimensions breakdown))"

definition spec_overall_score :: "(string \<times> dimension_result) list \<Rightarrow> int" where
  "spec_overall_score breakdown =
     (if applicable_dimensions breakdown = [] then 0
      else py_round (fin_value (rnd (fin_value (spec_weighted_sum breakdown)
                                     / fin_value (spec_active_weight breakdown)))))"

definition score_in_range :: "dimension_result \<Rightarrow> bool" where
  "score_in_range result = (0 \<le> dim_score result \<and> dim_score result \<le> 100)"

text \<open>A finite float between 0 and \<open>2 ^ n\<close>.\<close>

fun fin_upto :: "nat \<Rightarrow> double \<Rightarrow> bool" where
  "fin_upto n (Fin y) = (0 \<le> y \<and> y \<le> 2 ^ n)"
| "fin_upto n d = False"

text \<open>
  The result of \<^verbatim>\<open>_ensure_job_embedding\<close> without its write to the store; the
  \<^verbatim>\<open>sim_score\<close> of the ranking loop as the specification writes it,
  \<open>max(0, cosine) * 70\<close>, and 0 when a vector is absent; the clamped total; and the
  error one job raises in the loop, if any: from its embedding, or from the percentage
  of the reason text when the similarity is infinite.
\<close>

definition job_vector_of :: "embedder \<Rightarrow> job_record \<Rightarrow> py_error + vector option" where
  "job_vector_of provider job =
     (if truthy_vector (job_embedding job) then Inr (job_embedding job)
      else embed_text provider (job_to_text job))"

definition sim_score_of :: "embedder \<Rightarrow> vector option \<Rightarrow> job_record \<Rightarrow> double" where
  "sim_score_of provider resume_vector job =
     (if truthy_vector resume_vector then
        (case job_vector_of provider job of
           Inl e \<Rightarrow> Fin 0
         | Inr job_vector \<Rightarrow>
             if truthy_vector job_vector then
               (case cosine_similarity (the resume_vector) (the job_vector) of
                  Inl e \<Rightarrow> Fin 0
                | Inr sim \<Rightarrow> fl_mul (py_max (Fin 0) sim) SIMILARITY_WEIGHT)
             else Fin 0)
      else Fin 0)"

definition total_score_of ::
  "embedder \<Rightarrow> preference_payload \<Rightarrow> profile_record \<Rightarrow> vector option \<Rightarrow> job_record \<Rightarrow> double" where
  "total_score_of provider preferences profile resume_vector job =
     py_min (Fin 100) (py_max (Fin 0) (fl_add (sim_score_of provider resume_vector job)
        (Fin (fst (evaluate_preferences job preferences (extract_profile_skills profile))))))"

definition job_failure :: "embedder \<Rightarrow> vector option \<Rightarrow> job_record \<Rightarrow> py_error option" where
  "job_failure provider resume_vector job =
     (if truthy_vector resume_vector then
        (case job_vector_of provider job of
           Inl e \<Rightarrow> Some e
         | Inr job_vector \<Rightarrow>
             if truthy_vector job_vector then
               (case cosine_similarity (the resume_vector) (the job_vector) of
                  Inl e \<Rightarrow> Some e
                | Inr sim \<Rightarrow>
                    if dbl_less (Fin 0) sim then
                      (case similarity_percent sim of Inl e \<Rightarrow> Some e | Inr percent \<Rightarrow> None)
                    else None)
             else None)
      else None)"

text \<open>The sort key of \<^verbatim>\<open>_rank_jobs\<close>, negated for the descending order.\<close>

definition descending_score :: "ranked_entry \<Rightarrow> real" where
  "descending_score item = - fin_value (ranked_score item)"

text \<open>
  Two predicates of the proofs about rounding: a float that is zero or at least the
  smallest positive binary64 number, as every sum of squares is, and one that is zero or
  at least the square root of that number, as every norm is.
\<close>

definition sum_like :: "double \<Rightarrow> bool" where
  "sum_like d = (d = PInf \<or> d = NaN \<or> (\<exists>y. d = Fin y \<and> (y = 0 \<or> 2 powr (- 1074) \<le> y)))"

definition norm_like :: "double \<Rightarrow> bool" where
  "norm_like d = (d = PInf \<or> d = NaN \<or> (\<exists>y. d = Fin y \<and> (y = 0 \<or> 2 powr (- 537) \<le> y)))"

section \<open>Example inputs\<close>

text \<open>Concrete providers, requirements, jobs and stores on which the functions are run.\<close>

definition example_provider_orthogonal :: embedder where
  "example_provider_orthogonal texts = Inr [[Fin 1, Fin 0], [Fin 0, Fin 1], [Fin 1, Fin 0]]"



definition example_requirements :: "requirement_item list" where
  "example_requirements =
     [\<lparr>item_label = Some ''Python'', item_critical = True, item_notes = None\<rparr>,
      \<lparr>item_label = Some '' Docker '', item_critical = False, item_notes = None\<rparr>,
      \<lparr>item_label = Some ''  '', item_critical = True, item_notes = None\<rparr>]"


definition example_dimension :: "int \<Rightarrow> bool \<Rightarrow> dimension_result" where
  "example_dimension s a =
     \<lparr>dim_score = s, dim_applicable = a, dim_matched = [], dim_missing = [], dim_weight = 1\<rparr>"

definition example_job :: job_record where
  "example_job =
     \<lparr>job_id = ''j1'', job_title = ''Engineer'', job_company = ''Acme'',
      job_description = [], job_summary = [], job_skills = [''Python'', ''Docker''],
      job_categories = [''backend''], job_levels = [], job_metadata = None,
      job_embedding = None, job_embedding_updated_at = None\<rparr>"

definition example_preferences :: preference_payload where
  "example_preferences =
     \<lparr>role_families = [''backend'', ''data''], seniority_levels = [], company_sizes = [],
      industries_like = [], industries_avoid = []\<rparr>"

definition example_db :: database where
  "example_db = \<lparr>profiles_collection = Map.empty, jobs_collection = Map.empty,
                  job_user_collection = Map.empty\<rparr>"

definition example_profile :: profile_record where
  "example_profile = \<lparr>profile_user_id = ''u1'', profile_skills = None,
                       profile_resume_embedding = None\<rparr>"

definition no_preferences :: preference_payload where
  "no_preferences = \<lparr>role_families = [], seniority_levels = [], company_sizes = [],
                      industries_like = [], industries_avoid = []\<rparr>"

definition example_provider_down :: embedder where
  "example_provider_down texts = Inl (ProviderError ''unavailable'')"

definition plain_job :: "string \<Rightarrow> string \<Rightarrow> vector option \<Rightarrow> job_record" where
  "plain_job ident title cached =
     \<lparr>job_id = ident, job_title = title, job_company = [],
      job_description = [], job_summary = [], job_skills = [],
      job_categories = [], job_levels = [], job_metadata = None,
      job_embedding = cached, job_embedding_updated_at = None\<rparr>"

text \<open>Two jobs with the same score 55.0 (similarity 9/14 of 70, and one preference
  bonus), two whose totals differ only below the second decimal, and two whose totals
  lie on either side of 54.075.\<close>

definition job_a :: job_record where
  "job_a = (plain_job ''a'' ''A'' (Some [Fin 9, Fin 3, Fin 5, Fin 9]))
             \<lparr>job_categories := [''backend'']\<rparr>"

definition job_b :: job_record where
  "job_b = (plain_job ''b'' ''B'' (Some [Fin 9, Fin 5, Fin 3, Fin 9]))
             \<lparr>job_categories := [''backend'']\<rparr>"

definition job_near_a :: job_record where
  "job_near_a = plain_job ''na'' ''NA'' (Some [Fin 39999, Fin 400])"

definition job_near_b :: job_record where
  "job_near_b = plain_job ''nb'' ''NB'' (Some [Fin 89999, Fin 600])"

definition job_x :: job_record where
  "job_x = plain_job ''x'' ''X'' (Some [Fin 309, Fin 254, Fin 1, Fin 1, Fin 1])"

definition job_y :: job_record where
  "job_y = plain_job ''y'' ''Y'' (Some [Fin 676, Fin 554, Fin 41, Fin 6, Fin 4])"

definition job_unembedded :: job_record where
  "job_unembedded = plain_job ''c'' ''Engineer'' None"

definition job_blank :: job_record where
  "job_blank = (plain_job ''d'' [] None)\<lparr>job_description := ''  ''\<rparr>"

text \<open>A store holding a profile, a job and a cache entry written one hour before the
  call, and functions that read the cache and the stored embeddings.\<close>

definition example_job_ident :: string where
  "example_job_ident = ''64b7f0c2a1d3e4f5a6b7c8d9''"

definition example_cached_fit :: fit_payload where
  "example_cached_fit =
     \<lparr>fit_score = 80, fit_summary = ''Overall similarity 90%'', fit_matched = [''python''],
      fit_gaps = [], fit_last_calculated = Some 0, fit_updated_at = Some 0\<rparr>"

definition example_fit_db :: database where
  "example_fit_db =
     \<lparr>profiles_collection =
        [''u1'' \<mapsto> \<lparr>profile_user_id = ''u1'', profile_skills = Some [''python''],
                    profile_resume_embedding = Some [Fin 1, Fin 0]\<rparr>],
      jobs_collection =
        [example_job_ident \<mapsto>
           \<lparr>job_id = example_job_ident, job_title = ''Engineer'', job_company = ''Acme'',
            job_description = [], job_summary = [], job_skills = [''Python''],
            job_categories = [], job_levels = [], job_metadata = None,
            job_embedding = Some [Fin 1, Fin 0], job_embedding_updated_at = None\<rparr>],
      job_user_collection =
        [(''u1'', example_job_ident) \<mapsto>
           \<lparr>link_state = None, link_resume_score_cache = Some example_cached_fit\<rparr>]\<rparr>"

definition example_unbound :: unbound_functions where
  "example_unbound =
     \<lparr>impl_get_cached_resume_score =
        (\<lambda>db user_id ident.
           Inr (case job_user_collection db (user_id, ident) of
                  None \<Rightarrow> None
                | Some link \<Rightarrow> link_resume_score_cache link)),
      impl_get_resume_embedding = (\<lambda>profile. Inr (profile_resume_embedding profile)),
      impl_get_job_embedding = (\<lambda>job. Inr (job_embedding job))\<rparr>"

definition one_hour :: int where
  "one_hour = timedelta_hours 1"

section \<open>Helper facts\<close>

lemma py_round_bounds: "of_int (py_round x) - 1 / 2 \<le> x \<and> x \<le> of_int (py_round x) + 1 / 2"
  unfolding py_round_def Let_def by (auto; linarith)

lemma py_round_eqI:
  "of_int m - 1 / 2 < x \<Longrightarrow> x < of_int m + 1 / 2 \<Longrightarrow> py_round x = m"
  using py_round_bounds[of x] by linarith

lemma py_round_of_int: "py_round (of_int n) = n"
  by (rule py_round_eqI) simp_all

lemma py_round_ge_int: "of_int n \<le> x \<Longrightarrow> n \<le> py_round x"
  using py_round_bounds[of x] by linarith

lemma py_round_le_int: "x \<le> of_int n \<Longrightarrow> py_round x \<le> n"
  using py_round_bounds[of x] by linarith

lemma ulp_exponent_ge: "- 1074 \<le> ulp_exponent x"
  by (simp add: ulp_exponent_def)

lemma ulp_exponent_eqI:
  fixes k :: int
  assumes "x \<noteq> 0" "- 1074 \<le> k"
    and lo: "2 powr of_int (k + 52) \<le> \<bar>x\<bar> \<or> k = - 1074"
    and hi: "\<bar>x\<bar> < 2 powr of_int (k + 53)"
  shows "ulp_exponent x = k"
proof -
  have pos: "0 < \<bar>x\<bar>" using assms(1) by simp
  have up: "\<lfloor>log 2 \<bar>x\<bar>\<rfloor> \<le> k + 52"
  proof -
    have "log 2 \<bar>x\<bar> < of_int (k + 53)"
      using hi pos by (simp add: log_less_iff)
    then have "\<lfloor>log 2 \<bar>x\<bar>\<rfloor> < k + 53" by linarith
    then show ?thesis by simp
  qed
  show ?thesis
  proof (cases "2 powr of_int (k + 52) \<le> \<bar>x\<bar>")
    case True
    then have "of_int (k + 52) \<le> log 2 \<bar>x\<bar>"
      using pos by (simp add: le_log_iff)
    then have "k + 52 \<le> \<lfloor>log 2 \<bar>x\<bar>\<rfloor>" by linarith
    with up have "\<lfloor>log 2 \<bar>x\<bar>\<rfloor> = k + 52" by simp
    then show ?thesis using assms(2) by (simp add: ulp_exponent_def)
  next
    case False
    with lo have k: "k = - 1074" by simp
    with up have "\<lfloor>log 2 \<bar>x\<bar>\<rfloor> \<le> - 1022" by simp
    then show ?thesis by (simp add: ulp_exponent_def k)
  qed
qed

text \<open>Above the subnormal range the leading bit of \<open>x\<close> is 52 places above the unit.\<close>

lemma ulp_exponent_normal:
  assumes "x \<noteq> 0" "- 1074 < ulp_exponent x"
  shows "2 powr of_int (ulp_exponent x + 52) \<le> \<bar>x\<bar>"
proof -
  have pos: "0 < \<bar>x\<bar>" using assms(1) by simp
  from assms(2) have "ulp_exponent x = \<lfloor>log 2 \<bar>x\<bar>\<rfloor> - 52"
    by (auto simp: ulp_exponent_def max_def split: if_splits)
  then have "of_int (ulp_exponent x + 52) \<le> log 2 \<bar>x\<bar>" by simp
  then show ?thesis using pos by (simp add: le_log_iff del: of_int_add)
qed

lemma powr_int_diff: "2 powr (real a - real b) = (2::real) ^ a / 2 ^ b"
  by (simp add: powr_diff powr_realpow)

lemma powr_le_power: "k \<le> int n \<Longrightarrow> 2 powr of_int k \<le> (2::real) ^ n"
proof -
  assume "k \<le> int n"
  then have "(2::real) powr of_int k \<le> 2 powr of_int (int n)"
    by (intro powr_mono) simp_all
  also have "\<dots> = 2 ^ n" by (simp add: powr_realpow)
  finally show ?thesis .
qed

lemma rnd_nonneg_cases:
  assumes "0 \<le> x"
  shows "rnd x = PInf \<or> (\<exists>y. rnd x = Fin y \<and> (y = 0 \<or> 2 powr (- 1074) \<le> y))"
proof (cases "x = 0")
  case True
  then show ?thesis by (simp add: rnd_def)
next
  case False
  with assms have pos: "0 < x" by simp
  define u :: real where "u = 2 powr of_int (ulp_exponent x)"
  define m where "m = py_round (x / u)"
  have upos: "0 < u" by (simp add: u_def)
  have "0 \<le> x / u" using pos upos by simp
  then have m0: "0 \<le> m" unfolding m_def using py_round_ge_int[of 0 "x / u"] by simp
  have ulo: "2 powr (- 1074) \<le> u"
    unfolding u_def using ulp_exponent_ge[of x] by (intro powr_mono) simp_all
  have r: "rnd x = (if 2 ^ 1024 \<le> \<bar>of_int m * u\<bar> then PInf else Fin (of_int m * u))"
    using pos by (simp add: rnd_def Let_def u_def m_def)
  show ?thesis
  proof (cases "m = 0")
    case True
    then show ?thesis by (simp add: r)
  next
    case False
    with m0 have "1 \<le> m" by simp
    then have "(1::real) \<le> of_int m" by simp
    then have "1 * u \<le> of_int m * u" using upos by (intro mult_right_mono) simp_all
    with ulo have "2 powr (- 1074) \<le> of_int m * u" by simp
    then show ?thesis by (auto simp: r)
  qed
qed

lemma rnd_lower:
  fixes k :: int
  assumes k: "- 1074 \<le> k" and x: "2 powr of_int k \<le> x"
  shows "rnd x = PInf \<or> (\<exists>y. rnd x = Fin y \<and> 2 powr of_int k \<le> y)"
proof -
  have pos: "0 < x" using x by (rule less_le_trans[rotated]) simp
  define e where "e = ulp_exponent x"
  define u :: real where "u = 2 powr of_int e"
  define m where "m = py_round (x / u)"
  have upos: "0 < u" by (simp add: u_def)
  have r: "rnd x = (if 2 ^ 1024 \<le> \<bar>of_int m * u\<bar> then PInf else Fin (of_int m * u))"
    using pos by (simp add: rnd_def Let_def u_def m_def e_def)
  have "2 powr of_int k \<le> of_int m * u"
  proof (cases "e \<le> k")
    case True
    define n where "n = nat (k - e)"
    have ke: "k = e + int n" using True by (simp add: n_def)
    have pk: "2 powr of_int k = 2 ^ n * u"
      unfolding u_def ke by (simp add: powr_add powr_realpow mult.commute)
    have "of_int (2 ^ n) \<le> x / u"
      using x upos unfolding pk by (simp add: field_simps)
    then have "2 ^ n \<le> m" unfolding m_def by (rule py_round_ge_int)
    then have "(of_int (2 ^ n) :: real) \<le> of_int m" by (simp only: of_int_le_iff)
    then have "2 ^ n * u \<le> of_int m * u" using upos by (intro mult_right_mono) simp_all
    then show ?thesis by (simp only: pk)
  next
    case False
    then have ek: "k < e" by simp
    with k have "- 1074 < ulp_exponent x" by (simp add: e_def)
    from ulp_exponent_normal[OF _ this] pos
    have "2 powr of_int (e + 52) \<le> x" by (simp add: e_def)
    moreover have "2 powr of_int (e + 52) = 2 ^ 52 * u"
      unfolding u_def by (simp add: powr_add mult.commute)
    ultimately have "of_int 1 \<le> x / u" using upos by (simp add: field_simps)
    then have "1 \<le> m" unfolding m_def by (rule py_round_ge_int)
    then have "(1::real) \<le> of_int m" by simp
    then have "1 * u \<le> of_int m * u" using upos by (intro mult_right_mono) simp_all
    moreover have "2 powr of_int k \<le> u"
      unfolding u_def using ek by (intro powr_mono) simp_all
    ultimately show ?thesis by simp
  qed
  then show ?thesis by (auto simp: r)
qed

lemma sum_like_rnd: "0 \<le> x \<Longrightarrow> sum_like (rnd x)"
  using rnd_nonneg_cases[of x] by (auto simp: sum_like_def)

lemma rnd_zero: "rnd 0 = Fin 0"
  by (simp add: rnd_def)

lemma sum_like_square: "sum_like (fl_mul x x)"
proof (cases x)
  case (Fin y)
  have "sum_like (rnd (y * y))" by (rule sum_like_rnd) simp
  then show ?thesis using Fin by simp
qed (simp_all add: sum_like_def)

lemma sum_like_nonneg: "sum_like (Fin y) \<Longrightarrow> 0 \<le> y"
proof -
  assume "sum_like (Fin y)"
  then have "y = 0 \<or> 2 powr (- 1074) \<le> y" by (simp add: sum_like_def)
  moreover have "(0::real) \<le> 2 powr (- 1074)" by simp
  ultimately show ?thesis by linarith
qed

lemma sum_like_add: "sum_like a \<Longrightarrow> sum_like b \<Longrightarrow> sum_like (fl_add a b)"
proof (cases a; cases b)
  fix x y assume "sum_like a" "sum_like b" "a = Fin x" "b = Fin y"
  then have "0 \<le> x + y" using sum_like_nonneg[of x] sum_like_nonneg[of y] by simp
  then show ?thesis using \<open>a = Fin x\<close> \<open>b = Fin y\<close> by (simp add: sum_like_rnd)
qed (simp_all add: sum_like_def)

lemma sum_like_foldl:
  "sum_like acc \<Longrightarrow> list_all sum_like ds \<Longrightarrow> sum_like (foldl fl_add acc ds)"
  by (induction ds arbitrary: acc) (simp_all add: sum_like_add)

lemma sum_like_sum_squares: "sum_like (sum_squares a)"
  unfolding sum_squares_def py_sum_def
  by (rule sum_like_foldl) (simp_all add: sum_like_def list_all_iff sum_like_square[unfolded sum_like_def])

lemma sqrt_two_powr: "sqrt (2 powr (- 1074)) = 2 powr (- 537)"
proof -
  have "sqrt (2 powr (- 1074)) = (2 powr (- 1074)) powr (1 / 2)"
    by (simp add: powr_half_sqrt)
  also have "\<dots> = 2 powr (- 537)" by (simp add: powr_powr)
  finally show ?thesis .
qed

lemma fl_sqrt_sum_like:
  assumes "sum_like d"
  shows "\<exists>n. fl_sqrt d = Inr n \<and> norm_like n"
proof (cases d)
  case (Fin y)
  with assms have y: "y = 0 \<or> 2 powr (- 1074) \<le> y" by (simp add: sum_like_def)
  have y0: "0 \<le> y" using assms Fin by (simp add: sum_like_nonneg)
  show ?thesis
  proof (cases "y = 0")
    case True
    then show ?thesis using Fin by (simp add: rnd_def norm_like_def)
  next
    case False
    with y have "2 powr (- 1074) \<le> y" by simp
    then have "sqrt (2 powr (- 1074)) \<le> sqrt y" by simp
    then have "2 powr of_int (- 537) \<le> sqrt y" by (simp add: sqrt_two_powr)
    from rnd_lower[OF _ this] have "norm_like (rnd (sqrt y))"
      by (auto simp: norm_like_def)
    then show ?thesis using Fin y0 by simp
  qed
qed (use assms in \<open>simp_all add: sum_like_def norm_like_def\<close>)

lemma norm_product_nonzero:
  assumes "norm_like a" "norm_like b" "\<not> dbl_eq a (Fin 0)" "\<not> dbl_eq b (Fin 0)"
  shows "fl_mul a b \<noteq> Fin 0"
proof (cases a; cases b)
  fix x y assume ab: "a = Fin x" "b = Fin y"
  with assms have x: "2 powr (- 537) \<le> x" and y: "2 powr (- 537) \<le> y"
    by (auto simp: norm_like_def)
  have p: "(0::real) \<le> 2 powr (- 537)" by simp
  then have "0 \<le> x" using x by linarith
  then have "2 powr (- 537) * 2 powr (- 537) \<le> x * y"
    using x y p by (intro mult_mono)
  moreover have "(2::real) powr (- 537) * 2 powr (- 537) = 2 powr of_int (- 1074)"
    by (simp add: powr_add[symmetric])
  ultimately have "2 powr of_int (- 1074) \<le> x * y" by simp
  moreover have pp: "(0::real) < 2 powr of_int (- 1074)" by simp
  ultimately have "rnd (x * y) = PInf \<or> (\<exists>z. rnd (x * y) = Fin z \<and> 0 < z)"
    using rnd_lower[of "- 1074" "x * y"] less_le_trans[OF pp] by fastforce
  then show ?thesis using ab by auto
next
  fix x assume "a = Fin x" "b = PInf"
  with assms show ?thesis by (auto simp: norm_like_def signed_inf_def)
next
  fix y assume "a = PInf" "b = Fin y"
  with assms show ?thesis by (auto simp: norm_like_def signed_inf_def)
qed (use assms in \<open>simp_all add: norm_like_def signed_inf_def\<close>)

lemma fl_div_nonzero: "d \<noteq> Fin 0 \<Longrightarrow> \<exists>r. fl_div n d = Inr r"
  by (cases n; cases d) simp_all

lemma cosine_similarity_impl_returns: "\<exists>r. cosine_similarity_impl a b = Inr r"
proof -
  obtain na where na: "fl_sqrt (sum_squares a) = Inr na" "norm_like na"
    using fl_sqrt_sum_like[OF sum_like_sum_squares[of a]] by blast
  obtain nb where nb: "fl_sqrt (sum_squares b) = Inr nb" "norm_like nb"
    using fl_sqrt_sum_like[OF sum_like_sum_squares[of b]] by blast
  show ?thesis
  proof (cases "dbl_eq na (Fin 0) \<or> dbl_eq nb (Fin 0)")
    case True
    then show ?thesis by (simp add: cosine_similarity_impl_def na nb)
  next
    case False
    then have "fl_mul na nb \<noteq> Fin 0"
      using norm_product_nonzero[OF na(2) nb(2)] by simp
    from fl_div_nonzero[OF this, of "dot_product a b"] False
    show ?thesis by (simp add: cosine_similarity_impl_def na nb)
  qed
qed

lemma fl_mul_commute: "fl_mul a b = fl_mul b a"
  by (cases a; cases b) (simp_all add: mult.commute)

lemma dot_product_commute: "dot_product a b = dot_product b a"
proof -
  have "map (\<lambda>(x, y). fl_mul x y) (zip a b) = map (\<lambda>(x, y). fl_mul x y) (zip b a)"
  proof (induction a arbitrary: b)
    case Nil
    then show ?case by simp
  next
    case (Cons x xs)
    then show ?case by (cases b) (simp_all add: fl_mul_commute)
  qed
  then show ?thesis by (simp add: dot_product_def)
qed

lemma cosine_similarity_impl_commute:
  "cosine_similarity_impl a b = cosine_similarity_impl b a"
proof -
  obtain na where na: "fl_sqrt (sum_squares a) = Inr na"
    using fl_sqrt_sum_like[OF sum_like_sum_squares[of a]] by blast
  obtain nb where nb: "fl_sqrt (sum_squares b) = Inr nb"
    using fl_sqrt_sum_like[OF sum_like_sum_squares[of b]] by blast
  show ?thesis
    by (auto simp: cosine_similarity_impl_def na nb dot_product_commute[of a b]
          fl_mul_commute[of na nb])
qed

lemma py_sum_zeros: "py_sum (replicate n (Fin 0)) = Fin 0"
  unfolding py_sum_def by (induction n) (simp_all add: rnd_zero)

lemma sum_squares_zeros: "sum_squares (replicate n (Fin 0)) = Fin 0"
proof -
  have "map (\<lambda>x. fl_mul x x) (replicate n (Fin 0)) = replicate n (Fin 0)"
    by (simp add: rnd_zero)
  then show ?thesis by (simp only: sum_squares_def py_sum_zeros)
qed

lemma cosine_similarity_impl_zero_norm:
  assumes "fl_sqrt (sum_squares a) = Inr (Fin 0) \<or> fl_sqrt (sum_squares b) = Inr (Fin 0)"
  shows "cosine_similarity_impl a b = Inr (Fin 0)"
proof -
  obtain na where na: "fl_sqrt (sum_squares a) = Inr na"
    using fl_sqrt_sum_like[OF sum_like_sum_squares[of a]] by blast
  obtain nb where nb: "fl_sqrt (sum_squares b) = Inr nb"
    using fl_sqrt_sum_like[OF sum_like_sum_squares[of b]] by blast
  from assms na nb have "na = Fin 0 \<or> nb = Fin 0" by auto
  then show ?thesis by (auto simp: cosine_similarity_impl_def na nb)
qed

lemma rnd_eval:
  fixes a b :: nat
  assumes k: "- 1074 \<le> int a - int b" "int a - int b \<le> 971"
    and lo: "2 ^ 52 * (2 ^ a / 2 ^ b) \<le> \<bar>x\<bar> \<or> int a - int b = - 1074"
    and hi: "\<bar>x\<bar> < 2 ^ 53 * (2 ^ a / 2 ^ b)"
    and m: "py_round (x / (2 ^ a / 2 ^ b)) = m"
    and ov: "\<bar>m\<bar> < 2 ^ 53 \<or> int a - int b < 971"
    and nz: "x \<noteq> 0"
    and y: "y = of_int m * (2 ^ a / 2 ^ b)"
  shows "rnd x = Fin y"
proof -
  let ?k = "int a - int b"
  define u :: real where "u = 2 ^ a / 2 ^ b"
  have upow: "u = 2 powr of_int ?k" by (simp add: u_def powr_int_diff)
  have upos: "0 < u" unfolding upow by simp
  have p52: "2 powr of_int (?k + 52) = 2 ^ 52 * u"
    unfolding upow by (simp add: powr_add powr_realpow[symmetric] mult.commute)
  have p53: "2 powr of_int (?k + 53) = 2 ^ 53 * u"
    unfolding upow by (simp add: powr_add powr_realpow[symmetric] mult.commute)
  have lo': "2 powr of_int (?k + 52) \<le> \<bar>x\<bar> \<or> ?k = - 1074"
    using lo unfolding p52 u_def .
  have hi': "\<bar>x\<bar> < 2 powr of_int (?k + 53)"
    using hi unfolding p53 u_def .
  have hi'': "\<bar>x\<bar> < 2 ^ 53 * u" using hi unfolding u_def .
  have m': "py_round (x / u) = m" using m unfolding u_def .
  have ue: "ulp_exponent x = ?k"
    by (rule ulp_exponent_eqI[OF nz k(1) lo' hi'])
  have mb: "\<bar>of_int m :: real\<bar> \<le> 2 ^ 53"
  proof -
    have "\<bar>x\<bar> / u < 2 ^ 53" using hi'' upos by (simp add: field_simps)
    moreover have "\<bar>x / u\<bar> = \<bar>x\<bar> / u" using upos by (simp add: abs_divide)
    ultimately have "\<bar>x / u\<bar> < 2 ^ 53" by (simp only:)
    then have "- (2 ^ 53) < x / u" "x / u < 2 ^ 53" by linarith+
    then have "- (2 ^ 53) \<le> m" "m \<le> 2 ^ 53"
      using py_round_ge_int[of "- (2 ^ 53)" "x / u"] py_round_le_int[of "x / u" "2 ^ 53"] m'
      by simp_all
    then show ?thesis by (simp add: abs_le_iff)
  qed
  have small: "\<bar>of_int m * u\<bar> < 2 ^ 1024"
  proof -
    have u971: "u \<le> 2 ^ 971"
      unfolding upow using k(2) by (intro powr_le_power) simp
    from ov show ?thesis
    proof
      assume "\<bar>m\<bar> < 2 ^ 53"
      then have "\<bar>m\<bar> \<le> 2 ^ 53 - 1" by simp
      then have "(of_int \<bar>m\<bar> :: real) \<le> of_int (2 ^ 53 - 1)" by (simp only: of_int_le_iff)
      then have "\<bar>of_int m :: real\<bar> \<le> 2 ^ 53 - 1" by simp
      then have "\<bar>of_int m :: real\<bar> * u \<le> (2 ^ 53 - 1) * 2 ^ 971"
        using u971 upos by (intro mult_mono) simp_all
      then have "\<bar>of_int m * u\<bar> \<le> (2 ^ 53 - 1) * 2 ^ 971"
        using upos by (simp only: abs_mult abs_of_pos)
      also have "\<dots> < (2::real) ^ 1024" by simp
      finally show ?thesis .
    next
      assume "?k < 971"
      then have "?k \<le> 970" by simp
      then have "u \<le> 2 ^ 970" unfolding upow by (intro powr_le_power) simp
      then have "\<bar>of_int m :: real\<bar> * u \<le> 2 ^ 53 * 2 ^ 970"
        using mb upos by (intro mult_mono) simp_all
      then have "\<bar>of_int m * u\<bar> \<le> 2 ^ 53 * 2 ^ 970"
        using upos by (simp only: abs_mult abs_of_pos)
      also have "\<dots> < (2::real) ^ 1024" by simp
      finally show ?thesis .
    qed
  qed
  have y': "y = of_int m * u" using y unfolding u_def .
  show ?thesis
    unfolding rnd_def Let_def ue upow[symmetric] m'
    using nz small y' by simp
qed

lemma rnd_of_int:
  assumes "\<bar>n\<bar> < 2 ^ 53"
  shows "rnd (of_int n) = Fin (of_int n)"
proof (cases "n = 0")
  case True
  then show ?thesis by (simp add: rnd_zero)
next
  case False
  define x :: real where "x = \<bar>of_int n\<bar>"
  have x1: "1 \<le> x" using False by (simp add: x_def)
  have xhi: "x < 2 ^ 53"
  proof -
    have "(of_int \<bar>n\<bar> :: real) < of_int (2 ^ 53)" using assms by (simp only: of_int_less_iff)
    then show ?thesis by (simp add: x_def)
  qed
  define e where "e = \<lfloor>log 2 x\<rfloor>"
  have e0: "0 \<le> e" unfolding e_def using x1 by simp
  have "log 2 x < 53" using xhi x1 by (simp add: log_less_iff powr_realpow[symmetric])
  then have e52: "e \<le> 52" unfolding e_def by linarith
  have lo: "2 powr of_int e \<le> x"
    using x1 by (simp add: e_def le_log_iff[symmetric])
  have hi: "x < 2 powr of_int (e + 1)"
  proof -
    have "log 2 x < of_int (e + 1)" unfolding e_def by linarith
    then show ?thesis using x1 by (simp add: log_less_iff del: of_int_add)
  qed
  define b where "b = nat (52 - e)"
  have eb: "e = 52 - int b" using e0 e52 by (simp add: b_def)
  have pe: "2 powr of_int e = (2::real) ^ 52 / 2 ^ b"
    unfolding eb using powr_int_diff[of 52 b] by simp
  have pe1: "2 powr of_int (e + 1) = (2::real) ^ 53 / 2 ^ b"
    using powr_int_diff[of 53 b] by (simp add: eb)
  show ?thesis
  proof (rule rnd_eval[where a = 0 and b = b and m = "n * 2 ^ b"])
    show "- 1074 \<le> int 0 - int b" using e0 by (simp add: b_def)
    show "int 0 - int b \<le> 971" by simp
    show "2 ^ 52 * (2 ^ 0 / 2 ^ b) \<le> \<bar>real_of_int n\<bar> \<or> int 0 - int b = - 1074"
      using lo unfolding pe x_def by simp
    show "\<bar>real_of_int n\<bar> < 2 ^ 53 * (2 ^ 0 / 2 ^ b)"
      using hi unfolding pe1 x_def by simp
    have "real_of_int n / (2 ^ 0 / 2 ^ b) = of_int (n * 2 ^ b)" by simp
    then show "py_round (real_of_int n / (2 ^ 0 / 2 ^ b)) = n * 2 ^ b"
      by (simp only: py_round_of_int)
    have "\<bar>real_of_int (n * 2 ^ b)\<bar> < 2 ^ 53"
      using hi unfolding pe1 x_def by (simp add: abs_mult field_simps)
    then have "\<bar>real_of_int (n * 2 ^ b)\<bar> < real_of_int (2 ^ 53)" by simp
    then have "\<bar>n * 2 ^ b\<bar> < 2 ^ 53" by (simp only: of_int_abs[symmetric] of_int_less_iff)
    then show "\<bar>n * 2 ^ b\<bar> < 2 ^ 53 \<or> int 0 - int b < 971" by simp
    show "real_of_int n \<noteq> 0" using False by simp
    show "real_of_int n = real_of_int (n * 2 ^ b) * (2 ^ 0 / 2 ^ b)" by simp
  qed
qed

lemma rnd_numeral: "(numeral w :: int) < 2 ^ 53 \<Longrightarrow> rnd (numeral w) = Fin (numeral w)"
  using rnd_of_int[of "numeral w"] by simp


lemma rnd_one: "rnd 1 = Fin 1"
  using rnd_of_int[of 1] by simp

lemma sqrt_13: "rnd (sqrt (13)) = Fin (8118979690322419 / 2251799813685248)"
proof (rule rnd_eval[where a = 0 and b = 51 and m = "8118979690322419"])
  have lo: "16237959380644837 / 4503599627370496 < sqrt (13)"
    by (rule real_less_rsqrt) (simp add: power2_eq_square)
  have hi: "sqrt (13) < 16237959380644839 / 4503599627370496"
    by (rule real_less_lsqrt) (simp_all add: power2_eq_square)
  show "py_round (sqrt (13) / (2 ^ 0 / 2 ^ 51)) = 8118979690322419"
    using lo hi by (intro py_round_eqI) (simp_all add: field_simps)
  show "2 ^ 52 * (2 ^ 0 / 2 ^ 51) \<le> \<bar>sqrt (13)\<bar> \<or> int 0 - int 51 = - 1074"
    using lo by simp
  show "\<bar>sqrt (13)\<bar> < 2 ^ 53 * (2 ^ 0 / 2 ^ 51)"
    using hi by simp
  show "sqrt (13) \<noteq> 0" using lo by simp
qed simp_all

lemma rnd_square_root_13: "rnd (65917831211867922725444174011561 / 5070602400912917605986812821504) = Fin (7318349394477055 / 562949953421312)"
  by (rule rnd_eval[where a = 0 and b = 49 and m = "7318349394477055"])
     (simp_all add: py_round_def)

lemma rnd_quotient_13: "rnd (7318349394477056 / 7318349394477055) = Fin (4503599627370497 / 4503599627370496)"
  by (rule rnd_eval[where a = 0 and b = 52 and m = "4503599627370497"])
     (simp_all add: py_round_def)

lemma cosine_2_3:
  "cosine_similarity_impl [Fin 2, Fin 3] [Fin 2, Fin 3] = Inr (Fin (4503599627370497 / 4503599627370496))"
  by (simp add: cosine_similarity_impl_def dot_product_def sum_squares_def py_sum_def
      rnd_numeral sqrt_13 rnd_square_root_13 rnd_quotient_13)

lemma clean_requirements_eq:
  "clean_requirements rs =
     map (\<lambda>item. \<lparr>req_label = py_strip (str_or_empty (item_label item)),
                    req_critical = item_critical item,
                    req_notes = str_or_empty (item_notes item)\<rparr>)
         (filter (\<lambda>item. py_strip (str_or_empty (item_label item)) \<noteq> []) rs)"
  by (induction rs) (simp_all add: Let_def)

lemma clean_evidence_empty_iff:
  "clean_evidence ts = [] \<longleftrightarrow> (\<forall>t\<in>set ts. py_strip t = [])"
  by (simp add: clean_evidence_def filter_empty_conv)

lemma strip_python: "py_strip ''Python'' = ''Python''"
  by (simp add: py_strip_def py_isspace_def)
lemma strip_docker: "py_strip '' Docker '' = ''Docker''"
  by (simp add: py_strip_def py_isspace_def)
lemma strip_blank: "py_strip ''  '' = []"
  by (simp add: py_strip_def py_isspace_def)

lemma requirements_weight_pos: "items \<noteq> [] \<Longrightarrow> 0 < requirements_weight items"
proof -
  have ge: "int (length xs) \<le> requirements_weight xs" for xs
    by (induction xs) (simp_all add: requirements_weight_def critical_weight_def)
  assume "items \<noteq> []"
  then have "0 < int (length items)" by simp
  with ge[of items] show ?thesis by linarith
qed

lemma clean_example_requirements:
  "clean_requirements example_requirements =
     [\<lparr>req_label = ''Python'', req_critical = True, req_notes = []\<rparr>,
      \<lparr>req_label = ''Docker'', req_critical = False, req_notes = []\<rparr>]"
  by (simp add: example_requirements_def str_or_empty_def strip_blank strip_python strip_docker)

lemma strip_python_lc: "py_strip ''python'' = ''python''"
  by (simp add: py_strip_def py_isspace_def)

lemma clean_evidence_python: "clean_evidence [''python''] = [''python'']"
  by (simp add: clean_evidence_def strip_python_lc)


lemma evaluate_preferences_no_skills:
  "evaluate_preferences (job\<lparr>job_skills := []\<rparr>) preferences profile_skill_list =
     (let categories = lower_set (job_categories job);
          acc1 = apply_rule (role_families preferences \<noteq> []
                             \<and> categories \<inter> lower_set (role_families preferences) \<noteq> {})
                   PREFERENCE_BONUS ''Matches preferred role focus'' (0, []);
          levels = lower_set (job_levels job);
          acc2 = apply_rule (seniority_levels preferences \<noteq> []
                             \<and> levels \<inter> lower_set (seniority_levels preferences) \<noteq> {})
                   PREFERENCE_BONUS ''Requested seniority level'' acc1;
          industries = (case job_metadata job of
                          None \<Rightarrow> {}
                        | Some metadata \<Rightarrow> lower_set (meta_industry metadata));
          acc3 = (case job_metadata job of
                    None \<Rightarrow> acc2
                  | Some metadata \<Rightarrow>
                      let company_size = py_lower (meta_company_size metadata) in
                      apply_rule (company_sizes preferences \<noteq> [] \<and> company_size \<noteq> []
                                  \<and> list_ex (\<lambda>item. company_size = py_lower item)
                                       (company_sizes preferences))
                        PREFERENCE_BONUS ''Preferred company size'' acc2);
          acc4 = apply_rule (industries_like preferences \<noteq> []
                             \<and> industries \<inter> lower_set (industries_like preferences) \<noteq> {})
                   PREFERENCE_BONUS ''Preferred industry'' acc3
      in apply_rule (industries_avoid preferences \<noteq> []
                             \<and> industries \<inter> lower_set (industries_avoid preferences) \<noteq> {})
                   (- PREFERENCE_BONUS) ''Industry on avoid list'' acc4)"
  by (simp add: evaluate_preferences_def Let_def apply_rule_def lower_set_def)

lemma lower_python: "py_lower ''Python'' = ''python''" by code_simp

lemma lower_python_lc: "py_lower ''python'' = ''python''" by code_simp

lemma lower_docker: "py_lower ''Docker'' = ''docker''" by code_simp

lemma lower_backend: "py_lower ''backend'' = ''backend''" by code_simp

lemma lower_data: "py_lower ''data'' = ''data''" by code_simp

lemma example_job_evaluation:
  "evaluate_preferences example_job example_preferences [''python''] =
     (20, [''Matches preferred role focus'', ''Skill overlap: python''])"
  by (simp add: evaluate_preferences_def example_job_def example_preferences_def Let_def
      apply_rule_def lower_set_def lower_python lower_python_lc lower_docker lower_backend
      lower_data PREFERENCE_BONUS_def)

lemma snd_ensure_job_embedding:
  "snd (ensure_job_embedding provider now db job) = job_vector_of provider job"
  by (simp add: ensure_job_embedding_def job_vector_of_def split: sum.splits)

lemma getattr_get_cached_resume_score:
  "module_getattr ''get_cached_resume_score'' = Inl (AttributeError ''get_cached_resume_score'')"
  by (simp add: module_getattr_def recommendation_service_names_def)

lemma getattr_get_resume_embedding:
  "module_getattr ''get_resume_embedding'' = Inl (AttributeError ''get_resume_embedding'')"
  by (simp add: module_getattr_def recommendation_service_names_def)

lemma getattr_get_job_embedding:
  "module_getattr ''get_job_embedding'' = Inl (AttributeError ''get_job_embedding'')"
  by (simp add: module_getattr_def recommendation_service_names_def)

lemma example_profile_loaded:
  "load_profile example_fit_db ''u1'' =
     Some \<lparr>profile_user_id = ''u1'', profile_skills = Some [''python''],
           profile_resume_embedding = Some [Fin 1, Fin 0]\<rparr>"
  by (simp add: load_profile_def example_fit_db_def)

lemma example_cache_read:
  "impl_get_cached_resume_score example_unbound example_fit_db ''u1'' example_job_ident
     = Inr (Some example_cached_fit)"
  by (simp add: example_unbound_def example_fit_db_def)

lemma example_cache_fresh: "cache_is_fresh one_hour (Some example_cached_fit)"
  by (simp add: cache_is_fresh_def cache_timestamp_def example_cached_fit_def one_hour_def
      timedelta_hours_def CACHE_TTL_HOURS_def)

lemma rnd_Fin_less: "rnd x = Fin y \<Longrightarrow> \<bar>y\<bar> < 2 ^ 1024"
  by (auto simp: rnd_def Let_def split: if_splits)

lemma rnd_overflow:
  assumes "2 ^ 1024 \<le> x"
  shows "rnd x = PInf"
proof -
  have "(2::real) powr of_int 1024 \<le> x" using assms by (simp add: powr_realpow[symmetric])
  from rnd_lower[OF _ this] have "rnd x = PInf \<or> (\<exists>y. rnd x = Fin y \<and> 2 powr of_int 1024 \<le> y)"
    by simp
  then show ?thesis
  proof
    assume "\<exists>y. rnd x = Fin y \<and> 2 powr of_int 1024 \<le> y"
    then obtain y where y: "rnd x = Fin y" "2 powr of_int 1024 \<le> y" by blast
    from y(2) have "(2::real) ^ 1024 \<le> y" by (simp add: powr_realpow[symmetric])
    with rnd_Fin_less[OF y(1)] show ?thesis by simp
  qed simp
qed

lemma rnd_tiny_square: "rnd (1 / 17218479456385750618067377696052635483579924745448689921733236816400740691241745619397484537236046173286370919031961587788584927290816661024991609882728717344659503471655990880884679896520055123906467064419056526231345685268240569209892573766037966584735183775739433978714578587782701380797240772477647874555986712746271362892227516205318914435913511141036261376) = Fin (0)"
  by (rule rnd_eval[where a = 0 and b = 1074 and m = "0"])
     (simp_all add: py_round_def)

lemma cosine_tiny:
  "cosine_similarity_impl [Fin (1 / 4149515568880992958512407863691161151012446232242436899995657329690652811412908146399707048947103794288197886611300789182395151075411775307886874834113963687061181803401509523685376)] [Fin (1 / 4149515568880992958512407863691161151012446232242436899995657329690652811412908146399707048947103794288197886611300789182395151075411775307886874834113963687061181803401509523685376)] = Inr (Fin 0)"
  by (simp add: cosine_similarity_impl_def dot_product_def sum_squares_def py_sum_def
      rnd_tiny_square rnd_zero)

lemma huge_square: "fl_mul (Fin 4149515568880992958512407863691161151012446232242436899995657329690652811412908146399707048947103794288197886611300789182395151075411775307886874834113963687061181803401509523685376) (Fin 4149515568880992958512407863691161151012446232242436899995657329690652811412908146399707048947103794288197886611300789182395151075411775307886874834113963687061181803401509523685376) = PInf"
  by (simp only: fl_mul.simps, rule rnd_overflow, simp)

lemma cosine_huge:
  "cosine_similarity_impl [Fin 4149515568880992958512407863691161151012446232242436899995657329690652811412908146399707048947103794288197886611300789182395151075411775307886874834113963687061181803401509523685376] [Fin 4149515568880992958512407863691161151012446232242436899995657329690652811412908146399707048947103794288197886611300789182395151075411775307886874834113963687061181803401509523685376] = Inr NaN"
  by (simp add: cosine_similarity_impl_def dot_product_def sum_squares_def py_sum_def
      huge_square del: fl_mul.simps) simp

lemma dbl_less_trans: "dbl_less a b \<Longrightarrow> dbl_less b c \<Longrightarrow> dbl_less a c"
  by (cases a; cases b; cases c) simp_all


lemma best_match_loop_inv:
  "best_match_loop item rv ev idx evs (bm, bs) = Inr (bm', bs') \<Longrightarrow>
   best_ok item rv V bm bs \<Longrightarrow> set evs \<subseteq> set V \<Longrightarrow>
   best_ok item rv V bm' bs' \<and> bs' = foldl (best_step rv) bs evs"
proof (induction evs arbitrary: idx bm bs)
  case Nil
  then show ?case by simp
next
  case (Cons v evs)
  obtain sim where sim: "cosine_similarity_impl rv v = Inr sim"
    using cosine_similarity_impl_returns[of rv v] by blast
  have sub: "set evs \<subseteq> set V" and v: "v \<in> set V" using Cons.prems(3) by simp_all
  show ?case
  proof (cases "dbl_less bs sim")
    case True
    with Cons.prems(1) sim have idx: "idx < length ev"
      by (auto split: if_splits)
    let ?e = "\<lparr>entry_requirement = req_label item, entry_critical = req_critical item,
               entry_matched_text = Some (ev ! idx),
               entry_similarity = clean_similarity (Some sim)\<rparr>"
    have run: "best_match_loop item rv ev (Suc idx) evs (Some ?e, sim) = Inr (bm', bs')"
      using Cons.prems(1) sim True idx by simp
    have above: "dbl_less (Fin (- 1)) sim"
    proof (cases bm)
      case None
      then show ?thesis using Cons.prems(2) True by (simp add: best_ok_def)
    next
      case (Some e)
      then have "dbl_less (Fin (- 1)) bs" using Cons.prems(2) by (simp add: best_ok_def)
      then show ?thesis using True by (rule dbl_less_trans)
    qed
    have "is_cosine_of rv V sim"
      using v sim by (auto simp: is_cosine_of_def list_ex_iff)
    then have ok: "best_ok item rv V (Some ?e) sim"
      using above by (simp add: best_ok_def clean_similarity_def)
    have step: "best_step rv bs v = sim" using sim True by (simp add: best_step_def)
    from Cons.IH[OF run ok sub] show ?thesis by (auto simp: step)
  next
    case False
    then have run: "best_match_loop item rv ev (Suc idx) evs (bm, bs) = Inr (bm', bs')"
      using Cons.prems(1) sim by simp
    have step: "best_step rv bs v = bs" using sim False by (simp add: best_step_def)
    from Cons.IH[OF run Cons.prems(2) sub] show ?thesis by (auto simp: step)
  qed
qed

lemma best_match_loop_returns:
  "idx + length evs \<le> length ev \<Longrightarrow> \<exists>r. best_match_loop item rv ev idx evs acc = Inr r"
proof (induction evs arbitrary: idx acc)
  case Nil
  then show ?case by simp
next
  case (Cons v evs)
  obtain bm bs where acc: "acc = (bm, bs)" by (cases acc)
  obtain sim where sim: "cosine_similarity_impl rv v = Inr sim"
    using cosine_similarity_impl_returns[of rv v] by blast
  have idx: "idx < length ev" and rest: "Suc idx + length evs \<le> length ev"
    using Cons.prems by simp_all
  show ?case
    using Cons.IH[OF rest] acc sim idx by simp
qed

lemma match_loop_inv:
  "match_loop re ev ee th idx items (m0, s0) = Inr (m, s) \<Longrightarrow>
   list_all (matched_ok th re ee) m0 \<Longrightarrow> list_all (missing_ok th re ee) s0 \<Longrightarrow>
   list_all (matched_ok th re ee) m \<and> list_all (missing_ok th re ee) s
   \<and> entries_weight m + entries_weight s
        = entries_weight m0 + entries_weight s0 + requirements_weight items"
proof (induction items arbitrary: idx m0 s0)
  case Nil
  then show ?case by (simp add: requirements_weight_def)
next
  case (Cons item items)
  from Cons.prems(1) have idx: "idx < length re" by (auto split: if_splits)
  then have rv: "re ! idx \<in> set re" by simp
  from Cons.prems(1) idx obtain bm bs where
    best: "best_match_loop item (re ! idx) ev 0 ee (None, Fin (- 1)) = Inr (bm, bs)"
    by (auto split: sum.splits)
  have "best_ok item (re ! idx) ee None (Fin (- 1))" by (simp add: best_ok_def)
  from best_match_loop_inv[OF best this]
  have ok: "best_ok item (re ! idx) ee bm bs" and bs: "bs = best_cosine (re ! idx) ee"
    by (auto simp: best_cosine_def)
  let ?miss = "missing_entry item (clean_similarity
                 (if dbl_less (Fin (- 1)) bs then Some bs else None))"
  have rw: "requirements_weight (item # items)
            = critical_weight (req_critical item) + requirements_weight items"
    by (simp add: requirements_weight_def)
  show ?case
  proof (cases "bm \<noteq> None \<and> dbl_le th bs")
    case True
    then obtain e where e: "bm = Some e" by auto
    have step: "match_loop re ev ee th (Suc idx) items (m0 @ [e], s0) = Inr (m, s)"
      using Cons.prems(1) idx best e True by simp
    have me: "matched_ok th re ee e"
      unfolding matched_ok_def list_ex_iff
      using ok e True
      by (intro bexI[OF _ rv]) (simp add: bs[symmetric] best_ok_def Let_def)
    have we: "entry_critical e = req_critical item"
      using ok e by (simp add: best_ok_def)
    have "list_all (matched_ok th re ee) (m0 @ [e])" using Cons.prems(2) me by simp
    from Cons.IH[OF step this Cons.prems(3)] show ?thesis
      by (simp add: rw entries_weight_def we)
  next
    case False
    have step: "match_loop re ev ee th (Suc idx) items (m0, s0 @ [?miss]) = Inr (m, s)"
      using Cons.prems(1) idx best False by (auto split: option.splits if_splits)
    have mi: "missing_ok th re ee ?miss"
    proof (cases bm)
      case None
      then have "bs = Fin (- 1)" using ok by (simp add: best_ok_def)
      then show ?thesis
        unfolding missing_ok_def list_ex_iff
        by (intro bexI[OF _ rv])
           (simp add: bs[symmetric] missing_entry_def clean_similarity_def Let_def)
    next
      case (Some e)
      then have "dbl_less (Fin (- 1)) bs" "\<not> dbl_le th bs" "is_cosine_of (re ! idx) ee bs"
        using ok False by (auto simp: best_ok_def)
      then show ?thesis
        unfolding missing_ok_def list_ex_iff
        by (intro bexI[OF _ rv])
           (simp add: bs[symmetric] missing_entry_def clean_similarity_def Let_def)
    qed
    have "list_all (missing_ok th re ee) (s0 @ [?miss])" using Cons.prems(3) mi by simp
    from Cons.IH[OF step Cons.prems(2) this] show ?thesis
      by (simp add: rw entries_weight_def missing_entry_def)
  qed
qed

lemma match_loop_returns:
  "idx + length items \<le> length re \<Longrightarrow> length ee \<le> length ev \<Longrightarrow>
   \<exists>r. match_loop re ev ee th idx items acc = Inr r"
proof (induction items arbitrary: idx acc)
  case Nil
  then show ?case by simp
next
  case (Cons item items)
  obtain m0 s0 where acc: "acc = (m0, s0)" by (cases acc)
  have idx: "idx < length re" and rest: "Suc idx + length items \<le> length re"
    using Cons.prems(1) by simp_all
  obtain bm bs where
    best: "best_match_loop item (re ! idx) ev 0 ee (None, Fin (- 1)) = Inr (bm, bs)"
    using best_match_loop_returns[of 0 ee ev item "re ! idx" "(None, Fin (- 1))"] Cons.prems(2)
    by auto
  show ?case
    using Cons.IH[OF rest Cons.prems(2)] acc idx best
    by (cases bm) (simp_all)
qed

lemma score_requirements_nondegenerate:
  assumes ne: "clean_requirements requirements \<noteq> []"
      and ev: "clean_evidence evidence_texts \<noteq> []"
  shows "score_requirements provider requirements evidence_texts threshold =
     (case batched_embeddings provider
             (map req_label (clean_requirements requirements) @ clean_evidence evidence_texts) of
        Inl e \<Rightarrow> Inl e
      | Inr embeddings \<Rightarrow>
          (case match_loop (take (length (clean_requirements requirements)) embeddings)
                  (clean_evidence evidence_texts)
                  (drop (length (clean_requirements requirements)) embeddings)
                  threshold 0 (clean_requirements requirements) ([], []) of
             Inl e \<Rightarrow> Inl e
           | Inr (matched, missing) \<Rightarrow>
               Inr \<lparr>dim_score =
                      py_round (of_int (100 * entries_weight matched)
                                / of_int (requirements_weight (clean_requirements requirements))),
                    dim_applicable = True, dim_matched = matched, dim_missing = missing,
                    dim_weight = of_int (requirements_weight (clean_requirements requirements))\<rparr>))"
  using ne ev requirements_weight_pos[OF ne]
  by (simp add: score_requirements_def Let_def entries_weight_def requirements_weight_def
      split: sum.splits prod.splits)

lemma rnd_threshold: "rnd (18 / 25) = Fin (3242591731706757 / 4503599627370496)"
  by (rule rnd_eval[where a = 0 and b = 53 and m = "6485183463413514"])
     (simp_all add: py_round_def)

lemma default_threshold: "DEFAULT_THRESHOLD = Fin (3242591731706757 / 4503599627370496)"
  by (simp add: DEFAULT_THRESHOLD_def rnd_threshold)

lemma cos_10_10: "cosine_similarity_impl [Fin 1, Fin 0] [Fin 1, Fin 0] = Inr (Fin 1)"
  by (simp add: cosine_similarity_impl_def sum_squares_def dot_product_def py_sum_def
      rnd_zero rnd_one)

lemma cos_01_10: "cosine_similarity_impl [Fin 0, Fin 1] [Fin 1, Fin 0] = Inr (Fin 0)"
  by (simp add: cosine_similarity_impl_def sum_squares_def dot_product_def py_sum_def
      rnd_zero rnd_one)

lemma round3_one: "py_round_ndigits (Fin 1) 3 = Fin 1"
  by (simp add: py_round_def rnd_one)

lemma round3_zero: "py_round_ndigits (Fin 0) 3 = Fin 0"
  by (simp add: py_round_def rnd_zero)

lemma example_run:
  "score_requirements example_provider_orthogonal example_requirements [''python'']
       DEFAULT_THRESHOLD =
     Inr \<lparr>dim_score = 67, dim_applicable = True,
          dim_matched = [\<lparr>entry_requirement = ''Python'', entry_critical = True,
                          entry_matched_text = Some ''python'', entry_similarity = Some (Fin 1)\<rparr>],
          dim_missing = [\<lparr>entry_requirement = ''Docker'', entry_critical = False,
                          entry_matched_text = None, entry_similarity = Some (Fin 0)\<rparr>],
          dim_weight = 3\<rparr>"
  by (simp add: score_requirements_def clean_example_requirements clean_evidence_python
      batched_embeddings_def example_provider_orthogonal_def cos_10_10 cos_01_10
      clean_similarity_def round3_one round3_zero missing_entry_def critical_weight_def
      py_round_def default_threshold dbl_le_def rnd_one rnd_zero)







lemma rnd_upper:
  assumes x0: "0 \<le> x" and xn: "x \<le> 2 ^ n" and n: "n \<le> 1023"
  shows "\<exists>y. rnd x = Fin y \<and> 0 \<le> y \<and> y \<le> 2 ^ n"
proof (cases "x = 0")
  case True
  then show ?thesis by (simp add: rnd_zero)
next
  case False
  with x0 have pos: "0 < x" by simp
  define e where "e = ulp_exponent x"
  define u :: real where "u = 2 powr of_int e"
  define m where "m = py_round (x / u)"
  have upos: "0 < u" by (simp add: u_def)
  have r: "rnd x = (if 2 ^ 1024 \<le> \<bar>of_int m * u\<bar> then PInf else Fin (of_int m * u))"
    using pos by (simp add: rnd_def Let_def u_def m_def e_def)
  have "0 \<le> x / u" using pos upos by simp
  then have m0: "0 \<le> m" unfolding m_def using py_round_ge_int[of 0 "x / u"] by simp
  then have y0: "0 \<le> of_int m * u" using upos by simp
  have en: "e \<le> int n"
  proof (rule ccontr)
    assume "\<not> e \<le> int n"
    then have ne: "int n < e" by simp
    then have "- 1074 < ulp_exponent x" by (simp add: e_def)
    from ulp_exponent_normal[OF False this] pos
    have "2 powr of_int (e + 52) \<le> x" by (simp add: e_def)
    moreover have "(2::real) ^ n = 2 powr of_int (int n)" by (simp add: powr_realpow)
    moreover have "(2::real) powr of_int (int n) < 2 powr of_int (e + 52)"
      using ne by (intro powr_less_mono) simp_all
    ultimately show False using xn by linarith
  qed
  define j where "j = nat (int n - e)"
  have nj: "int n = e + int j" using en by (simp add: j_def)
  have "(2::real) ^ n = 2 powr of_int (int n)" by (simp add: powr_realpow)
  also have "\<dots> = 2 ^ j * u"
    unfolding u_def nj by (simp add: powr_add powr_realpow mult.commute)
  finally have pn: "(2::real) ^ n = 2 ^ j * u" .
  have "x / u \<le> of_int (2 ^ j)"
    using xn upos unfolding pn by (simp add: field_simps)
  then have "m \<le> 2 ^ j" unfolding m_def by (rule py_round_le_int)
  then have "(of_int m :: real) \<le> of_int (2 ^ j)" by (simp only: of_int_le_iff)
  then have "of_int m * u \<le> 2 ^ j * u" using upos by (intro mult_right_mono) simp_all
  then have yn: "of_int m * u \<le> 2 ^ n" by (simp only: pn)
  have "(2::real) ^ n \<le> 2 ^ 1023" using n by (intro power_increasing) simp_all
  also have "\<dots> < (2::real) ^ 1024" by (intro power_strict_increasing) simp_all
  finally have "of_int m * u < 2 ^ 1024" using yn by simp
  then have "\<not> 2 ^ 1024 \<le> \<bar>of_int m * u\<bar>" using y0 by simp
  then show ?thesis using y0 yn by (simp add: r)
qed

lemma fin_upto_rnd: "0 \<le> x \<Longrightarrow> x \<le> 2 ^ n \<Longrightarrow> n \<le> 1023 \<Longrightarrow> fin_upto n (rnd x)"
  using rnd_upper[of x n] by auto

lemma fin_upto_mono: "fin_upto n d \<Longrightarrow> n \<le> m \<Longrightarrow> fin_upto m d"
proof (cases d)
  case (Fin y)
  assume a: "fin_upto n d" "n \<le> m"
  then have p: "(2::real) ^ n \<le> 2 ^ m" by (intro power_increasing) simp_all
  from a Fin have y: "0 \<le> y" "y \<le> 2 ^ n" by simp_all
  from y(2) p have "y \<le> 2 ^ m" by (rule order_trans)
  with y(1) Fin show ?thesis by simp
qed simp_all

lemma fin_upto_add:
  assumes "fin_upto n a" "fin_upto n b" "n < 1023"
  shows "fin_upto (Suc n) (fl_add a b)"
proof -
  from assms(1) obtain x where a: "a = Fin x" "0 \<le> x" "x \<le> 2 ^ n" by (cases a) simp_all
  from assms(2) obtain y where b: "b = Fin y" "0 \<le> y" "y \<le> 2 ^ n" by (cases b) simp_all
  have "fin_upto (Suc n) (rnd (x + y))"
    using a b assms(3) by (intro fin_upto_rnd) simp_all
  then show ?thesis by (simp add: a b)
qed

lemma fin_upto_foldl:
  "fin_upto n acc \<Longrightarrow> list_all (fin_upto n) ds \<Longrightarrow> n + length ds \<le> 1023 \<Longrightarrow>
   fin_upto (n + length ds) (foldl fl_add acc ds)"
proof (induction ds arbitrary: n acc)
  case Nil
  then show ?case by simp
next
  case (Cons d ds)
  have 1: "fin_upto (Suc n) (fl_add acc d)"
    using Cons.prems by (intro fin_upto_add) simp_all
  have 2: "list_all (fin_upto (Suc n)) ds"
    using Cons.prems(2) by (auto simp: list_all_iff intro: fin_upto_mono)
  from Cons.IH[OF 1 2] Cons.prems(3) show ?case by simp
qed

lemma int_to_double_small:
  "\<bar>i\<bar> < 2 ^ 53 \<Longrightarrow> int_to_double i = Inr (Fin (of_int i))"
  by (simp add: int_to_double_def rnd_of_int)

lemma aggregate_loop_eq:
  assumes "\<forall>(key, result)\<in>set breakdown. dim_applicable result \<longrightarrow> \<bar>dim_score result\<bar> < 2 ^ 53"
  shows "aggregate_loop breakdown (active_weight, weighted_score) =
     Inr (foldl fl_add active_weight
            (map (\<lambda>(key, result). base_weight key) (applicable_dimensions breakdown)),
          foldl fl_add weighted_score
            (map (\<lambda>(key, result). fl_mul (base_weight key) (Fin (of_int (dim_score result))))
               (applicable_dimensions breakdown)))"
  using assms
proof (induction breakdown arbitrary: active_weight weighted_score)
  case Nil
  then show ?case by (simp add: applicable_dimensions_def)
next
  case (Cons entry breakdown)
  obtain key result where entry: "entry = (key, result)" by (cases entry)
  have rest: "\<forall>(key, result)\<in>set breakdown. dim_applicable result \<longrightarrow> \<bar>dim_score result\<bar> < 2 ^ 53"
    using Cons.prems by simp
  show ?case
  proof (cases "dim_applicable result")
    case True
    then have "\<bar>dim_score result\<bar> < 2 ^ 53" using Cons.prems entry by simp
    then have conv: "int_to_double (dim_score result) = Inr (Fin (of_int (dim_score result)))"
      by (rule int_to_double_small)
    show ?thesis
      using True conv Cons.IH[OF rest]
      by (simp add: entry applicable_dimensions_def base_weight_def Let_def)
  next
    case False
    then show ?thesis
      using Cons.IH[OF rest] by (simp add: entry applicable_dimensions_def)
  qed
qed

lemma rnd_agg_1: "rnd (7 / 20) = Fin (3152519739159347 / 9007199254740992)"
  by (rule rnd_eval[where a = 0 and b = 54 and m = "6305039478318694"])
     (simp_all add: py_round_def)

lemma rnd_agg_2: "rnd (3 / 20) = Fin (5404319552844595 / 36028797018963968)"
  by (rule rnd_eval[where a = 0 and b = 55 and m = "5404319552844595"])
     (simp_all add: py_round_def)

lemma rnd_agg_3: "rnd (5404319552844595 / 36028797018963968) = Fin (5404319552844595 / 36028797018963968)"
  by (rule rnd_eval[where a = 0 and b = 55 and m = "5404319552844595"])
     (simp_all add: py_round_def)

lemma rnd_agg_4: "rnd (5404319552844595 / 18014398509481984) = Fin (5404319552844595 / 18014398509481984)"
  by (rule rnd_eval[where a = 0 and b = 54 and m = "5404319552844595"])
     (simp_all add: py_round_def)

lemma rnd_agg_5: "rnd (3152519739159347 / 9007199254740992) = Fin (3152519739159347 / 9007199254740992)"
  by (rule rnd_eval[where a = 0 and b = 54 and m = "6305039478318694"])
     (simp_all add: py_round_def)

lemma rnd_agg_6: "rnd (18014398509481983 / 36028797018963968) = Fin (1 / 2)"
  by (rule rnd_eval[where a = 0 and b = 54 and m = "9007199254740992"])
     (simp_all add: py_round_def)

lemma rnd_agg_7: "rnd (23418718062326579 / 36028797018963968) = Fin (5854679515581645 / 9007199254740992)"
  by (rule rnd_eval[where a = 0 and b = 53 and m = "5854679515581645"])
     (simp_all add: py_round_def)

lemma rnd_agg_8: "rnd (3152519739159347 / 4503599627370496) = Fin (3152519739159347 / 4503599627370496)"
  by (rule rnd_eval[where a = 0 and b = 53 and m = "6305039478318694"])
     (simp_all add: py_round_def)

lemma rnd_agg_9: "rnd (30624477466119371 / 36028797018963968) = Fin (7656119366529843 / 9007199254740992)"
  by (rule rnd_eval[where a = 0 and b = 53 and m = "7656119366529843"])
     (simp_all add: py_round_def)

lemma rnd_agg_10: "rnd (36028797018963967 / 36028797018963968) = Fin (1)"
  by (rule rnd_eval[where a = 0 and b = 53 and m = "9007199254740992"])
     (simp_all add: py_round_def)

lemma rnd_agg_11: "rnd (211218822523676249 / 9007199254740992) = Fin (6600588203864883 / 281474976710656)"
  by (rule rnd_eval[where a = 0 and b = 48 and m = "6600588203864883"])
     (simp_all add: py_round_def)

lemma rnd_agg_12: "rnd (6600588203864883 / 281474976710656) = Fin (6600588203864883 / 281474976710656)"
  by (rule rnd_eval[where a = 0 and b = 48 and m = "6600588203864883"])
     (simp_all add: py_round_def)

lemma rnd_agg_13: "rnd (135107988821114875 / 18014398509481984) = Fin (15 / 2)"
  by (rule rnd_eval[where a = 0 and b = 50 and m = "8444249301319680"])
     (simp_all add: py_round_def)

lemma rnd_agg_14: "rnd (8711650529194803 / 281474976710656) = Fin (8711650529194803 / 281474976710656)"
  by (rule rnd_eval[where a = 0 and b = 48 and m = "8711650529194803"])
     (simp_all add: py_round_def)

lemma rnd_agg_15: "rnd (27021597764222975 / 2251799813685248) = Fin (12)"
  by (rule rnd_eval[where a = 0 and b = 49 and m = "6755399441055744"])
     (simp_all add: py_round_def)

lemma rnd_agg_16: "rnd (12089350249722675 / 281474976710656) = Fin (3022337562430669 / 70368744177664)"
  by (rule rnd_eval[where a = 0 and b = 47 and m = "6044675124861338"])
     (simp_all add: py_round_def)

lemma rnd_agg_17: "rnd (55265601141589376 / 836382787940235) = Fin (4649750096047183 / 70368744177664)"
  by (rule rnd_eval[where a = 0 and b = 46 and m = "4649750096047183"])
     (simp_all add: py_round_def)

lemma rnd_agg_18: "rnd (78812993478983675 / 4503599627370496) = Fin (35 / 2)"
  by (rule rnd_eval[where a = 0 and b = 48 and m = "4925812092436480"])
     (simp_all add: py_round_def)

lemma rnd_agg_19: "rnd (35 / 2) = Fin (35 / 2)"
  by (rule rnd_eval[where a = 0 and b = 48 and m = "4925812092436480"])
     (simp_all add: py_round_def)

lemma rnd_agg_20: "rnd (236438980436951025 / 9007199254740992) = Fin (105 / 4)"
  by (rule rnd_eval[where a = 0 and b = 48 and m = "7388718138654720"])
     (simp_all add: py_round_def)

lemma rnd_agg_21: "rnd (175 / 4) = Fin (175 / 4)"
  by (rule rnd_eval[where a = 0 and b = 47 and m = "6157265115545600"])
     (simp_all add: py_round_def)

lemma rnd_agg_22: "rnd (197032483697459200 / 3152519739159347) = Fin (8796093022208001 / 140737488355328)"
  by (rule rnd_eval[where a = 0 and b = 47 and m = "8796093022208001"])
     (simp_all add: py_round_def)

lemma rnd_agg_23: "rnd (116643230348895839 / 4503599627370496) = Fin (3645100948402995 / 140737488355328)"
  by (rule rnd_eval[where a = 0 and b = 48 and m = "7290201896805990"])
     (simp_all add: py_round_def)

lemma rnd_agg_24: "rnd (3645100948402995 / 140737488355328) = Fin (3645100948402995 / 140737488355328)"
  by (rule rnd_eval[where a = 0 and b = 48 and m = "7290201896805990"])
     (simp_all add: py_round_def)

lemma rnd_agg_25: "rnd (85118032957302369 / 9007199254740992) = Fin (2659938529915699 / 281474976710656)"
  by (rule rnd_eval[where a = 0 and b = 49 and m = "5319877059831398"])
     (simp_all add: py_round_def)

lemma rnd_agg_26: "rnd (9950140426721689 / 281474976710656) = Fin (1243767553340211 / 35184372088832)"
  by (rule rnd_eval[where a = 0 and b = 47 and m = "4975070213360844"])
     (simp_all add: py_round_def)

lemma rnd_agg_27: "rnd (5404319552844595 / 562949953421312) = Fin (5404319552844595 / 562949953421312)"
  by (rule rnd_eval[where a = 0 and b = 49 and m = "5404319552844595"])
     (simp_all add: py_round_def)

lemma rnd_agg_28: "rnd (25304600406287971 / 562949953421312) = Fin (6326150101571993 / 140737488355328)"
  by (rule rnd_eval[where a = 0 and b = 47 and m = "6326150101571993"])
     (simp_all add: py_round_def)

lemma rnd_agg_29: "rnd (91873432398358115 / 36028797018963968) = Fin (2871044762448691 / 1125899906842624)"
  by (rule rnd_eval[where a = 0 and b = 51 and m = "5742089524897382"])
     (simp_all add: py_round_def)

lemma rnd_agg_30: "rnd (53480245575024635 / 1125899906842624) = Fin (6685030696878079 / 140737488355328)"
  by (rule rnd_eval[where a = 0 and b = 47 and m = "6685030696878079"])
     (simp_all add: py_round_def)

lemma rnd_agg_31: "rnd (6685030696878079 / 140737488355328) = Fin (6685030696878079 / 140737488355328)"
  by (rule rnd_eval[where a = 0 and b = 47 and m = "6685030696878079"])
     (simp_all add: py_round_def)

lemmas aggregate_roundings = rnd_agg_1 rnd_agg_2 rnd_agg_3 rnd_agg_4 rnd_agg_5 rnd_agg_6 rnd_agg_7 rnd_agg_8 rnd_agg_9 rnd_agg_10 rnd_agg_11 rnd_agg_12 rnd_agg_13 rnd_agg_14 rnd_agg_15 rnd_agg_16 rnd_agg_17 rnd_agg_18 rnd_agg_19 rnd_agg_20 rnd_agg_21 rnd_agg_22 rnd_agg_23 rnd_agg_24 rnd_agg_25 rnd_agg_26 rnd_agg_27 rnd_agg_28 rnd_agg_29 rnd_agg_30 rnd_agg_31

lemma base_weight_skills: "base_weight ''skills'' = Fin (3152519739159347 / 9007199254740992)"
  by (simp add: base_weight_def DIMENSION_WEIGHTS_def aggregate_roundings)

lemma base_weight_experience: "base_weight ''experience'' = Fin (3152519739159347 / 9007199254740992)"
  by (simp add: base_weight_def DIMENSION_WEIGHTS_def aggregate_roundings)

lemma base_weight_education: "base_weight ''education'' = Fin (5404319552844595 / 36028797018963968)"
  by (simp add: base_weight_def DIMENSION_WEIGHTS_def aggregate_roundings)

lemma base_weight_keywords: "base_weight ''keywords'' = Fin (5404319552844595 / 36028797018963968)"
  by (simp add: base_weight_def DIMENSION_WEIGHTS_def aggregate_roundings)

lemmas base_weights = base_weight_skills base_weight_experience base_weight_education
  base_weight_keywords

lemma active_weight_cases:
  "fin_upto 0 (spec_active_weight (make_breakdown s e d k))
   \<and> (applicable_dimensions (make_breakdown s e d k) = [] \<longrightarrow>
        spec_active_weight (make_breakdown s e d k) = Fin 0)
   \<and> (applicable_dimensions (make_breakdown s e d k) \<noteq> [] \<longrightarrow>
        dbl_less (Fin (1 / 8)) (spec_active_weight (make_breakdown s e d k)))"
  by (cases "dim_applicable s"; cases "dim_applicable e"; cases "dim_applicable d";
      cases "dim_applicable k")
     (simp_all add: spec_active_weight_def make_breakdown_def applicable_dimensions_def
        py_sum_def base_weights aggregate_roundings)

lemma base_weight_upto: "fin_upto 0 (base_weight key)"
  by (simp add: base_weight_def DIMENSION_WEIGHTS_def aggregate_roundings)

lemma weighted_term_upto:
  assumes "score_in_range result"
  shows "fin_upto 7 (fl_mul (base_weight key) (Fin (of_int (dim_score result))))"
proof -
  from base_weight_upto[of key] obtain w where w: "base_weight key = Fin w" "0 \<le> w" "w \<le> 1"
    by (cases "base_weight key") simp_all
  have s: "0 \<le> (of_int (dim_score result) :: real)" "(of_int (dim_score result) :: real) \<le> 100"
    using assms by (simp_all add: score_in_range_def)
  have "w * of_int (dim_score result) \<le> 1 * 100"
    using w s by (intro mult_mono) simp_all
  then have "fin_upto 7 (rnd (w * of_int (dim_score result)))"
    using w s by (intro fin_upto_rnd) simp_all
  then show ?thesis by (simp add: w)
qed

lemma weighted_sum_upto:
  assumes "score_in_range s" "score_in_range e" "score_in_range d" "score_in_range k"
  shows "fin_upto 11 (spec_weighted_sum (make_breakdown s e d k))"
proof -
  let ?terms = "map (\<lambda>(key, result). fl_mul (base_weight key) (Fin (of_int (dim_score result))))
                  (applicable_dimensions (make_breakdown s e d k))"
  have all: "list_all (fin_upto 7) ?terms"
    using assms
    by (auto simp: list_all_iff applicable_dimensions_def make_breakdown_def
        intro: weighted_term_upto)
  have len: "length ?terms \<le> 4"
    by (simp add: applicable_dimensions_def make_breakdown_def)
  have "fin_upto (7 + length ?terms) (foldl fl_add (Fin 0) ?terms)"
    using all len by (intro fin_upto_foldl) simp_all
  then have "fin_upto 11 (foldl fl_add (Fin 0) ?terms)"
    by (rule fin_upto_mono) (use len in simp)
  then show ?thesis by (simp add: spec_weighted_sum_def py_sum_def)
qed

lemma aggregate_loop_make_breakdown:
  assumes "score_in_range s" "score_in_range e" "score_in_range d" "score_in_range k"
  shows "aggregate_loop (make_breakdown s e d k) (Fin 0, Fin 0) =
           Inr (spec_active_weight (make_breakdown s e d k),
                spec_weighted_sum (make_breakdown s e d k))"
proof -
  have "\<forall>(key, result)\<in>set (make_breakdown s e d k).
          dim_applicable result \<longrightarrow> \<bar>dim_score result\<bar> < 2 ^ 53"
    using assms by (auto simp: make_breakdown_def score_in_range_def)
  from aggregate_loop_eq[OF this] show ?thesis
    by (simp add: spec_active_weight_def spec_weighted_sum_def py_sum_def)
qed

lemma aggregate_breakdown_spec:
  assumes r: "score_in_range s" "score_in_range e" "score_in_range d" "score_in_range k"
  shows "aggregate_breakdown (make_breakdown s e d k)
           = Inr (spec_overall_score (make_breakdown s e d k))"
proof -
  let ?bd = "make_breakdown s e d k"
  from active_weight_cases[of s e d k] obtain w where
    w: "spec_active_weight ?bd = Fin w" "w \<le> 1"
      "applicable_dimensions ?bd = [] \<longrightarrow> w = 0"
      "applicable_dimensions ?bd \<noteq> [] \<longrightarrow> 1 / 8 \<le> w"
    by (cases "spec_active_weight ?bd") auto
  from weighted_sum_upto[OF r] obtain p where
    p: "spec_weighted_sum ?bd = Fin p" "0 \<le> p" "p \<le> 2 ^ 11"
    by (cases "spec_weighted_sum ?bd") simp_all
  show ?thesis
  proof (cases "applicable_dimensions ?bd = []")
    case True
    with w have "w = 0" by simp
    then show ?thesis
      using True
      by (simp add: aggregate_breakdown_def aggregate_loop_make_breakdown[OF r] w p
          truthy_double_def spec_overall_score_def)
  next
    case False
    with w have w8: "1 / 8 \<le> w" by simp
    then have wpos: "0 < w" by simp
    have "p / w \<le> 2 ^ 11 / (1 / 8)"
      using p w8 by (intro frac_le) simp_all
    then have "p / w \<le> 2 ^ 14" by simp
    moreover have "0 \<le> p / w" using p wpos by simp
    ultimately obtain y where y: "rnd (p / w) = Fin y"
      using rnd_upper[of "p / w" 14] by auto
    show ?thesis
      using False wpos
      by (simp add: aggregate_breakdown_def aggregate_loop_make_breakdown[OF r] w p
          truthy_double_def spec_overall_score_def y)
  qed
qed

lemma aggregate_breakdown_none:
  assumes "\<not> dim_applicable s" "\<not> dim_applicable e" "\<not> dim_applicable d" "\<not> dim_applicable k"
  shows "aggregate_breakdown (make_breakdown s e d k) = Inr 0"
  using assms by (simp add: aggregate_breakdown_def make_breakdown_def truthy_double_def)

lemma int_to_double_numeral:
  "(numeral v :: int) < 2 ^ 53 \<Longrightarrow> int_to_double (numeral v) = Inr (Fin (numeral v))"
  using int_to_double_small[of "numeral v"] by simp

lemma aggregate_breakdown_66:
  assumes "dim_score s = 67" "dim_applicable s" "\<not> dim_applicable e"
    "dim_score d = 50" "dim_applicable d" "dim_score k = 80" "dim_applicable k"
  shows "aggregate_breakdown (make_breakdown s e d k) = Inr 66"
  using assms
  by (simp add: aggregate_breakdown_def make_breakdown_def truthy_double_def
      int_to_double_numeral DIMENSION_WEIGHTS_def aggregate_roundings py_round_def)

lemma spec_overall_score_63:
  "spec_overall_score (make_breakdown (example_dimension 50 True) (example_dimension 75 True)
     (example_dimension 0 False) (example_dimension 0 False)) = 63"
  by (simp add: spec_overall_score_def spec_weighted_sum_def spec_active_weight_def
      applicable_dimensions_def make_breakdown_def example_dimension_def py_sum_def
      base_weights aggregate_roundings py_round_def)

lemma spec_overall_score_47:
  "spec_overall_score (make_breakdown (example_dimension 74 True) (example_dimension 27 True)
     (example_dimension 64 True) (example_dimension 17 True)) = 47"
  by (simp add: spec_overall_score_def spec_weighted_sum_def spec_active_weight_def
      applicable_dimensions_def make_breakdown_def example_dimension_def py_sum_def
      base_weights aggregate_roundings py_round_def)

lemma entries_weight_nonneg: "0 \<le> entries_weight entries"
  by (induction entries) (simp_all add: entries_weight_def critical_weight_def)

lemma score_requirements_score_in_range:
  assumes "score_requirements provider requirements evidence_texts threshold = Inr r"
  shows "score_in_range r"
proof (cases "clean_requirements requirements = []")
  case True
  then show ?thesis using assms by (auto simp: score_requirements_def score_in_range_def)
next
  case ne: False
  show ?thesis
  proof (cases "clean_evidence evidence_texts = []")
    case True
    then show ?thesis
      using assms ne by (auto simp: score_requirements_def Let_def score_in_range_def)
  next
    case ev: False
    let ?cr = "clean_requirements requirements"
    let ?tw = "requirements_weight ?cr"
    from assms obtain embeddings matched missing where
      loop: "match_loop (take (length ?cr) embeddings) (clean_evidence evidence_texts)
               (drop (length ?cr) embeddings) threshold 0 ?cr ([], []) = Inr (matched, missing)"
      and res: "dim_score r = py_round (of_int (100 * entries_weight matched) / of_int ?tw)"
      unfolding score_requirements_nondegenerate[OF ne ev]
      by (auto split: sum.splits prod.splits)
    have tw: "0 < ?tw" using ne by (rule requirements_weight_pos)
    have sum: "entries_weight matched + entries_weight missing = ?tw"
      using match_loop_inv[OF loop] by (simp add: entries_weight_def)
    have m0: "0 \<le> entries_weight matched" and s0: "0 \<le> entries_weight missing"
      by (rule entries_weight_nonneg)+
    have mle: "entries_weight matched \<le> ?tw" using sum s0 by simp
    let ?x = "(of_int (100 * entries_weight matched) :: real) / of_int ?tw"
    have "of_int 0 \<le> ?x" using m0 tw by simp
    then have lo: "0 \<le> py_round ?x" by (rule py_round_ge_int)
    have "(of_int (100 * entries_weight matched) :: real) \<le> of_int (100 * ?tw)"
      using mle by (simp only: of_int_le_iff)
    then have "?x \<le> of_int 100" using tw by (simp add: field_simps)
    then have hi: "py_round ?x \<le> 100" by (rule py_round_le_int)
    from lo hi show ?thesis by (simp add: score_in_range_def res)
  qed
qed

lemma score_resume_against_job_overall:
  assumes "score_resume_against_job provider rd jd resume_text = Inr res"
  shows "\<exists>s e d k.
           score_requirements provider (job_req_skills jd) (resume_skills rd)
             DEFAULT_THRESHOLD = Inr s
           \<and> score_requirements provider (job_req_experience jd)
               (compose_experience_evidence rd) DEFAULT_THRESHOLD = Inr e
           \<and> score_requirements provider (job_req_education jd)
               (compose_education_evidence rd) DEFAULT_THRESHOLD = Inr d
           \<and> score_keywords provider (job_req_keywords jd) resume_text
               (resume_skills rd @ compose_experience_evidence rd) = Inr k
           \<and> overall_breakdown res
               = map (\<lambda>(key, v). (key, reclean_result v)) (make_breakdown s e d k)
           \<and> overall_score res = spec_overall_score (make_breakdown s e d k)"
proof -
  from assms obtain s e d k overall where
    s: "score_requirements provider (job_req_skills jd) (resume_skills rd)
          DEFAULT_THRESHOLD = Inr s"
    and e: "score_requirements provider (job_req_experience jd)
          (compose_experience_evidence rd) DEFAULT_THRESHOLD = Inr e"
    and d: "score_requirements provider (job_req_education jd)
          (compose_education_evidence rd) DEFAULT_THRESHOLD = Inr d"
    and k: "score_keywords provider (job_req_keywords jd) resume_text
          (resume_skills rd @ compose_experience_evidence rd) = Inr k"
    and agg: "aggregate_breakdown (make_breakdown s e d k) = Inr overall"
    and res: "res = \<lparr>overall_score = overall,
               overall_breakdown = map (\<lambda>(key, v). (key, reclean_result v))
                                     (make_breakdown s e d k),
               overall_weights = DIMENSION_WEIGHTS\<rparr>"
    by (auto simp: score_resume_against_job_def Let_def split: sum.splits)
  have "score_in_range s" "score_in_range e" "score_in_range d" "score_in_range k"
    using s e d k score_requirements_score_in_range
    by (auto simp: score_keywords_def)
  from aggregate_breakdown_spec[OF this] agg
  have "overall = spec_overall_score (make_breakdown s e d k)" by simp
  with s e d k res show ?thesis by simp
qed

lemma cosine_similarity_Inr: "\<exists>sim. cosine_similarity a b = Inr sim"
  unfolding cosine_similarity_def by (rule cosine_similarity_impl_returns)

lemma clamp_fin: "\<exists>t. py_min (Fin 100) (py_max (Fin 0) x) = Fin t \<and> 0 \<le> t \<and> t \<le> 100"
  by (cases x) (auto simp: py_min_def py_max_def)

lemma round2_upto:
  assumes "0 \<le> t" "t \<le> 100"
  shows "fin_upto 7 (py_round_ndigits (Fin t) 2)"
proof -
  let ?m = "py_round (t * 10 ^ 2)"
  have "of_int 0 \<le> t * 10 ^ 2" using assms by simp
  then have lo: "0 \<le> ?m" by (rule py_round_ge_int)
  have "t * 10 ^ 2 \<le> of_int 10000" using assms by simp
  then have hi: "?m \<le> 10000" by (rule py_round_le_int)
  have "(of_int ?m :: real) \<le> of_int 10000" using hi by (simp only: of_int_le_iff)
  then have "(of_int ?m :: real) / 10 ^ 2 \<le> 2 ^ 7" by simp
  moreover have "0 \<le> (of_int ?m :: real) / 10 ^ 2" using lo by simp
  ultimately have "fin_upto 7 (rnd (of_int ?m / 10 ^ 2))"
    by (intro fin_upto_rnd) simp_all
  then show ?thesis by simp
qed

lemma ranked_score_upto:
  "fin_upto 7 (ranked_score (make_ranked_entry job sim_score pref_score reasons))"
proof -
  obtain t where "py_min (Fin 100) (py_max (Fin 0) (fl_add sim_score (Fin pref_score))) = Fin t"
    "0 \<le> t" "t \<le> 100"
    using clamp_fin by blast
  then show ?thesis
    using round2_upto[of t] by (simp add: make_ranked_entry_def)
qed

lemma sim_score_positive:
  "dbl_less (Fin 0) sim \<Longrightarrow> fl_mul (py_max (Fin 0) sim) SIMILARITY_WEIGHT = fl_mul sim SIMILARITY_WEIGHT"
  by (simp add: py_max_def)

lemma sim_score_not_positive:
  "\<not> dbl_less (Fin 0) sim \<Longrightarrow> fl_mul (py_max (Fin 0) sim) SIMILARITY_WEIGHT = Fin 0"
  by (simp add: py_max_def SIMILARITY_WEIGHT_def rnd_zero)

lemma rank_one_failure:
  assumes "job_failure provider resume_vector job = Some e"
  shows "snd (rank_one provider now preferences ps resume_vector db job) = Inl e"
proof -
  obtain db' r where en: "ensure_job_embedding provider now db job = (db', r)"
    by (cases "ensure_job_embedding provider now db job")
  then have r: "r = job_vector_of provider job"
    using snd_ensure_job_embedding[of provider now db job] by simp
  show ?thesis
    using assms unfolding rank_one_def en r job_failure_def
    by (auto split: prod.splits sum.splits if_splits)
qed

lemma rank_one_entry:
  assumes "job_failure provider resume_vector job = None"
  shows "\<exists>entry. snd (rank_one provider now preferences (extract_profile_skills profile)
                         resume_vector db job) = Inr entry
           \<and> ranked_job entry = job
           \<and> ranked_score entry =
               py_round_ndigits
                 (total_score_of provider preferences profile resume_vector job) 2"
proof -
  obtain db' r where en: "ensure_job_embedding provider now db job = (db', r)"
    by (cases "ensure_job_embedding provider now db job")
  then have r: "r = job_vector_of provider job"
    using snd_ensure_job_embedding[of provider now db job] by simp
  show ?thesis
    using assms unfolding rank_one_def en r job_failure_def
    by (auto simp: make_ranked_entry_def total_score_of_def sim_score_of_def Let_def
          sim_score_positive sim_score_not_positive
        split: prod.splits sum.splits if_splits)
qed

lemma rank_loop_result:
  assumes "\<forall>job\<in>set jobs. job_failure provider resume_vector job = None"
  shows "\<exists>entries.
      snd (rank_loop provider now preferences (extract_profile_skills profile) resume_vector
             db jobs acc) = Inr (acc @ entries)
      \<and> list_all2 (\<lambda>job entry. ranked_job entry = job
            \<and> ranked_score entry =
                py_round_ndigits
                  (total_score_of provider preferences profile resume_vector job) 2)
          jobs entries"
  using assms
proof (induction jobs arbitrary: db acc)
  case Nil
  then show ?case by simp
next
  case (Cons job jobs)
  let ?ps = "extract_profile_skills profile"
  obtain db' r where one: "rank_one provider now preferences ?ps resume_vector db job = (db', r)"
    by (cases "rank_one provider now preferences ?ps resume_vector db job")
  have "job_failure provider resume_vector job = None" using Cons.prems by simp
  from rank_one_entry[OF this, of now preferences profile db] one
  obtain entry where r: "r = Inr entry" and e: "ranked_job entry = job"
      "ranked_score entry =
         py_round_ndigits (total_score_of provider preferences profile resume_vector job) 2"
    by auto
  have rest: "\<forall>job\<in>set jobs. job_failure provider resume_vector job = None"
    using Cons.prems by simp
  from Cons.IH[OF rest, of db' "acc @ [entry]"] obtain entries where
    loop: "snd (rank_loop provider now preferences ?ps resume_vector db' jobs (acc @ [entry]))
             = Inr ((acc @ [entry]) @ entries)"
    and all: "list_all2 (\<lambda>job entry. ranked_job entry = job
            \<and> ranked_score entry =
                py_round_ndigits
                  (total_score_of provider preferences profile resume_vector job) 2)
          jobs entries"
    by blast
  show ?case
    using one r loop all e by (intro exI[of _ "entry # entries"]) simp
qed

lemma rank_loop_fails:
  assumes "\<forall>job\<in>set pre. job_failure provider resume_vector job = None"
    and "job_failure provider resume_vector job = Some e"
  shows "snd (rank_loop provider now preferences ps resume_vector db (pre @ job # post) acc)
           = Inl e"
  using assms(1)
proof (induction pre arbitrary: db acc)
  case Nil
  obtain db' r where one: "rank_one provider now preferences ps resume_vector db job = (db', r)"
    by (cases "rank_one provider now preferences ps resume_vector db job")
  with rank_one_failure[OF assms(2), of now preferences ps db] have "r = Inl e" by simp
  then show ?case using one by simp
next
  case (Cons j pre)
  obtain db' r where one: "rank_one provider now preferences ps resume_vector db j = (db', r)"
    by (cases "rank_one provider now preferences ps resume_vector db j")
  have none: "job_failure provider resume_vector j = None" using Cons.prems by simp
  have "\<exists>entry. r = Inr entry"
  proof (cases r)
    case (Inl e1)
    obtain den rr where en: "ensure_job_embedding provider now db j = (den, rr)"
      by (cases "ensure_job_embedding provider now db j")
    then have rr: "rr = job_vector_of provider j"
      using snd_ensure_job_embedding[of provider now db j] by simp
    have "snd (rank_one provider now preferences ps resume_vector db j) \<noteq> Inl e1"
      using none unfolding rank_one_def en rr job_failure_def
      by (auto split: prod.splits sum.splits if_splits)
    with one Inl show ?thesis by simp
  qed simp
  then obtain entry where r: "r = Inr entry" by blast
  have rest: "\<forall>job\<in>set pre. job_failure provider resume_vector job = None"
    using Cons.prems by simp
  from Cons.IH[OF rest, of db' "acc @ [entry]"] show ?case
    using one r by simp
qed

lemma first_failure_split:
  assumes "\<exists>job\<in>set jobs. job_failure provider resume_vector job \<noteq> None"
  shows "\<exists>pre job post e. jobs = pre @ job # post
           \<and> (\<forall>j\<in>set pre. job_failure provider resume_vector j = None)
           \<and> job_failure provider resume_vector job = Some e"
proof -
  from split_list_first_prop[OF assms] obtain pre job post where
    "jobs = pre @ job # post" "job_failure provider resume_vector job \<noteq> None"
    "\<forall>j\<in>set pre. \<not> job_failure provider resume_vector j \<noteq> None"
    by blast
  then show ?thesis by (cases "job_failure provider resume_vector job") auto
qed

lemma snd_rank_jobs:
  "snd (rank_jobs provider now db jobs preferences profile resume_vector) =
     (case snd (rank_loop provider now preferences (extract_profile_skills profile)
                  resume_vector db jobs []) of
        Inl e \<Rightarrow> Inl e
      | Inr ranked \<Rightarrow> Inr (sort_key descending_score ranked))"
proof -
  have "descending_score = (\<lambda>item. - fin_value (ranked_score item))"
    by (rule ext) (simp add: descending_score_def)
  then show ?thesis by (simp add: rank_jobs_def split: prod.splits sum.splits)
qed

lemma rank_jobs_no_failure:
  assumes "\<forall>job\<in>set jobs. job_failure provider resume_vector job = None"
  shows "\<exists>entries.
      snd (rank_jobs provider now db jobs preferences profile resume_vector)
        = Inr (sort_key descending_score entries)
      \<and> list_all2 (\<lambda>job entry. ranked_job entry = job
            \<and> ranked_score entry =
                py_round_ndigits
                  (total_score_of provider preferences profile resume_vector job) 2)
          jobs entries"
  using rank_loop_result[OF assms, of now preferences profile db "[]"]
  by (auto simp: snd_rank_jobs)

lemma rank_jobs_first_failure:
  assumes "\<forall>job\<in>set pre. job_failure provider resume_vector job = None"
    and "job_failure provider resume_vector job = Some e"
  shows "snd (rank_jobs provider now db (pre @ job # post) preferences profile resume_vector)
           = Inl e"
  using rank_loop_fails[OF assms, of now preferences "extract_profile_skills profile" db post "[]"]
  by (simp add: snd_rank_jobs)

lemma rank_jobs_returns_iff:
  "(\<exists>ranked. snd (rank_jobs provider now db jobs preferences profile resume_vector) = Inr ranked)
   \<longleftrightarrow> (\<forall>job\<in>set jobs. job_failure provider resume_vector job = None)"
proof
  assume ret: "\<exists>ranked. snd (rank_jobs provider now db jobs preferences profile resume_vector)
                 = Inr ranked"
  show "\<forall>job\<in>set jobs. job_failure provider resume_vector job = None"
  proof (rule ccontr)
    assume "\<not> (\<forall>job\<in>set jobs. job_failure provider resume_vector job = None)"
    then have "\<exists>job\<in>set jobs. job_failure provider resume_vector job \<noteq> None" by simp
    from first_failure_split[OF this] obtain pre job post e where
      "jobs = pre @ job # post"
      "\<forall>j\<in>set pre. job_failure provider resume_vector j = None"
      "job_failure provider resume_vector job = Some e"
      by blast
    then have "snd (rank_jobs provider now db jobs preferences profile resume_vector) = Inl e"
      using rank_jobs_first_failure by blast
    with ret show False by simp
  qed
next
  assume "\<forall>job\<in>set jobs. job_failure provider resume_vector job = None"
  from rank_jobs_no_failure[OF this] show
    "\<exists>ranked. snd (rank_jobs provider now db jobs preferences profile resume_vector) = Inr ranked"
    by blast
qed

lemma evaluate_plain_job:
  "evaluate_preferences (plain_job ident title cached) preferences [] = (0, [])"
  by (simp add: evaluate_preferences_def plain_job_def apply_rule_def lower_set_def Let_def)

lemma extract_example_profile: "extract_profile_skills example_profile = []"
  by (simp add: extract_profile_skills_def example_profile_def)

lemma str_64: "py_str_int 64 = ''64''" by code_simp

lemma str_99: "py_str_int 99 = ''99''" by code_simp

lemma str_77: "py_str_int 77 = ''77''" by code_simp

lemma str_28: "py_str_int 28 = ''28''" by code_simp

lemma evaluate_backend_job:
  "evaluate_preferences ((plain_job ident title cached)\<lparr>job_categories := [''backend'']\<rparr>)
     example_preferences [] = (10, [''Matches preferred role focus''])"
  by (simp add: evaluate_preferences_def plain_job_def example_preferences_def apply_rule_def
      lower_set_def Let_def lower_backend lower_data PREFERENCE_BONUS_def)

lemma evaluate_blank_job:
  "evaluate_preferences job_blank example_preferences [] = (0, [])"
  by (simp add: evaluate_preferences_def job_blank_def plain_job_def example_preferences_def
      apply_rule_def lower_set_def Let_def)

lemma rnd_rank_1: "rnd (sqrt (196)) = Fin (14)"
proof (rule rnd_eval[where a = 0 and b = 49 and m = "7881299347898368"])
  have lo: "15762598695796735 / 1125899906842624 < sqrt (196)"
    by (rule real_less_rsqrt) (simp add: power2_eq_square)
  have hi: "sqrt (196) < 15762598695796737 / 1125899906842624"
    by (rule real_less_lsqrt) (simp_all add: power2_eq_square)
  show "py_round (sqrt (196) / (2 ^ 0 / 2 ^ 49)) = 7881299347898368"
    using lo hi by (intro py_round_eqI) (simp_all add: field_simps)
  show "2 ^ 52 * (2 ^ 0 / 2 ^ 49) \<le> \<bar>sqrt (196)\<bar> \<or> int 0 - int 49 = - 1074"
    using lo by simp
  show "\<bar>sqrt (196)\<bar> < 2 ^ 53 * (2 ^ 0 / 2 ^ 49)"
    using hi by simp
  show "sqrt (196) \<noteq> 0" using lo by simp
qed simp_all

lemma rnd_rank_2: "rnd (9 / 14) = Fin (5790342378047781 / 9007199254740992)"
  by (rule rnd_eval[where a = 0 and b = 53 and m = "5790342378047781"])
     (simp_all add: py_round_def)

lemma rnd_rank_3: "rnd (144758559451194525 / 2251799813685248) = Fin (4523704982849829 / 70368744177664)"
  by (rule rnd_eval[where a = 0 and b = 46 and m = "4523704982849829"])
     (simp_all add: py_round_def)

lemma rnd_rank_4: "rnd (202661983231672335 / 4503599627370496) = Fin (45)"
  by (rule rnd_eval[where a = 0 and b = 47 and m = "6333186975989760"])
     (simp_all add: py_round_def)

lemma rnd_rank_5: "rnd (sqrt (1600080001)) = Fin (40001)"
proof (rule rnd_eval[where a = 0 and b = 37 and m = "5497695577833472"])
  have lo: "10995391155666943 / 274877906944 < sqrt (1600080001)"
    by (rule real_less_rsqrt) (simp add: power2_eq_square)
  have hi: "sqrt (1600080001) < 10995391155666945 / 274877906944"
    by (rule real_less_lsqrt) (simp_all add: power2_eq_square)
  show "py_round (sqrt (1600080001) / (2 ^ 0 / 2 ^ 37)) = 5497695577833472"
    using lo hi by (intro py_round_eqI) (simp_all add: field_simps)
  show "2 ^ 52 * (2 ^ 0 / 2 ^ 37) \<le> \<bar>sqrt (1600080001)\<bar> \<or> int 0 - int 37 = - 1074"
    using lo by simp
  show "\<bar>sqrt (1600080001)\<bar> < 2 ^ 53 * (2 ^ 0 / 2 ^ 37)"
    using hi by simp
  show "sqrt (1600080001) \<noteq> 0" using lo by simp
qed simp_all

lemma rnd_rank_6: "rnd (39999 / 40001) = Fin (9006748906036973 / 9007199254740992)"
  by (rule rnd_eval[where a = 0 and b = 53 and m = "9006748906036973"])
     (simp_all add: py_round_def)

lemma rnd_rank_7: "rnd (225168722650924325 / 2251799813685248) = Fin (7036522582841385 / 70368744177664)"
  by (rule rnd_eval[where a = 0 and b = 46 and m = "7036522582841385"])
     (simp_all add: py_round_def)

lemma rnd_rank_8: "rnd (315236211711294055 / 4503599627370496) = Fin (2462782903994485 / 35184372088832)"
  by (rule rnd_eval[where a = 0 and b = 46 and m = "4925565807988970"])
     (simp_all add: py_round_def)

lemma rnd_rank_9: "rnd (2462782903994485 / 35184372088832) = Fin (2462782903994485 / 35184372088832)"
  by (rule rnd_eval[where a = 0 and b = 46 and m = "4925565807988970"])
     (simp_all add: py_round_def)

lemma rnd_rank_10: "rnd (sqrt (8100180001)) = Fin (90001)"
proof (rule rnd_eval[where a = 0 and b = 36 and m = "6184821625716736"])
  have lo: "12369643251433471 / 137438953472 < sqrt (8100180001)"
    by (rule real_less_rsqrt) (simp add: power2_eq_square)
  have hi: "sqrt (8100180001) < 12369643251433473 / 137438953472"
    by (rule real_less_lsqrt) (simp_all add: power2_eq_square)
  show "py_round (sqrt (8100180001) / (2 ^ 0 / 2 ^ 36)) = 6184821625716736"
    using lo hi by (intro py_round_eqI) (simp_all add: field_simps)
  show "2 ^ 52 * (2 ^ 0 / 2 ^ 36) \<le> \<bar>sqrt (8100180001)\<bar> \<or> int 0 - int 36 = - 1074"
    using lo by simp
  show "\<bar>sqrt (8100180001)\<bar> < 2 ^ 53 * (2 ^ 0 / 2 ^ 36)"
    using hi by simp
  show "sqrt (8100180001) \<noteq> 0" using lo by simp
qed simp_all

lemma rnd_rank_11: "rnd (89999 / 90001) = Fin (1125874887122691 / 1125899906842624)"
  by (rule rnd_eval[where a = 0 and b = 53 and m = "9006999096981528"])
     (simp_all add: py_round_def)

lemma rnd_rank_12: "rnd (28146872178067275 / 281474976710656) = Fin (7036718044516819 / 70368744177664)"
  by (rule rnd_eval[where a = 0 and b = 46 and m = "7036718044516819"])
     (simp_all add: py_round_def)

lemma rnd_rank_13: "rnd (39405621049294185 / 562949953421312) = Fin (4925702631161773 / 70368744177664)"
  by (rule rnd_eval[where a = 0 and b = 46 and m = "4925702631161773"])
     (simp_all add: py_round_def)

lemma rnd_rank_14: "rnd (4925702631161773 / 70368744177664) = Fin (4925702631161773 / 70368744177664)"
  by (rule rnd_eval[where a = 0 and b = 46 and m = "4925702631161773"])
     (simp_all add: py_round_def)

lemma rnd_rank_15: "rnd (sqrt (160000)) = Fin (400)"
proof (rule rnd_eval[where a = 0 and b = 44 and m = "7036874417766400"])
  have lo: "14073748835532799 / 35184372088832 < sqrt (160000)"
    by (rule real_less_rsqrt) (simp add: power2_eq_square)
  have hi: "sqrt (160000) < 14073748835532801 / 35184372088832"
    by (rule real_less_lsqrt) (simp_all add: power2_eq_square)
  show "py_round (sqrt (160000) / (2 ^ 0 / 2 ^ 44)) = 7036874417766400"
    using lo hi by (intro py_round_eqI) (simp_all add: field_simps)
  show "2 ^ 52 * (2 ^ 0 / 2 ^ 44) \<le> \<bar>sqrt (160000)\<bar> \<or> int 0 - int 44 = - 1074"
    using lo by simp
  show "\<bar>sqrt (160000)\<bar> < 2 ^ 53 * (2 ^ 0 / 2 ^ 44)"
    using hi by simp
  show "sqrt (160000) \<noteq> 0" using lo by simp
qed simp_all

lemma rnd_rank_16: "rnd (309 / 400) = Fin (869757678035927 / 1125899906842624)"
  by (rule rnd_eval[where a = 0 and b = 53 and m = "6958061424287416"])
     (simp_all add: py_round_def)

lemma rnd_rank_17: "rnd (21743941950898175 / 281474976710656) = Fin (309 / 4)"
  by (rule rnd_eval[where a = 0 and b = 46 and m = "5435985487724544"])
     (simp_all add: py_round_def)

lemma rnd_rank_18: "rnd (30441518731257445 / 562949953421312) = Fin (7610379682814361 / 140737488355328)"
  by (rule rnd_eval[where a = 0 and b = 47 and m = "7610379682814361"])
     (simp_all add: py_round_def)

lemma rnd_rank_19: "rnd (7610379682814361 / 140737488355328) = Fin (7610379682814361 / 140737488355328)"
  by (rule rnd_eval[where a = 0 and b = 47 and m = "7610379682814361"])
     (simp_all add: py_round_def)

lemma rnd_rank_20: "rnd (5407 / 100) = Fin (7609675995372585 / 140737488355328)"
  by (rule rnd_eval[where a = 0 and b = 47 and m = "7609675995372585"])
     (simp_all add: py_round_def)

lemma rnd_rank_21: "rnd (sqrt (765625)) = Fin (875)"
proof (rule rnd_eval[where a = 0 and b = 43 and m = "7696581394432000"])
  have lo: "15393162788863999 / 17592186044416 < sqrt (765625)"
    by (rule real_less_rsqrt) (simp add: power2_eq_square)
  have hi: "sqrt (765625) < 15393162788864001 / 17592186044416"
    by (rule real_less_lsqrt) (simp_all add: power2_eq_square)
  show "py_round (sqrt (765625) / (2 ^ 0 / 2 ^ 43)) = 7696581394432000"
    using lo hi by (intro py_round_eqI) (simp_all add: field_simps)
  show "2 ^ 52 * (2 ^ 0 / 2 ^ 43) \<le> \<bar>sqrt (765625)\<bar> \<or> int 0 - int 43 = - 1074"
    using lo by simp
  show "\<bar>sqrt (765625)\<bar> < 2 ^ 53 * (2 ^ 0 / 2 ^ 43)"
    using hi by simp
  show "sqrt (765625) \<noteq> 0" using lo by simp
qed simp_all

lemma rnd_rank_22: "rnd (676 / 875) = Fin (6958704795662755 / 9007199254740992)"
  by (rule rnd_eval[where a = 0 and b = 53 and m = "6958704795662755"])
     (simp_all add: py_round_def)

lemma rnd_rank_23: "rnd (173967619891568875 / 2251799813685248) = Fin (5436488121611527 / 70368744177664)"
  by (rule rnd_eval[where a = 0 and b = 46 and m = "5436488121611527"])
     (simp_all add: py_round_def)

lemma rnd_rank_24: "rnd (243554667848196425 / 4503599627370496) = Fin (3805541685128069 / 70368744177664)"
  by (rule rnd_eval[where a = 0 and b = 47 and m = "7611083370256138"])
     (simp_all add: py_round_def)

lemma rnd_rank_25: "rnd (3805541685128069 / 70368744177664) = Fin (3805541685128069 / 70368744177664)"
  by (rule rnd_eval[where a = 0 and b = 47 and m = "7611083370256138"])
     (simp_all add: py_round_def)

lemma rnd_rank_26: "rnd (1352 / 25) = Fin (3805541685128069 / 70368744177664)"
  by (rule rnd_eval[where a = 0 and b = 47 and m = "7611083370256138"])
     (simp_all add: py_round_def)

lemma rnd_rank_27: "rnd (sqrt (10000)) = Fin (100)"
proof (rule rnd_eval[where a = 0 and b = 46 and m = "7036874417766400"])
  have lo: "14073748835532799 / 140737488355328 < sqrt (10000)"
    by (rule real_less_rsqrt) (simp add: power2_eq_square)
  have hi: "sqrt (10000) < 14073748835532801 / 140737488355328"
    by (rule real_less_lsqrt) (simp_all add: power2_eq_square)
  show "py_round (sqrt (10000) / (2 ^ 0 / 2 ^ 46)) = 7036874417766400"
    using lo hi by (intro py_round_eqI) (simp_all add: field_simps)
  show "2 ^ 52 * (2 ^ 0 / 2 ^ 46) \<le> \<bar>sqrt (10000)\<bar> \<or> int 0 - int 46 = - 1074"
    using lo by simp
  show "\<bar>sqrt (10000)\<bar> < 2 ^ 53 * (2 ^ 0 / 2 ^ 46)"
    using hi by simp
  show "sqrt (10000) \<noteq> 0" using lo by simp
qed simp_all

lemma rnd_rank_28: "rnd (29 / 100) = Fin (5224175567749775 / 18014398509481984)"
  by (rule rnd_eval[where a = 0 and b = 54 and m = "5224175567749775"])
     (simp_all add: py_round_def)

lemma rnd_rank_29: "rnd (130604389193744375 / 4503599627370496) = Fin (8162774324609023 / 281474976710656)"
  by (rule rnd_eval[where a = 0 and b = 48 and m = "8162774324609023"])
     (simp_all add: py_round_def)

lemmas ranking_roundings = rnd_rank_2 rnd_rank_3 rnd_rank_4 rnd_rank_6 rnd_rank_7 rnd_rank_8 rnd_rank_9 rnd_rank_11 rnd_rank_12 rnd_rank_13 rnd_rank_14 rnd_rank_16 rnd_rank_17 rnd_rank_18 rnd_rank_19 rnd_rank_20 rnd_rank_22 rnd_rank_23 rnd_rank_24 rnd_rank_25 rnd_rank_26 rnd_rank_28 rnd_rank_29 rnd_rank_1 rnd_rank_5 rnd_rank_10 rnd_rank_15 rnd_rank_21 rnd_rank_27

lemma cos_a: "cosine_similarity [Fin 1, Fin 0, Fin 0, Fin 0] [Fin 9, Fin 3, Fin 5, Fin 9] = Inr (Fin (5790342378047781 / 9007199254740992))"
  by (simp add: cosine_similarity_def cosine_similarity_impl_def sum_squares_def
      dot_product_def py_sum_def rnd_zero rnd_one rnd_numeral ranking_roundings)

lemma percent_a: "similarity_percent (Fin (5790342378047781 / 9007199254740992)) = Inr 64"
  by (simp add: similarity_percent_def ranking_roundings)

lemma rank_one_a:
  "rank_one provider now example_preferences [] (Some [Fin 1, Fin 0, Fin 0, Fin 0]) db job_a =
     (db, Inr \<lparr>ranked_job = job_a, ranked_score = Fin (55),
               ranked_reasons = [''Matches preferred role focus'', ''Resume alignment 64%'']\<rparr>)"
  unfolding rank_one_def job_a_def evaluate_backend_job
  by (simp add: ensure_job_embedding_def truthy_vector_def plain_job_def cos_a
      percent_a make_ranked_entry_def SIMILARITY_WEIGHT_def py_min_def py_max_def
      py_round_def rnd_numeral ranking_roundings str_64 str_99 str_77 str_28)

lemma total_a:
  "total_score_of provider example_preferences example_profile (Some [Fin 1, Fin 0, Fin 0, Fin 0]) job_a
     = Fin (55)"
  unfolding total_score_of_def sim_score_of_def job_vector_of_def job_a_def evaluate_backend_job
    extract_example_profile
  by (simp add: truthy_vector_def plain_job_def cos_a SIMILARITY_WEIGHT_def
      py_min_def py_max_def rnd_numeral ranking_roundings)

lemma no_failure_a:
  "job_failure provider (Some [Fin 1, Fin 0, Fin 0, Fin 0]) job_a = None"
  unfolding job_failure_def job_vector_of_def job_a_def
  by (simp add: truthy_vector_def plain_job_def cos_a percent_a)

lemma cos_b: "cosine_similarity [Fin 1, Fin 0, Fin 0, Fin 0] [Fin 9, Fin 5, Fin 3, Fin 9] = Inr (Fin (5790342378047781 / 9007199254740992))"
  by (simp add: cosine_similarity_def cosine_similarity_impl_def sum_squares_def
      dot_product_def py_sum_def rnd_zero rnd_one rnd_numeral ranking_roundings)

lemma percent_b: "similarity_percent (Fin (5790342378047781 / 9007199254740992)) = Inr 64"
  by (simp add: similarity_percent_def ranking_roundings)

lemma rank_one_b:
  "rank_one provider now example_preferences [] (Some [Fin 1, Fin 0, Fin 0, Fin 0]) db job_b =
     (db, Inr \<lparr>ranked_job = job_b, ranked_score = Fin (55),
               ranked_reasons = [''Matches preferred role focus'', ''Resume alignment 64%'']\<rparr>)"
  unfolding rank_one_def job_b_def evaluate_backend_job
  by (simp add: ensure_job_embedding_def truthy_vector_def plain_job_def cos_b
      percent_b make_ranked_entry_def SIMILARITY_WEIGHT_def py_min_def py_max_def
      py_round_def rnd_numeral ranking_roundings str_64 str_99 str_77 str_28)

lemma total_b:
  "total_score_of provider example_preferences example_profile (Some [Fin 1, Fin 0, Fin 0, Fin 0]) job_b
     = Fin (55)"
  unfolding total_score_of_def sim_score_of_def job_vector_of_def job_b_def evaluate_backend_job
    extract_example_profile
  by (simp add: truthy_vector_def plain_job_def cos_b SIMILARITY_WEIGHT_def
      py_min_def py_max_def rnd_numeral ranking_roundings)

lemma no_failure_b:
  "job_failure provider (Some [Fin 1, Fin 0, Fin 0, Fin 0]) job_b = None"
  unfolding job_failure_def job_vector_of_def job_b_def
  by (simp add: truthy_vector_def plain_job_def cos_b percent_b)

lemma cos_near_a: "cosine_similarity [Fin 1, Fin 0] [Fin 39999, Fin 400] = Inr (Fin (9006748906036973 / 9007199254740992))"
  by (simp add: cosine_similarity_def cosine_similarity_impl_def sum_squares_def
      dot_product_def py_sum_def rnd_zero rnd_one rnd_numeral ranking_roundings)

lemma percent_near_a: "similarity_percent (Fin (9006748906036973 / 9007199254740992)) = Inr 99"
  by (simp add: similarity_percent_def ranking_roundings)

lemma rank_one_near_a:
  "rank_one provider now no_preferences [] (Some [Fin 1, Fin 0]) db job_near_a =
     (db, Inr \<lparr>ranked_job = job_near_a, ranked_score = Fin (70),
               ranked_reasons = [''Resume alignment 99%'']\<rparr>)"
  unfolding rank_one_def job_near_a_def evaluate_plain_job
  by (simp add: ensure_job_embedding_def truthy_vector_def plain_job_def cos_near_a
      percent_near_a make_ranked_entry_def SIMILARITY_WEIGHT_def py_min_def py_max_def
      py_round_def rnd_numeral ranking_roundings str_64 str_99 str_77 str_28)

lemma total_near_a:
  "total_score_of provider no_preferences example_profile (Some [Fin 1, Fin 0]) job_near_a
     = Fin (2462782903994485 / 35184372088832)"
  unfolding total_score_of_def sim_score_of_def job_vector_of_def job_near_a_def evaluate_plain_job
    extract_example_profile
  by (simp add: truthy_vector_def plain_job_def cos_near_a SIMILARITY_WEIGHT_def
      py_min_def py_max_def rnd_numeral ranking_roundings)

lemma no_failure_near_a:
  "job_failure provider (Some [Fin 1, Fin 0]) job_near_a = None"
  unfolding job_failure_def job_vector_of_def job_near_a_def
  by (simp add: truthy_vector_def plain_job_def cos_near_a percent_near_a)

lemma cos_near_b: "cosine_similarity [Fin 1, Fin 0] [Fin 89999, Fin 600] = Inr (Fin (1125874887122691 / 1125899906842624))"
  by (simp add: cosine_similarity_def cosine_similarity_impl_def sum_squares_def
      dot_product_def py_sum_def rnd_zero rnd_one rnd_numeral ranking_roundings)

lemma percent_near_b: "similarity_percent (Fin (1125874887122691 / 1125899906842624)) = Inr 99"
  by (simp add: similarity_percent_def ranking_roundings)

lemma rank_one_near_b:
  "rank_one provider now no_preferences [] (Some [Fin 1, Fin 0]) db job_near_b =
     (db, Inr \<lparr>ranked_job = job_near_b, ranked_score = Fin (70),
               ranked_reasons = [''Resume alignment 99%'']\<rparr>)"
  unfolding rank_one_def job_near_b_def evaluate_plain_job
  by (simp add: ensure_job_embedding_def truthy_vector_def plain_job_def cos_near_b
      percent_near_b make_ranked_entry_def SIMILARITY_WEIGHT_def py_min_def py_max_def
      py_round_def rnd_numeral ranking_roundings str_64 str_99 str_77 str_28)

lemma total_near_b:
  "total_score_of provider no_preferences example_profile (Some [Fin 1, Fin 0]) job_near_b
     = Fin (4925702631161773 / 70368744177664)"
  unfolding total_score_of_def sim_score_of_def job_vector_of_def job_near_b_def evaluate_plain_job
    extract_example_profile
  by (simp add: truthy_vector_def plain_job_def cos_near_b SIMILARITY_WEIGHT_def
      py_min_def py_max_def rnd_numeral ranking_roundings)

lemma no_failure_near_b:
  "job_failure provider (Some [Fin 1, Fin 0]) job_near_b = None"
  unfolding job_failure_def job_vector_of_def job_near_b_def
  by (simp add: truthy_vector_def plain_job_def cos_near_b percent_near_b)

lemma cos_x: "cosine_similarity [Fin 1, Fin 0, Fin 0, Fin 0, Fin 0] [Fin 309, Fin 254, Fin 1, Fin 1, Fin 1] = Inr (Fin (869757678035927 / 1125899906842624))"
  by (simp add: cosine_similarity_def cosine_similarity_impl_def sum_squares_def
      dot_product_def py_sum_def rnd_zero rnd_one rnd_numeral ranking_roundings)

lemma percent_x: "similarity_percent (Fin (869757678035927 / 1125899906842624)) = Inr 77"
  by (simp add: similarity_percent_def ranking_roundings)

lemma rank_one_x:
  "rank_one provider now no_preferences [] (Some [Fin 1, Fin 0, Fin 0, Fin 0, Fin 0]) db job_x =
     (db, Inr \<lparr>ranked_job = job_x, ranked_score = Fin (7609675995372585 / 140737488355328),
               ranked_reasons = [''Resume alignment 77%'']\<rparr>)"
  unfolding rank_one_def job_x_def evaluate_plain_job
  by (simp add: ensure_job_embedding_def truthy_vector_def plain_job_def cos_x
      percent_x make_ranked_entry_def SIMILARITY_WEIGHT_def py_min_def py_max_def
      py_round_def rnd_numeral ranking_roundings str_64 str_99 str_77 str_28)

lemma total_x:
  "total_score_of provider no_preferences example_profile (Some [Fin 1, Fin 0, Fin 0, Fin 0, Fin 0]) job_x
     = Fin (7610379682814361 / 140737488355328)"
  unfolding total_score_of_def sim_score_of_def job_vector_of_def job_x_def evaluate_plain_job
    extract_example_profile
  by (simp add: truthy_vector_def plain_job_def cos_x SIMILARITY_WEIGHT_def
      py_min_def py_max_def rnd_numeral ranking_roundings)

lemma no_failure_x:
  "job_failure provider (Some [Fin 1, Fin 0, Fin 0, Fin 0, Fin 0]) job_x = None"
  unfolding job_failure_def job_vector_of_def job_x_def
  by (simp add: truthy_vector_def plain_job_def cos_x percent_x)

lemma cos_y: "cosine_similarity [Fin 1, Fin 0, Fin 0, Fin 0, Fin 0] [Fin 676, Fin 554, Fin 41, Fin 6, Fin 4] = Inr (Fin (6958704795662755 / 9007199254740992))"
  by (simp add: cosine_similarity_def cosine_similarity_impl_def sum_squares_def
      dot_product_def py_sum_def rnd_zero rnd_one rnd_numeral ranking_roundings)

lemma percent_y: "similarity_percent (Fin (6958704795662755 / 9007199254740992)) = Inr 77"
  by (simp add: similarity_percent_def ranking_roundings)

lemma rank_one_y:
  "rank_one provider now no_preferences [] (Some [Fin 1, Fin 0, Fin 0, Fin 0, Fin 0]) db job_y =
     (db, Inr \<lparr>ranked_job = job_y, ranked_score = Fin (3805541685128069 / 70368744177664),
               ranked_reasons = [''Resume alignment 77%'']\<rparr>)"
  unfolding rank_one_def job_y_def evaluate_plain_job
  by (simp add: ensure_job_embedding_def truthy_vector_def plain_job_def cos_y
      percent_y make_ranked_entry_def SIMILARITY_WEIGHT_def py_min_def py_max_def
      py_round_def rnd_numeral ranking_roundings str_64 str_99 str_77 str_28)

lemma total_y:
  "total_score_of provider no_preferences example_profile (Some [Fin 1, Fin 0, Fin 0, Fin 0, Fin 0]) job_y
     = Fin (3805541685128069 / 70368744177664)"
  unfolding total_score_of_def sim_score_of_def job_vector_of_def job_y_def evaluate_plain_job
    extract_example_profile
  by (simp add: truthy_vector_def plain_job_def cos_y SIMILARITY_WEIGHT_def
      py_min_def py_max_def rnd_numeral ranking_roundings)

lemma no_failure_y:
  "job_failure provider (Some [Fin 1, Fin 0, Fin 0, Fin 0, Fin 0]) job_y = None"
  unfolding job_failure_def job_vector_of_def job_y_def
  by (simp add: truthy_vector_def plain_job_def cos_y percent_y)

lemma cos_29_percent:
  "cosine_similarity [Fin 1, Fin 0, Fin 0, Fin 0, Fin 0] [Fin 29, Fin 95, Fin 11, Fin 3, Fin 2]
     = Inr (Fin (5224175567749775 / 18014398509481984))"
  by (simp add: cosine_similarity_def cosine_similarity_impl_def sum_squares_def
      dot_product_def py_sum_def rnd_zero rnd_one rnd_numeral ranking_roundings)

lemma percent_29_percent: "similarity_percent (Fin (5224175567749775 / 18014398509481984)) = Inr 28"
  by (simp add: similarity_percent_def ranking_roundings)

lemma strip_engineer: "py_strip ''Engineer'' = ''Engineer''"
  by (simp add: py_strip_def py_isspace_def)

lemma job_vector_unembedded:
  "job_vector_of example_provider_down job_unembedded = Inl (ProviderError ''unavailable'')"
  by (simp add: job_vector_of_def job_unembedded_def plain_job_def truthy_vector_def
      embed_text_def job_to_text_def strip_engineer embed_for_matching_def
      batched_embeddings_def example_provider_down_def)

lemma job_vector_blank: "job_vector_of example_provider_down job_blank = Inr None"
  by (simp add: job_vector_of_def job_blank_def plain_job_def truthy_vector_def
      embed_text_def job_to_text_def strip_blank)

lemma job_vector_a:
  "job_vector_of provider job_a = Inr (Some [Fin 9, Fin 3, Fin 5, Fin 9])"
  by (simp add: job_vector_of_def job_a_def plain_job_def truthy_vector_def)

lemma no_failure_blank:
  "job_failure example_provider_down (Some [Fin 1, Fin 0, Fin 0, Fin 0]) job_blank = None"
  by (simp add: job_failure_def job_vector_blank truthy_vector_def)

lemma rank_one_unembedded:
  "rank_one example_provider_down now example_preferences [] (Some [Fin 1, Fin 0, Fin 0, Fin 0]) db job_unembedded
     = (db, Inl (ProviderError ''unavailable''))"
  unfolding rank_one_def
  by (simp add: job_unembedded_def evaluate_plain_job ensure_job_embedding_def plain_job_def
      truthy_vector_def embed_text_def job_to_text_def strip_engineer embed_for_matching_def
      batched_embeddings_def example_provider_down_def)

lemma rank_one_blank:
  "rank_one example_provider_down now example_preferences [] (Some [Fin 1, Fin 0, Fin 0, Fin 0]) db job_blank
     = (db, Inr \<lparr>ranked_job = job_blank, ranked_score = Fin 0, ranked_reasons = []\<rparr>)"
  unfolding rank_one_def evaluate_blank_job
  by (simp add: job_blank_def ensure_job_embedding_def plain_job_def
      truthy_vector_def embed_text_def job_to_text_def strip_blank make_ranked_entry_def
      py_min_def py_max_def py_round_def rnd_zero)

lemma total_blank:
  "total_score_of example_provider_down example_preferences example_profile (Some [Fin 1, Fin 0, Fin 0, Fin 0]) job_blank
     = Fin 0"
  by (simp add: total_score_of_def sim_score_of_def job_vector_blank truthy_vector_def
      evaluate_blank_job extract_example_profile py_min_def py_max_def rnd_zero)

lemma rank_clean_pair:
  "rank_jobs example_provider_down 0 example_db [job_a, job_b] example_preferences
     example_profile (Some [Fin 1, Fin 0, Fin 0, Fin 0]) =
   (example_db,
    Inr [\<lparr>ranked_job = job_a, ranked_score = Fin 55,
          ranked_reasons = [''Matches preferred role focus'', ''Resume alignment 64%'']\<rparr>,
         \<lparr>ranked_job = job_b, ranked_score = Fin 55,
          ranked_reasons = [''Matches preferred role focus'', ''Resume alignment 64%'']\<rparr>])"
  by (simp add: rank_jobs_def extract_example_profile rank_one_a rank_one_b)

lemma rank_near_pair:
  "rank_jobs example_provider_down 0 example_db [job_near_a, job_near_b] no_preferences
     example_profile (Some [Fin 1, Fin 0]) =
   (example_db,
    Inr [\<lparr>ranked_job = job_near_a, ranked_score = Fin 70,
          ranked_reasons = [''Resume alignment 99%'']\<rparr>,
         \<lparr>ranked_job = job_near_b, ranked_score = Fin 70,
          ranked_reasons = [''Resume alignment 99%'']\<rparr>])"
  by (simp add: rank_jobs_def extract_example_profile rank_one_near_a rank_one_near_b)

lemma rank_xy_pair:
  "rank_jobs example_provider_down 0 example_db [job_x, job_y] no_preferences
     example_profile (Some [Fin 1, Fin 0, Fin 0, Fin 0, Fin 0]) =
   (example_db,
    Inr [\<lparr>ranked_job = job_y, ranked_score = Fin (3805541685128069 / 70368744177664),
          ranked_reasons = [''Resume alignment 77%'']\<rparr>,
         \<lparr>ranked_job = job_x, ranked_score = Fin (7609675995372585 / 140737488355328),
          ranked_reasons = [''Resume alignment 77%'']\<rparr>])"
  by (simp add: rank_jobs_def extract_example_profile rank_one_x rank_one_y)

lemma rank_with_failure:
  "rank_jobs example_provider_down 0 example_db [job_a, job_unembedded] example_preferences
     example_profile (Some [Fin 1, Fin 0, Fin 0, Fin 0]) = (example_db, Inl (ProviderError ''unavailable''))"
  by (simp add: rank_jobs_def extract_example_profile rank_one_a rank_one_unembedded)

lemma rank_single:
  "rank_jobs example_provider_down 0 example_db [job_a] example_preferences
     example_profile (Some [Fin 1, Fin 0, Fin 0, Fin 0]) =
   (example_db,
    Inr [\<lparr>ranked_job = job_a, ranked_score = Fin 55,
          ranked_reasons = [''Matches preferred role focus'', ''Resume alignment 64%'']\<rparr>])"
  by (simp add: rank_jobs_def extract_example_profile rank_one_a)

lemma rank_with_blank:
  "rank_jobs example_provider_down 0 example_db [job_a, job_blank] example_preferences
     example_profile (Some [Fin 1, Fin 0, Fin 0, Fin 0]) =
   (example_db,
    Inr [\<lparr>ranked_job = job_a, ranked_score = Fin 55,
          ranked_reasons = [''Matches preferred role focus'', ''Resume alignment 64%'']\<rparr>,
         \<lparr>ranked_job = job_blank, ranked_score = Fin 0, ranked_reasons = []\<rparr>])"
  by (simp add: rank_jobs_def extract_example_profile rank_one_a rank_one_blank)

lemma ranked_entries_finite:
  assumes "list_all2 (\<lambda>job entry. ranked_job entry = job
            \<and> ranked_score entry =
                py_round_ndigits
                  (total_score_of provider preferences profile resume_vector job) 2)
          jobs entries"
  shows "list_all (\<lambda>entry. fin_upto 7 (ranked_score entry)) entries"
proof -
  have "fin_upto 7 (py_round_ndigits
          (total_score_of provider preferences profile resume_vector job) 2)" for job
  proof -
    obtain t where "total_score_of provider preferences profile resume_vector job = Fin t"
      "0 \<le> t" "t \<le> 100"
      unfolding total_score_of_def using clamp_fin by blast
    then show ?thesis using round2_upto[of t] by simp
  qed
  with assms show ?thesis
    by (induction jobs entries rule: list_all2_induct) simp_all
qed

lemma fin_upto_value: "fin_upto n d \<Longrightarrow> d = Fin (fin_value d)"
  by (cases d) simp_all

lemma sorted_descending:
  assumes fin: "list_all (\<lambda>entry. fin_upto 7 (ranked_score entry)) entries"
  shows "sorted_wrt (\<lambda>a b. dbl_le (ranked_score b) (ranked_score a))
           (sort_key descending_score entries)"
proof -
  let ?ranked = "sort_key descending_score entries"
  have s: "sorted (map descending_score ?ranked)" by (rule sorted_sort_key)
  have f: "\<forall>entry\<in>set ?ranked. fin_upto 7 (ranked_score entry)"
    using fin by (simp add: list_all_iff)
  have "sorted_wrt (\<lambda>a b. descending_score a \<le> descending_score b) ?ranked"
    using s by (simp add: sorted_wrt_map)
  then show ?thesis
  proof (rule sorted_wrt_mono_rel[rotated])
    fix a b
    assume a: "a \<in> set ?ranked" and b: "b \<in> set ?ranked"
      and le: "descending_score a \<le> descending_score b"
    from f a b have "ranked_score a = Fin (fin_value (ranked_score a))"
      "ranked_score b = Fin (fin_value (ranked_score b))"
      by (auto intro: fin_upto_value)
    then obtain x y where xy: "ranked_score a = Fin x" "ranked_score b = Fin y" by blast
    with le show "dbl_le (ranked_score b) (ranked_score a)"
      by (auto simp: descending_score_def dbl_le_def)
  qed
qed

lemma stable_descending:
  assumes fin: "list_all (\<lambda>entry. fin_upto 7 (ranked_score entry)) entries"
  shows "filter (\<lambda>entry. ranked_score entry = c) (sort_key descending_score entries)
           = filter (\<lambda>entry. ranked_score entry = c) entries"
proof (cases "\<exists>v. c = Fin v")
  case True
  then obtain v where c: "c = Fin v" by blast
  have eq: "(ranked_score entry = c) = (descending_score entry = - v)"
    if "entry \<in> set entries" for entry
  proof -
    from fin that have "fin_upto 7 (ranked_score entry)" by (simp add: list_all_iff)
    then obtain x where "ranked_score entry = Fin x" by (cases "ranked_score entry") simp_all
    then show ?thesis by (simp add: c descending_score_def)
  qed
  have "filter (\<lambda>entry. ranked_score entry = c) (sort_key descending_score entries)
          = filter (\<lambda>entry. descending_score entry = - v) (sort_key descending_score entries)"
    by (rule filter_cong) (simp_all add: eq)
  also have "\<dots> = filter (\<lambda>entry. descending_score entry = - v) entries"
    using sort_key_stable[of descending_score "- v" entries] by simp
  also have "\<dots> = filter (\<lambda>entry. ranked_score entry = c) entries"
    by (rule filter_cong) (simp_all add: eq)
  finally show ?thesis .
next
  case False
  have no: "ranked_score entry \<noteq> c" if "entry \<in> set entries" for entry
  proof -
    from fin that have "fin_upto 7 (ranked_score entry)" by (simp add: list_all_iff)
    then obtain x where "ranked_score entry = Fin x" by (cases "ranked_score entry") simp_all
    with False show ?thesis by auto
  qed
  have "filter (\<lambda>entry. ranked_score entry = c) (sort_key descending_score entries) = []"
    by (simp add: filter_empty_conv no)
  moreover have "filter (\<lambda>entry. ranked_score entry = c) entries = []"
    by (simp add: filter_empty_conv no)
  ultimately show ?thesis by simp
qed

lemma rnd_relative_error:
  assumes lo: "2 powr (- 1022) \<le> x" and hi: "x \<le> 2 ^ 1023"
  shows "\<exists>y. rnd x = Fin y \<and> \<bar>y - x\<bar> \<le> x / 2 ^ 53"
proof -
  have pos: "0 < x" using lo by (rule less_le_trans[rotated]) simp
  define e where "e = ulp_exponent x"
  define u :: real where "u = 2 powr of_int e"
  define m where "m = py_round (x / u)"
  have upos: "0 < u" by (simp add: u_def)
  have r: "rnd x = (if 2 ^ 1024 \<le> \<bar>of_int m * u\<bar> then PInf else Fin (of_int m * u))"
    using pos by (simp add: rnd_def Let_def u_def m_def e_def)
  from rnd_upper[of x 1023] pos hi obtain y where y: "rnd x = Fin y" by auto
  with r have ym: "y = of_int m * u" by (auto split: if_splits)
  have "of_int (- 1022) \<le> log 2 x"
    using lo pos by (simp add: le_log_iff)
  then have fl: "- 1022 \<le> \<lfloor>log 2 \<bar>x\<bar>\<rfloor>" using pos by (simp add: le_floor_iff)
  then have e: "e = \<lfloor>log 2 \<bar>x\<bar>\<rfloor> - 52" by (simp add: e_def ulp_exponent_def)
  have "of_int (e + 52) \<le> log 2 x" using e pos by simp
  then have "2 powr of_int (e + 52) \<le> x" using pos by (simp add: le_log_iff del: of_int_add)
  moreover have "2 powr of_int (e + 52) = 2 ^ 52 * u"
    unfolding u_def by (simp add: powr_add mult.commute)
  ultimately have ux: "2 ^ 52 * u \<le> x" by simp
  have b: "of_int m - 1 / 2 \<le> x / u \<and> x / u \<le> of_int m + 1 / 2"
    unfolding m_def by (rule py_round_bounds)
  have "\<bar>of_int m - x / u\<bar> \<le> 1 / 2" using b by linarith
  then have "\<bar>of_int m - x / u\<bar> * u \<le> 1 / 2 * u"
    using upos by (intro mult_right_mono) simp_all
  moreover have "\<bar>of_int m - x / u\<bar> * u = \<bar>of_int m * u - x\<bar>"
  proof -
    have "\<bar>of_int m - x / u\<bar> * u = \<bar>(of_int m - x / u) * u\<bar>"
      using upos by (simp add: abs_mult)
    also have "(of_int m - x / u) * u = of_int m * u - x"
      using upos by (simp add: field_simps)
    finally show ?thesis .
  qed
  ultimately have "\<bar>y - x\<bar> \<le> u / 2" by (simp add: ym)
  moreover have "u / 2 \<le> x / 2 ^ 53" using ux by simp
  ultimately have "\<bar>y - x\<bar> \<le> x / 2 ^ 53" by linarith
  with y show ?thesis by blast
qed

lemma relative_bounds:
  fixes x y :: real
  assumes "\<bar>y - x\<bar> \<le> x / 2 ^ 53"
  shows "x * (1 - 1 / 2 ^ 53) \<le> y" and "y \<le> x * (1 + 1 / 2 ^ 53)"
proof -
  have a: "x * (1 - 1 / 2 ^ 53) = x - x / 2 ^ 53" by (simp add: algebra_simps)
  have b: "x * (1 + 1 / 2 ^ 53) = x + x / 2 ^ 53" by (simp add: algebra_simps)
  show "x * (1 - 1 / 2 ^ 53) \<le> y" unfolding a using assms by linarith
  show "y \<le> x * (1 + 1 / 2 ^ 53)" unfolding b using assms by linarith
qed

lemma dot_product_self: "dot_product a a = sum_squares a"
proof -
  have "map (\<lambda>(x, y). fl_mul x y) (zip a a) = map (\<lambda>x. fl_mul x x) a"
    by (induction a) simp_all
  then show ?thesis by (simp add: dot_product_def sum_squares_def)
qed

lemma self_similarity_near_one:
  assumes s: "sum_squares a = Fin s" and lo: "1 / 2 ^ 1000 \<le> s" and hi: "s \<le> 2 ^ 1000"
  shows "\<exists>c. cosine_similarity_impl a a = Inr (Fin c) \<and> \<bar>c - 1\<bar> \<le> 1 / 2 ^ 50"
proof -
  define eps :: real where "eps = 1 / 2 ^ 53"
  have spos: "0 < s" using lo by (rule less_le_trans[rotated]) simp
  define r where "r = sqrt s"
  have rpos: "0 < r" using spos by (simp add: r_def)
  have rr: "r * r = s" using spos by (simp add: r_def)
  have rlo: "1 / 2 ^ 500 \<le> r"
  proof -
    have half: "((1::real) / 2 ^ 500)\<^sup>2 = 1 / 2 ^ 1000"
      by (simp add: power2_eq_square)
    have "sqrt ((1 / 2 ^ 500)\<^sup>2) \<le> sqrt s"
      unfolding half using lo by (rule real_sqrt_le_mono)
    then show ?thesis by (simp add: r_def)
  qed
  have rhi: "r \<le> 2 ^ 500"
  proof -
    have "sqrt s \<le> sqrt ((2 ^ 500)\<^sup>2)"
      using hi by (intro real_sqrt_le_mono) simp
    then show ?thesis by (simp add: r_def)
  qed
  have p1022: "(2::real) powr (- 1022) = 1 / 2 ^ 1022"
    using powr_int_diff[of 0 1022] by simp
  have "2 powr (- 1022) \<le> r" using rlo unfolding p1022 by (rule order_trans[rotated]) simp
  moreover have "r \<le> 2 ^ 1023" using rhi by (rule order_trans) simp
  ultimately obtain n where n: "rnd r = Fin n" and nerr: "\<bar>n - r\<bar> \<le> r / 2 ^ 53"
    using rnd_relative_error[of r] by blast
  have n1: "r * (1 - eps) \<le> n" and n2: "n \<le> r * (1 + eps)"
    unfolding eps_def using relative_bounds[OF nerr] by simp_all
  have npos: "0 < n"
  proof -
    have "0 < r * (1 - eps)" using rpos by (simp add: eps_def)
    with n1 show ?thesis by linarith
  qed
  have q1: "s * (1 - eps)\<^sup>2 \<le> n * n"
  proof -
    have "(r * (1 - eps)) * (r * (1 - eps)) \<le> n * n"
      using n1 rpos by (intro mult_mono) (simp_all add: eps_def)
    then show ?thesis by (simp add: rr[symmetric] power2_eq_square algebra_simps)
  qed
  have q2: "n * n \<le> s * (1 + eps)\<^sup>2"
  proof -
    have "n * n \<le> (r * (1 + eps)) * (r * (1 + eps))"
      using n2 npos by (intro mult_mono) simp_all
    then show ?thesis by (simp add: rr[symmetric] power2_eq_square algebra_simps)
  qed
  have e1: "(1 / 2 :: real) \<le> (1 - eps)\<^sup>2" and e2: "(1 + eps)\<^sup>2 \<le> (2 :: real)"
    by (simp_all add: eps_def power2_eq_square)
  have qlo: "1 / 2 ^ 1001 \<le> n * n"
  proof -
    have "1 / 2 ^ 1000 * (1 / 2) \<le> s * (1 - eps)\<^sup>2"
      using lo e1 by (intro mult_mono) simp_all
    with q1 show ?thesis by simp
  qed
  have qhi: "n * n \<le> 2 ^ 1001"
  proof -
    have "s * (1 + eps)\<^sup>2 \<le> 2 ^ 1000 * 2"
      using hi e2 spos by (intro mult_mono) simp_all
    with q2 show ?thesis by simp
  qed
  have "2 powr (- 1022) \<le> n * n" using qlo unfolding p1022 by (rule order_trans[rotated]) simp
  moreover have "n * n \<le> 2 ^ 1023" using qhi by (rule order_trans) simp
  ultimately obtain p where p: "rnd (n * n) = Fin p" and perr: "\<bar>p - n * n\<bar> \<le> n * n / 2 ^ 53"
    using rnd_relative_error[of "n * n"] by blast
  have sq: "0 < n * n" using npos by simp
  have p1: "n * n * (1 - eps) \<le> p" and p2: "p \<le> n * n * (1 + eps)"
    unfolding eps_def using relative_bounds[OF perr] by simp_all
  have p3: "s * (1 - eps) ^ 3 \<le> p"
  proof -
    have "s * (1 - eps)\<^sup>2 * (1 - eps) \<le> n * n * (1 - eps)"
      using q1 by (intro mult_right_mono) (simp_all add: eps_def)
    with p1 show ?thesis by (simp add: power3_eq_cube power2_eq_square algebra_simps)
  qed
  have p4: "p \<le> s * (1 + eps) ^ 3"
  proof -
    have "n * n * (1 + eps) \<le> s * (1 + eps)\<^sup>2 * (1 + eps)"
      using q2 by (intro mult_right_mono) (simp_all add: eps_def)
    with p2 show ?thesis by (simp add: power3_eq_cube power2_eq_square algebra_simps)
  qed
  have c3: "(0::real) < (1 - eps) ^ 3" by (simp add: eps_def)
  have ppos: "0 < p"
  proof -
    have "0 < s * (1 - eps) ^ 3" using spos c3 by simp
    with p3 show ?thesis by linarith
  qed
  have d1: "1 / (1 + eps) ^ 3 \<le> s / p"
  proof -
    have "s / (s * (1 + eps) ^ 3) \<le> s / p"
      using p4 ppos spos by (intro divide_left_mono) simp_all
    then show ?thesis using spos by simp
  qed
  have d2: "s / p \<le> 1 / (1 - eps) ^ 3"
  proof -
    have "s / p \<le> s / (s * (1 - eps) ^ 3)"
      using p3 ppos spos c3 by (intro divide_left_mono) simp_all
    then show ?thesis using spos by simp
  qed
  have dlo: "(1 / 2 :: real) \<le> 1 / (1 + eps) ^ 3" and dhi: "1 / (1 - eps) ^ 3 \<le> (2 :: real)"
    by (simp_all add: eps_def power3_eq_cube field_simps)
  have "2 powr (- 1022) \<le> s / p"
    using d1 dlo unfolding p1022 by (intro order_trans[OF _ d1] order_trans[OF _ dlo]) simp
  moreover have "s / p \<le> 2 ^ 1023" using d2 dhi by (intro order_trans[OF d2] order_trans[OF dhi]) simp
  ultimately obtain c where c: "rnd (s / p) = Fin c" and cerr: "\<bar>c - s / p\<bar> \<le> s / p / 2 ^ 53"
    using rnd_relative_error[of "s / p"] by blast
  have dpos: "0 < s / p" using spos ppos by simp
  have c1: "s / p * (1 - eps) \<le> c" and c2: "c \<le> s / p * (1 + eps)"
    unfolding eps_def using relative_bounds[OF cerr] by simp_all
  have "1 / (1 + eps) ^ 3 * (1 - eps) \<le> s / p * (1 - eps)"
    using d1 by (intro mult_right_mono) (simp_all add: eps_def)
  with c1 have lower: "1 / (1 + eps) ^ 3 * (1 - eps) \<le> c" by linarith
  have "s / p * (1 + eps) \<le> 1 / (1 - eps) ^ 3 * (1 + eps)"
    using d2 by (intro mult_right_mono) (simp_all add: eps_def)
  with c2 have upper: "c \<le> 1 / (1 - eps) ^ 3 * (1 + eps)" by linarith
  have l: "1 - 1 / 2 ^ 50 \<le> 1 / (1 + eps) ^ 3 * (1 - eps)"
    by (simp add: eps_def power3_eq_cube field_simps)
  have u: "1 / (1 - eps) ^ 3 * (1 + eps) \<le> 1 + 1 / 2 ^ 50"
    by (simp add: eps_def power3_eq_cube field_simps)
  have "1 - 1 / 2 ^ 50 \<le> c" using l lower by (rule order_trans)
  moreover have "c \<le> 1 + 1 / 2 ^ 50" using upper u by (rule order_trans)
  ultimately have near: "\<bar>c - 1\<bar> \<le> 1 / 2 ^ 50" by linarith
  have sq_s: "fl_sqrt (Fin s) = Inr (Fin n)" using spos n by (simp add: r_def)
  have "cosine_similarity_impl a a = Inr (Fin c)"
    using npos ppos
    by (simp add: cosine_similarity_impl_def dot_product_self s sq_s p c del: fl_sqrt.simps)
  with near show ?thesis by blast
qed

section \<open>Claims\<close>

text \<open>
  Claim C7, as amended. The cosine similarity returns a float for all vectors, whatever
  their lengths and components: neither \<^verbatim>\<open>math.sqrt\<close> nor the division can raise. It
  returns 0 whenever the computed norm of one of the vectors is zero, in particular
  against a vector of zeros, and it returns the same float for \<open>(a, b)\<close> and for
  \<open>(b, a)\<close>. The similarity of a vector with itself is within \<open>2\<^sup>-\<^sup>5\<^sup>0\<close> of 1 when the
  float sum of its squares lies between \<open>2\<^sup>-\<^sup>1\<^sup>0\<^sup>0\<^sup>0\<close> and \<open>2\<^sup>1\<^sup>0\<^sup>0\<^sup>0\<close>, away from
  underflow and overflow.
\<close>

theorem cosine_similarity_total_symmetric:
  "(\<exists>r. cosine_similarity_impl a b = Inr r)
   \<and> (fl_sqrt (sum_squares a) = Inr (Fin 0) \<or> fl_sqrt (sum_squares b) = Inr (Fin 0)
        \<longrightarrow> cosine_similarity_impl a b = Inr (Fin 0))
   \<and> cosine_similarity_impl a (replicate n (Fin 0)) = Inr (Fin 0)
   \<and> cosine_similarity_impl (replicate n (Fin 0)) b = Inr (Fin 0)
   \<and> cosine_similarity_impl a b = cosine_similarity_impl b a
   \<and> (\<forall>s. sum_squares a = Fin s \<and> 1 / 2 ^ 1000 \<le> s \<and> s \<le> 2 ^ 1000 \<longrightarrow>
          (\<exists>c. cosine_similarity_impl a a = Inr (Fin c) \<and> \<bar>c - 1\<bar> \<le> 1 / 2 ^ 50))"
proof (intro conjI impI allI)
  show "\<exists>r. cosine_similarity_impl a b = Inr r" by (rule cosine_similarity_impl_returns)
  show "cosine_similarity_impl a b = Inr (Fin 0)"
    if "fl_sqrt (sum_squares a) = Inr (Fin 0) \<or> fl_sqrt (sum_squares b) = Inr (Fin 0)"
    using that by (rule cosine_similarity_impl_zero_norm)
  have z: "fl_sqrt (sum_squares (replicate n (Fin 0))) = Inr (Fin 0)"
    by (simp add: sum_squares_zeros rnd_zero)
  show "cosine_similarity_impl a (replicate n (Fin 0)) = Inr (Fin 0)"
    by (rule cosine_similarity_impl_zero_norm) (simp add: z)
  show "cosine_similarity_impl (replicate n (Fin 0)) b = Inr (Fin 0)"
    by (rule cosine_similarity_impl_zero_norm) (simp add: z)
  show "cosine_similarity_impl a b = cosine_similarity_impl b a"
    by (rule cosine_similarity_impl_commute)
  show "\<exists>c. cosine_similarity_impl a a = Inr (Fin c) \<and> \<bar>c - 1\<bar> \<le> 1 / 2 ^ 50"
    if "sum_squares a = Fin s \<and> 1 / 2 ^ 1000 \<le> s \<and> s \<le> 2 ^ 1000" for s
    using that by (intro self_similarity_near_one[of a s]) simp_all
qed

theorem cosine_similarity_total_symmetric_witness:
  "fl_sqrt (sum_squares [Fin 0, Fin 0]) = Inr (Fin 0)
   \<and> cosine_similarity_impl [Fin 0, Fin 0] [Fin 2, Fin 3] = Inr (Fin 0)
   \<and> cosine_similarity_impl [Fin 2, Fin 3] [Fin 0, Fin 0] = Inr (Fin 0)
   \<and> sum_squares [Fin 2, Fin 3] = Fin 13
   \<and> cosine_similarity_impl [Fin 2, Fin 3] [Fin 2, Fin 3] = Inr (Fin (1 + 1 / 2 ^ 52))
   \<and> \<bar>(1 + 1 / 2 ^ 52) - 1\<bar> \<le> (1 / 2 ^ 50 :: real)"
proof -
  have z: "fl_sqrt (sum_squares [Fin 0, Fin 0]) = Inr (Fin 0)"
    by (simp add: sum_squares_def py_sum_def rnd_zero)
  from cosine_similarity_total_symmetric[of "[Fin 0, Fin 0]" "[Fin 2, Fin 3]" 0] z
  have one: "cosine_similarity_impl [Fin 0, Fin 0] [Fin 2, Fin 3] = Inr (Fin 0)"
    and sym: "cosine_similarity_impl [Fin 0, Fin 0] [Fin 2, Fin 3]
              = cosine_similarity_impl [Fin 2, Fin 3] [Fin 0, Fin 0]"
    by blast+
  have s: "sum_squares [Fin 2, Fin 3] = Fin 13"
    by (simp add: sum_squares_def py_sum_def rnd_numeral)
  from cosine_similarity_total_symmetric[of "[Fin 2, Fin 3]" "[Fin 2, Fin 3]" 0] s
  obtain c where c: "cosine_similarity_impl [Fin 2, Fin 3] [Fin 2, Fin 3] = Inr (Fin c)"
      "\<bar>c - 1\<bar> \<le> 1 / 2 ^ 50"
    by auto
  from c(1) have "c = 1 + 1 / 2 ^ 52" by (simp add: cosine_2_3)
  with c(2) have near: "\<bar>(1 + 1 / 2 ^ 52) - 1\<bar> \<le> (1 / 2 ^ 50 :: real)" by simp
  from z one sym s near show ?thesis by (simp add: cosine_2_3)
qed

text \<open>
  Claim C7 as stated fails in its last part. The vector \<open>[2.0, 3.0]\<close> has a nonzero norm,
  and its similarity with itself is \<open>1 + 2\<^sup>-\<^sup>5\<^sup>2\<close>, the float above 1.0: the sum of
  squares is 13, its rounded root squared is \<open>13 - 2\<^sup>-\<^sup>4\<^sup>9\<close>, and the quotient rounds
  up. For the vector \<open>[2\<^sup>-\<^sup>6\<^sup>0\<^sup>0]\<close> the square underflows to zero and the result is 0;
  for \<open>[2\<^sup>6\<^sup>0\<^sup>0]\<close> the square overflows and the result is NaN, which no float
  equals, itself included.
\<close>

theorem cosine_similarity_self_not_one:
  "cosine_similarity_impl [Fin 2, Fin 3] [Fin 2, Fin 3] = Inr (Fin (1 + 1 / 2 ^ 52))
   \<and> \<not> dbl_eq (Fin (1 + 1 / 2 ^ 52)) (Fin 1)
   \<and> fl_sqrt (sum_squares [Fin 2, Fin 3]) \<noteq> Inr (Fin 0)
   \<and> cosine_similarity_impl [Fin (1 / 2 ^ 600)] [Fin (1 / 2 ^ 600)] = Inr (Fin 0)
   \<and> cosine_similarity_impl [Fin (2 ^ 600)] [Fin (2 ^ 600)] = Inr NaN
   \<and> \<not> dbl_eq NaN NaN"
proof -
  have n: "fl_sqrt (sum_squares [Fin 2, Fin 3]) \<noteq> Inr (Fin 0)"
    by (simp add: sum_squares_def py_sum_def rnd_numeral sqrt_13)
  show ?thesis
    using n by (simp add: cosine_2_3 cosine_tiny cosine_huge)
qed

text \<open>
  Claim C4. When no requirement keeps a non-empty label after trimming, dimension scoring
  returns \<open>applicable = False\<close>, \<open>score = 100\<close>, \<open>weight = 0\<close> and empty matched and
  missing lists. Otherwise, when no evidence text is non-empty after trimming, it returns
  \<open>applicable = True\<close>, \<open>score = 0\<close>, an empty matched list, every remaining requirement
  in the missing list with no similarity, and the total requirement weight (2 for a
  critical requirement, 1 for another) as weight. Neither case asks the provider.
\<close>

theorem score_requirements_degenerate:
  "((\<forall>item\<in>set requirements. py_strip (str_or_empty (item_label item)) = []) \<longrightarrow>
      score_requirements provider requirements evidence_texts threshold =
        Inr \<lparr>dim_score = 100, dim_applicable = False, dim_matched = [], dim_missing = [],
             dim_weight = 0\<rparr>)
   \<and> ((\<exists>item\<in>set requirements. py_strip (str_or_empty (item_label item)) \<noteq> [])
        \<and> (\<forall>t\<in>set evidence_texts. py_strip t = []) \<longrightarrow>
      score_requirements provider requirements evidence_texts threshold =
        Inr \<lparr>dim_score = 0, dim_applicable = True, dim_matched = [],
             dim_missing =
               map (\<lambda>item. \<lparr>entry_requirement = py_strip (str_or_empty (item_label item)),
                              entry_critical = item_critical item,
                              entry_matched_text = None, entry_similarity = None\<rparr>)
                   (filter (\<lambda>item. py_strip (str_or_empty (item_label item)) \<noteq> []) requirements),
             dim_weight =
               of_int (sum_list (map (\<lambda>item. if item_critical item then 2 else 1)
                 (filter (\<lambda>item. py_strip (str_or_empty (item_label item)) \<noteq> []) requirements)))\<rparr>)"
proof (intro conjI impI)
  assume "\<forall>item\<in>set requirements. py_strip (str_or_empty (item_label item)) = []"
  then have "clean_requirements requirements = []"
    by (simp add: clean_requirements_eq filter_empty_conv)
  then show "score_requirements provider requirements evidence_texts threshold =
        Inr \<lparr>dim_score = 100, dim_applicable = False, dim_matched = [], dim_missing = [],
             dim_weight = 0\<rparr>"
    by (simp add: score_requirements_def)
next
  let ?keep = "filter (\<lambda>item. py_strip (str_or_empty (item_label item)) \<noteq> []) requirements"
  assume a: "(\<exists>item\<in>set requirements. py_strip (str_or_empty (item_label item)) \<noteq> [])
        \<and> (\<forall>t\<in>set evidence_texts. py_strip t = [])"
  then have ne: "clean_requirements requirements \<noteq> []"
    by (simp add: clean_requirements_eq filter_empty_conv)
  have ev: "clean_evidence evidence_texts = []"
    using a by (simp add: clean_evidence_empty_iff)
  have miss: "map (\<lambda>item. missing_entry item None) (clean_requirements requirements) =
      map (\<lambda>item. \<lparr>entry_requirement = py_strip (str_or_empty (item_label item)),
                              entry_critical = item_critical item,
                              entry_matched_text = None, entry_similarity = None\<rparr>) ?keep"
    by (simp add: clean_requirements_eq missing_entry_def comp_def)
  have w: "sum_list (map (\<lambda>item. critical_weight (req_critical item)) (clean_requirements requirements))
      = sum_list (map (\<lambda>item. if item_critical item then 2 else 1) ?keep)"
    by (simp add: clean_requirements_eq critical_weight_def comp_def)
  show "score_requirements provider requirements evidence_texts threshold =
        Inr \<lparr>dim_score = 0, dim_applicable = True, dim_matched = [],
             dim_missing =
               map (\<lambda>item. \<lparr>entry_requirement = py_strip (str_or_empty (item_label item)),
                              entry_critical = item_critical item,
                              entry_matched_text = None, entry_similarity = None\<rparr>) ?keep,
             dim_weight =
               of_int (sum_list (map (\<lambda>item. if item_critical item then 2 else 1) ?keep))\<rparr>"
    using ne ev by (simp add: score_requirements_def Let_def miss w)
qed

theorem score_requirements_degenerate_witness:
  "score_requirements example_provider_orthogonal
      [\<lparr>item_label = Some ''  '', item_critical = True, item_notes = None\<rparr>] [''Python''] DEFAULT_THRESHOLD =
     Inr \<lparr>dim_score = 100, dim_applicable = False, dim_matched = [], dim_missing = [],
          dim_weight = 0\<rparr>
   \<and> score_requirements example_provider_orthogonal example_requirements [''  ''] DEFAULT_THRESHOLD =
     Inr \<lparr>dim_score = 0, dim_applicable = True, dim_matched = [],
          dim_missing =
            [\<lparr>entry_requirement = ''Python'', entry_critical = True,
              entry_matched_text = None, entry_similarity = None\<rparr>,
             \<lparr>entry_requirement = ''Docker'', entry_critical = False,
              entry_matched_text = None, entry_similarity = None\<rparr>],
          dim_weight = 3\<rparr>"
proof -
  have one: "score_requirements example_provider_orthogonal
      [\<lparr>item_label = Some ''  '', item_critical = True, item_notes = None\<rparr>] [''Python''] DEFAULT_THRESHOLD =
     Inr \<lparr>dim_score = 100, dim_applicable = False, dim_matched = [], dim_missing = [],
          dim_weight = 0\<rparr>"
    using score_requirements_degenerate[of
        "[\<lparr>item_label = Some ''  '', item_critical = True, item_notes = None\<rparr>]"
        example_provider_orthogonal "[''Python'']" DEFAULT_THRESHOLD]
    by (simp add: str_or_empty_def strip_blank)
  have two: "score_requirements example_provider_orthogonal example_requirements [''  ''] DEFAULT_THRESHOLD =
     Inr \<lparr>dim_score = 0, dim_applicable = True, dim_matched = [],
          dim_missing =
            [\<lparr>entry_requirement = ''Python'', entry_critical = True,
              entry_matched_text = None, entry_similarity = None\<rparr>,
             \<lparr>entry_requirement = ''Docker'', entry_critical = False,
              entry_matched_text = None, entry_similarity = None\<rparr>],
          dim_weight = 3\<rparr>"
    using score_requirements_degenerate[of example_requirements
        example_provider_orthogonal "[''  '']" DEFAULT_THRESHOLD]
    by (simp add: example_requirements_def str_or_empty_def strip_blank strip_python strip_docker)
  from one two show ?thesis by simp
qed

text \<open>
  Claim C8, as amended. When the lower-cased job skills and the lower-cased profile skills
  intersect, preference evaluation adds 10 to the score the other rules give and appends
  one reason: \<open>Skill overlap: \<close> followed by the first 60 characters of the overlapping
  skills in lower case, sorted and joined by a comma and a space.
\<close>

theorem evaluate_preferences_skill_overlap:
  assumes "lower_set (job_skills job) \<inter> lower_set profile_skill_list \<noteq> {}"
  shows "evaluate_preferences job preferences profile_skill_list =
     (fst (evaluate_preferences (job\<lparr>job_skills := []\<rparr>) preferences profile_skill_list) + 10,
      snd (evaluate_preferences (job\<lparr>job_skills := []\<rparr>) preferences profile_skill_list)
        @ [''Skill overlap: '' @ take 60 (py_join '', ''
             (sorted_list_of_set (lower_set (job_skills job) \<inter> lower_set profile_skill_list)))])"
proof -
  from assms have ne: "lower_set (job_skills job) \<noteq> {}" "lower_set profile_skill_list \<noteq> {}"
    by auto
  show ?thesis
    unfolding evaluate_preferences_no_skills
    using assms ne
    by (simp add: evaluate_preferences_def Let_def apply_rule_def[of True] PREFERENCE_BONUS_def)
qed

theorem evaluate_preferences_skill_overlap_witness:
  "lower_set (job_skills example_job) \<inter> lower_set [''python''] \<noteq> {}
   \<and> evaluate_preferences (example_job\<lparr>job_skills := []\<rparr>) example_preferences [''python'']
       = (10, [''Matches preferred role focus''])
   \<and> evaluate_preferences example_job example_preferences [''python''] =
       (20, [''Matches preferred role focus'', ''Skill overlap: python''])"
proof -
  have ov: "lower_set (job_skills example_job) \<inter> lower_set [''python''] \<noteq> {}"
    by (simp add: example_job_def lower_set_def lower_python lower_python_lc lower_docker)
  have base: "evaluate_preferences (example_job\<lparr>job_skills := []\<rparr>) example_preferences [''python'']
       = (10, [''Matches preferred role focus''])"
    by (simp add: evaluate_preferences_def example_job_def example_preferences_def Let_def
      apply_rule_def lower_set_def lower_python lower_python_lc lower_docker lower_backend
      lower_data PREFERENCE_BONUS_def)
  have set_eq: "lower_set (job_skills example_job) \<inter> lower_set [''python''] = {''python''}"
    by (simp add: example_job_def lower_set_def lower_python lower_python_lc lower_docker)
  from evaluate_preferences_skill_overlap[OF ov, of example_preferences]
  have "evaluate_preferences example_job example_preferences [''python''] =
       (20, [''Matches preferred role focus'', ''Skill overlap: python''])"
    by (simp add: base set_eq)
  with ov base show ?thesis by simp
qed

text \<open>
  Claim C8 as stated fails: for the job skills \<open>Python\<close>, \<open>Docker\<close> and the profile skill
  \<open>python\<close> the reason reads \<open>Skill overlap: python\<close>, not the job's spelling
  \<open>Python\<close>.
\<close>

theorem evaluate_preferences_lowercases_overlap:
  "evaluate_preferences example_job example_preferences [''python''] =
     (20, [''Matches preferred role focus'', ''Skill overlap: python''])
   \<and> spec_skill_overlap_reason example_job [''python''] = ''Skill overlap: Python''
   \<and> last (snd (evaluate_preferences example_job example_preferences [''python'']))
       \<noteq> spec_skill_overlap_reason example_job [''python'']"
proof -
  have spec: "spec_skill_overlap_reason example_job [''python''] = ''Skill overlap: Python''"
    by (simp add: spec_skill_overlap_reason_def example_job_def lower_set_def
        lower_python lower_python_lc lower_docker)
  show ?thesis by (simp add: example_job_evaluation spec)
qed

text \<open>
  Claim C10. For every input, \<^verbatim>\<open>get_or_create_resume_fit\<close> raises \<^verbatim>\<open>AttributeError\<close> at
  its first statement, before it reads or writes anything, because
  \<^verbatim>\<open>get_cached_resume_score\<close> is not a name of the module; \<^verbatim>\<open>compute_resume_fit\<close>
  raises for every input as well, \<^verbatim>\<open>ValueError\<close> when the user has no profile and
  otherwise \<^verbatim>\<open>AttributeError\<close> for \<^verbatim>\<open>get_resume_embedding\<close>. None of the three names
  the service calls is bound in the module, which binds \<^verbatim>\<open>_ensure_resume_embedding\<close>,
  \<^verbatim>\<open>_ensure_job_embedding\<close> and \<^verbatim>\<open>cache_resume_score\<close>. So no call returns an entry.
\<close>

theorem resume_fit_always_raises:
  "get_or_create_resume_fit impl now db user_id ident =
     (db, Inl (AttributeError ''get_cached_resume_score''))
   \<and> compute_resume_fit impl now db user_id job =
       Inl (case load_profile db user_id of
              None \<Rightarrow> ValueError ''Profile not found for resume scoring''
            | Some profile \<Rightarrow> AttributeError ''get_resume_embedding'')
   \<and> ''get_cached_resume_score'' \<notin> set recommendation_service_names
   \<and> ''get_resume_embedding'' \<notin> set recommendation_service_names
   \<and> ''get_job_embedding'' \<notin> set recommendation_service_names
   \<and> ''_ensure_resume_embedding'' \<in> set recommendation_service_names
   \<and> ''_ensure_job_embedding'' \<in> set recommendation_service_names
   \<and> ''cache_resume_score'' \<in> set recommendation_service_names"
proof (intro conjI)
  show "get_or_create_resume_fit impl now db user_id ident =
     (db, Inl (AttributeError ''get_cached_resume_score''))"
    by (simp add: get_or_create_resume_fit_def getattr_get_cached_resume_score)
  show "compute_resume_fit impl now db user_id job =
       Inl (case load_profile db user_id of
              None \<Rightarrow> ValueError ''Profile not found for resume scoring''
            | Some profile \<Rightarrow> AttributeError ''get_resume_embedding'')"
    by (simp add: compute_resume_fit_def getattr_get_resume_embedding split: option.splits)
qed (simp_all add: recommendation_service_names_def)

theorem resume_fit_always_raises_witness:
  "get_or_create_resume_fit example_unbound one_hour example_fit_db ''u1'' example_job_ident =
     (example_fit_db, Inl (AttributeError ''get_cached_resume_score''))
   \<and> compute_resume_fit example_unbound one_hour example_fit_db ''u1'' job_a =
       Inl (AttributeError ''get_resume_embedding'')
   \<and> compute_resume_fit example_unbound one_hour example_fit_db ''nobody'' job_a =
       Inl (ValueError ''Profile not found for resume scoring'')"
  using resume_fit_always_raises[of example_unbound one_hour example_fit_db "''u1''"
          example_job_ident job_a]
        resume_fit_always_raises[of example_unbound one_hour example_fit_db "''nobody''"
          example_job_ident job_a]
  by (simp add: example_profile_loaded) (simp add: load_profile_def example_fit_db_def)

text \<open>
  Claim C2, evaluated on the code. The store holds an entry for the user and the job that
  was written one hour before the call, so the entry is fresh; a reader of the cache
  would find it. The call does not return it: the lookup of
  \<^verbatim>\<open>get_cached_resume_score\<close> on the module raises first.
\<close>

theorem get_or_create_resume_fit_fresh_entry_raises:
  "impl_get_cached_resume_score example_unbound example_fit_db ''u1'' example_job_ident
     = Inr (Some example_cached_fit)
   \<and> cache_is_fresh one_hour (Some example_cached_fit)
   \<and> get_or_create_resume_fit example_unbound one_hour example_fit_db ''u1'' example_job_ident
       = (example_fit_db, Inl (AttributeError ''get_cached_resume_score''))"
  by (simp add: example_cache_read example_cache_fresh get_or_create_resume_fit_def
      getattr_get_cached_resume_score)

text \<open>
  Claim C5. For a non-degenerate input (some requirement keeps a label and some evidence
  text is non-empty), every result that dimension scoring returns has
  \<open>score = round(100 * matched_weight / total_weight)\<close>, where a requirement weighs 2 if
  critical and 1 otherwise, the total weight is positive, and the matched and the missing
  entries together weigh as much as the requirements; with total weight 3 and matched
  weight 2 (two requirements, only the critical one matched) the score is 67. A result
  is returned whenever the provider answers with one vector per text.
\<close>

theorem score_requirements_weighted_score:
  assumes ne: "clean_requirements requirements \<noteq> []"
      and ev: "clean_evidence evidence_texts \<noteq> []"
  shows "(\<forall>r. score_requirements provider requirements evidence_texts threshold = Inr r \<longrightarrow>
            0 < requirements_weight (clean_requirements requirements)
            \<and> dim_score r =
                py_round (of_int (100 * entries_weight (dim_matched r))
                          / of_int (requirements_weight (clean_requirements requirements)))
            \<and> entries_weight (dim_matched r) + entries_weight (dim_missing r)
                = requirements_weight (clean_requirements requirements)
            \<and> (requirements_weight (clean_requirements requirements) = 3
                 \<and> entries_weight (dim_matched r) = 2 \<longrightarrow> dim_score r = 67))
       \<and> (\<forall>embeddings.
            provider (map req_label (clean_requirements requirements)
                      @ clean_evidence evidence_texts) = Inr embeddings
            \<and> length embeddings = length (clean_requirements requirements)
                                   + length (clean_evidence evidence_texts)
            \<longrightarrow> (\<exists>r. score_requirements provider requirements evidence_texts threshold = Inr r))"
proof (intro conjI allI impI)
  fix r
  assume r: "score_requirements provider requirements evidence_texts threshold = Inr r"
  let ?cr = "clean_requirements requirements"
  from r obtain embeddings matched missing where
    loop: "match_loop (take (length ?cr) embeddings) (clean_evidence evidence_texts)
             (drop (length ?cr) embeddings) threshold 0 ?cr ([], []) = Inr (matched, missing)"
    and res: "r = \<lparr>dim_score = py_round (of_int (100 * entries_weight matched)
                                / of_int (requirements_weight ?cr)),
                    dim_applicable = True, dim_matched = matched, dim_missing = missing,
                    dim_weight = of_int (requirements_weight ?cr)\<rparr>"
    unfolding score_requirements_nondegenerate[OF ne ev]
    by (auto split: sum.splits prod.splits)
  show "0 < requirements_weight ?cr" using ne by (rule requirements_weight_pos)
  show score: "dim_score r = py_round (of_int (100 * entries_weight (dim_matched r))
                          / of_int (requirements_weight ?cr))"
    by (simp add: res)
  show "entries_weight (dim_matched r) + entries_weight (dim_missing r) = requirements_weight ?cr"
    using match_loop_inv[OF loop] by (simp add: res entries_weight_def)
  assume "requirements_weight ?cr = 3 \<and> entries_weight (dim_matched r) = 2"
  then show "dim_score r = 67"
    unfolding score by (simp add: py_round_def Let_def)
next
  fix embeddings
  let ?cr = "clean_requirements requirements"
  let ?ev = "clean_evidence evidence_texts"
  assume a: "provider (map req_label ?cr @ ?ev) = Inr embeddings
            \<and> length embeddings = length ?cr + length ?ev"
  have be: "batched_embeddings provider (map req_label ?cr @ ?ev) = Inr embeddings"
    using a ne by (simp add: batched_embeddings_def)
  have "\<exists>res. match_loop (take (length ?cr) embeddings) ?ev (drop (length ?cr) embeddings)
           threshold 0 ?cr ([], []) = Inr res"
    using a by (intro match_loop_returns) simp_all
  then show "\<exists>r. score_requirements provider requirements evidence_texts threshold = Inr r"
    unfolding score_requirements_nondegenerate[OF ne ev] be
    by (auto split: prod.splits)
qed

theorem score_requirements_weighted_score_witness:
  "clean_requirements example_requirements \<noteq> []
   \<and> clean_evidence [''python''] \<noteq> []
   \<and> requirements_weight (clean_requirements example_requirements) = 3
   \<and> score_requirements example_provider_orthogonal example_requirements [''python''] DEFAULT_THRESHOLD =
       Inr \<lparr>dim_score = 67, dim_applicable = True,
          dim_matched = [\<lparr>entry_requirement = ''Python'', entry_critical = True,
                          entry_matched_text = Some ''python'', entry_similarity = Some (Fin 1)\<rparr>],
          dim_missing = [\<lparr>entry_requirement = ''Docker'', entry_critical = False,
                          entry_matched_text = None, entry_similarity = Some (Fin 0)\<rparr>],
          dim_weight = 3\<rparr>"
proof -
  have ne: "clean_requirements example_requirements \<noteq> []"
    by (simp add: clean_example_requirements)
  have ev: "clean_evidence [''python''] \<noteq> []"
    by (simp add: clean_evidence_python)
  have w: "requirements_weight (clean_requirements example_requirements) = 3"
    by (simp add: clean_example_requirements requirements_weight_def critical_weight_def)
  have p: "example_provider_orthogonal
             (map req_label (clean_requirements example_requirements) @ clean_evidence [''python''])
           = Inr [[Fin 1, Fin 0], [Fin 0, Fin 1], [Fin 1, Fin 0]]"
    by (simp add: example_provider_orthogonal_def)
  from score_requirements_weighted_score[OF ne ev, of example_provider_orthogonal DEFAULT_THRESHOLD] p
  obtain r where r: "score_requirements example_provider_orthogonal example_requirements
                        [''python''] DEFAULT_THRESHOLD = Inr r"
    by (auto simp: clean_example_requirements clean_evidence_python)
  from score_requirements_weighted_score[OF ne ev, of example_provider_orthogonal DEFAULT_THRESHOLD] r
  have s: "entries_weight (dim_matched r) = 2 \<longrightarrow> dim_score r = 67"
    using w by (simp add: py_round_def)
  have "r = \<lparr>dim_score = 67, dim_applicable = True,
          dim_matched = [\<lparr>entry_requirement = ''Python'', entry_critical = True,
                          entry_matched_text = Some ''python'', entry_similarity = Some (Fin 1)\<rparr>],
          dim_missing = [\<lparr>entry_requirement = ''Docker'', entry_critical = False,
                          entry_matched_text = None, entry_similarity = Some (Fin 0)\<rparr>],
          dim_weight = 3\<rparr>"
    using r[unfolded example_run] s by simp
  with ne ev w r show ?thesis by simp
qed




text \<open>
  Claim C3. For four dimension results with scores between 0 and 100, the aggregation of
  \<^verbatim>\<open>score_resume_against_job\<close> never raises and returns the overall score of the
  specification: 0 when no dimension is applicable, and otherwise the rounding of the
  float quotient of the float sum of weight times score by the float sum of the base
  weights, both taken over the applicable dimensions only, in the order skills,
  experience, education, keywords. Both sums are finite, and the sum of the weights is
  zero exactly when no dimension is applicable. Four inapplicable dimensions give 0;
  skills 67, experience inapplicable, education 50 and keywords 80 give 66. Every result
  of \<^verbatim>\<open>score_resume_against_job\<close> carries that overall score for the four results of
  dimension scoring.
\<close>

theorem aggregate_breakdown_renormalised:
  "(score_in_range s \<and> score_in_range e \<and> score_in_range d \<and> score_in_range k \<longrightarrow>
      aggregate_breakdown (make_breakdown s e d k)
        = Inr (spec_overall_score (make_breakdown s e d k))
      \<and> fin_upto 0 (spec_active_weight (make_breakdown s e d k))
      \<and> fin_upto 11 (spec_weighted_sum (make_breakdown s e d k))
      \<and> (applicable_dimensions (make_breakdown s e d k) = [] \<longleftrightarrow>
           spec_active_weight (make_breakdown s e d k) = Fin 0))
   \<and> (\<not> dim_applicable s \<and> \<not> dim_applicable e \<and> \<not> dim_applicable d \<and> \<not> dim_applicable k \<longrightarrow>
        aggregate_breakdown (make_breakdown s e d k) = Inr 0)
   \<and> (dim_score s = 67 \<and> dim_applicable s \<and> \<not> dim_applicable e
       \<and> dim_score d = 50 \<and> dim_applicable d \<and> dim_score k = 80 \<and> dim_applicable k \<longrightarrow>
        aggregate_breakdown (make_breakdown s e d k) = Inr 66)
   \<and> (\<forall>res. score_resume_against_job provider rd jd resume_text = Inr res \<longrightarrow>
        (\<exists>s' e' d' k'.
           score_requirements provider (job_req_skills jd) (resume_skills rd)
             DEFAULT_THRESHOLD = Inr s'
           \<and> score_requirements provider (job_req_experience jd)
               (compose_experience_evidence rd) DEFAULT_THRESHOLD = Inr e'
           \<and> score_requirements provider (job_req_education jd)
               (compose_education_evidence rd) DEFAULT_THRESHOLD = Inr d'
           \<and> score_keywords provider (job_req_keywords jd) resume_text
               (resume_skills rd @ compose_experience_evidence rd) = Inr k'
           \<and> overall_breakdown res
               = map (\<lambda>(key, v). (key, reclean_result v)) (make_breakdown s' e' d' k')
           \<and> overall_score res = spec_overall_score (make_breakdown s' e' d' k')))"
proof (intro conjI impI allI)
  assume r: "score_in_range s \<and> score_in_range e \<and> score_in_range d \<and> score_in_range k"
  then show "aggregate_breakdown (make_breakdown s e d k)
        = Inr (spec_overall_score (make_breakdown s e d k))"
    by (intro aggregate_breakdown_spec) simp_all
  show "fin_upto 0 (spec_active_weight (make_breakdown s e d k))"
    using active_weight_cases[of s e d k] by simp
  show "fin_upto 11 (spec_weighted_sum (make_breakdown s e d k))"
    using r by (intro weighted_sum_upto) simp_all
  show "(applicable_dimensions (make_breakdown s e d k) = []) =
        (spec_active_weight (make_breakdown s e d k) = Fin 0)"
    using active_weight_cases[of s e d k] by auto
next
  assume "\<not> dim_applicable s \<and> \<not> dim_applicable e \<and> \<not> dim_applicable d \<and> \<not> dim_applicable k"
  then show "aggregate_breakdown (make_breakdown s e d k) = Inr 0"
    by (intro aggregate_breakdown_none) simp_all
next
  assume "dim_score s = 67 \<and> dim_applicable s \<and> \<not> dim_applicable e
       \<and> dim_score d = 50 \<and> dim_applicable d \<and> dim_score k = 80 \<and> dim_applicable k"
  then show "aggregate_breakdown (make_breakdown s e d k) = Inr 66"
    by (intro aggregate_breakdown_66) simp_all
next
  fix res
  assume "score_resume_against_job provider rd jd resume_text = Inr res"
  then show "\<exists>s' e' d' k'.
           score_requirements provider (job_req_skills jd) (resume_skills rd)
             DEFAULT_THRESHOLD = Inr s'
           \<and> score_requirements provider (job_req_experience jd)
               (compose_experience_evidence rd) DEFAULT_THRESHOLD = Inr e'
           \<and> score_requirements provider (job_req_education jd)
               (compose_education_evidence rd) DEFAULT_THRESHOLD = Inr d'
           \<and> score_keywords provider (job_req_keywords jd) resume_text
               (resume_skills rd @ compose_experience_evidence rd) = Inr k'
           \<and> overall_breakdown res
               = map (\<lambda>(key, v). (key, reclean_result v)) (make_breakdown s' e' d' k')
           \<and> overall_score res = spec_overall_score (make_breakdown s' e' d' k')"
    by (rule score_resume_against_job_overall)
qed

theorem aggregate_breakdown_renormalised_witness:
  "score_in_range (example_dimension 50 True) \<and> score_in_range (example_dimension 75 True)
   \<and> score_in_range (example_dimension 0 False)
   \<and> aggregate_breakdown (make_breakdown (example_dimension 50 True) (example_dimension 75 True)
        (example_dimension 0 False) (example_dimension 0 False)) = Inr 63
   \<and> aggregate_breakdown (make_breakdown (example_dimension 74 True) (example_dimension 27 True)
        (example_dimension 64 True) (example_dimension 17 True)) = Inr 47
   \<and> aggregate_breakdown (make_breakdown (example_dimension 67 True) (example_dimension 0 False)
        (example_dimension 50 True) (example_dimension 80 True)) = Inr 66
   \<and> aggregate_breakdown (make_breakdown (example_dimension 100 False) (example_dimension 100 False)
        (example_dimension 100 False) (example_dimension 100 False)) = Inr 0"
proof -
  have r: "score_in_range (example_dimension 50 True)" "score_in_range (example_dimension 75 True)"
    "score_in_range (example_dimension 0 False)" "score_in_range (example_dimension 74 True)"
    "score_in_range (example_dimension 27 True)" "score_in_range (example_dimension 64 True)"
    "score_in_range (example_dimension 17 True)"
    by (simp_all add: score_in_range_def example_dimension_def)
  have a: "aggregate_breakdown (make_breakdown (example_dimension 50 True)
        (example_dimension 75 True) (example_dimension 0 False) (example_dimension 0 False))
        = Inr 63"
    using aggregate_breakdown_renormalised[of "example_dimension 50 True"
        "example_dimension 75 True" "example_dimension 0 False" "example_dimension 0 False"] r
    by (simp add: spec_overall_score_63)
  have b: "aggregate_breakdown (make_breakdown (example_dimension 74 True)
        (example_dimension 27 True) (example_dimension 64 True) (example_dimension 17 True))
        = Inr 47"
    using aggregate_breakdown_renormalised[of "example_dimension 74 True"
        "example_dimension 27 True" "example_dimension 64 True" "example_dimension 17 True"] r
    by (simp add: spec_overall_score_47)
  have c: "aggregate_breakdown (make_breakdown (example_dimension 67 True)
        (example_dimension 0 False) (example_dimension 50 True) (example_dimension 80 True))
        = Inr 66"
    using aggregate_breakdown_renormalised[of "example_dimension 67 True"
        "example_dimension 0 False" "example_dimension 50 True" "example_dimension 80 True"]
    by (simp add: example_dimension_def)
  have d: "aggregate_breakdown (make_breakdown (example_dimension 100 False)
        (example_dimension 100 False) (example_dimension 100 False)
        (example_dimension 100 False)) = Inr 0"
    using aggregate_breakdown_renormalised[of "example_dimension 100 False"
        "example_dimension 100 False" "example_dimension 100 False"
        "example_dimension 100 False"]
    by (simp add: example_dimension_def)
  from r a b c d show ?thesis by simp
qed

text \<open>
  Claim C6, as amended. Whenever ranking returns, there is one entry per job, in input
  order, whose score is \<open>clamp(sim_score + pref_score, 0, 100)\<close> rounded to two decimals,
  a finite float; the returned list holds the same entries, sorted in descending order of
  that rounded score, and entries of equal rounded score keep their order from the input
  list. In particular two jobs with equal scores that arrive in order A, B are returned in
  order A, B.
\<close>

theorem rank_jobs_sorted_stable:
  assumes "snd (rank_jobs provider now db jobs preferences profile resume_vector) = Inr ranked"
  shows "\<exists>entries.
      list_all2 (\<lambda>job entry. ranked_job entry = job
          \<and> ranked_score entry =
              py_round_ndigits
                (total_score_of provider preferences profile resume_vector job) 2)
        jobs entries
      \<and> list_all (\<lambda>entry. fin_upto 7 (ranked_score entry)) entries
      \<and> ranked = sort_key descending_score entries
      \<and> sorted_wrt (\<lambda>a b. dbl_le (ranked_score b) (ranked_score a)) ranked
      \<and> (\<forall>c. filter (\<lambda>entry. ranked_score entry = c) ranked
               = filter (\<lambda>entry. ranked_score entry = c) entries)
      \<and> set ranked = set entries \<and> length ranked = length entries
      \<and> (length jobs = 2 \<and> ranked_score (entries ! 0) = ranked_score (entries ! 1)
           \<longrightarrow> map ranked_job ranked = jobs)"
proof -
  from assms have "\<forall>job\<in>set jobs. job_failure provider resume_vector job = None"
    using rank_jobs_returns_iff[of provider now db jobs preferences profile resume_vector]
    by blast
  from rank_jobs_no_failure[OF this, of now db preferences profile] assms
  obtain entries where
    props: "list_all2 (\<lambda>job entry. ranked_job entry = job
          \<and> ranked_score entry =
              py_round_ndigits
                (total_score_of provider preferences profile resume_vector job) 2)
        jobs entries"
    and ranked: "ranked = sort_key descending_score entries"
    by auto
  have fin: "list_all (\<lambda>entry. fin_upto 7 (ranked_score entry)) entries"
    using props by (rule ranked_entries_finite)
  have sorted: "sorted_wrt (\<lambda>a b. dbl_le (ranked_score b) (ranked_score a)) ranked"
    unfolding ranked using fin by (rule sorted_descending)
  have stable: "filter (\<lambda>entry. ranked_score entry = c) ranked
               = filter (\<lambda>entry. ranked_score entry = c) entries" for c
    unfolding ranked using fin by (rule stable_descending)
  have perm: "set ranked = set entries \<and> length ranked = length entries"
    by (simp add: ranked)
  have two: "map ranked_job ranked = jobs"
    if "length jobs = 2 \<and> ranked_score (entries ! 0) = ranked_score (entries ! 1)"
  proof -
    from that props have len: "length entries = 2" by (simp add: list_all2_lengthD)
    then obtain a b where ab: "entries = [a, b]"
      by (cases entries; cases "tl entries"; simp)
    from that ab have "ranked_score a = ranked_score b" by simp
    then have "ranked = [a, b]" by (simp add: ranked ab descending_score_def)
    moreover from props have "map ranked_job entries = jobs"
      by (induction jobs entries rule: list_all2_induct) simp_all
    ultimately show ?thesis by (simp add: ab)
  qed
  from props fin ranked sorted stable perm two show ?thesis by blast
qed

theorem rank_jobs_sorted_stable_witness:
  "snd (rank_jobs example_provider_down 0 example_db [job_a, job_b] example_preferences
          example_profile (Some [Fin 1, Fin 0, Fin 0, Fin 0])) =
     Inr [\<lparr>ranked_job = job_a, ranked_score = Fin 55,
          ranked_reasons = [''Matches preferred role focus'', ''Resume alignment 64%'']\<rparr>,
          \<lparr>ranked_job = job_b, ranked_score = Fin 55,
          ranked_reasons = [''Matches preferred role focus'', ''Resume alignment 64%'']\<rparr>]
   \<and> sorted_wrt (\<lambda>a b. dbl_le (ranked_score b) (ranked_score a))
       [\<lparr>ranked_job = job_a, ranked_score = Fin 55,
          ranked_reasons = [''Matches preferred role focus'', ''Resume alignment 64%'']\<rparr>,
        \<lparr>ranked_job = job_b, ranked_score = Fin 55,
          ranked_reasons = [''Matches preferred role focus'', ''Resume alignment 64%'']\<rparr>]
   \<and> snd (rank_jobs example_provider_down 0 example_db [job_x, job_y] no_preferences
          example_profile (Some [Fin 1, Fin 0, Fin 0, Fin 0, Fin 0])) =
     Inr [\<lparr>ranked_job = job_y, ranked_score = Fin (3805541685128069 / 70368744177664),
          ranked_reasons = [''Resume alignment 77%'']\<rparr>,
          \<lparr>ranked_job = job_x, ranked_score = Fin (7609675995372585 / 140737488355328),
          ranked_reasons = [''Resume alignment 77%'']\<rparr>]
   \<and> sorted_wrt (\<lambda>a b. dbl_le (ranked_score b) (ranked_score a))
       [\<lparr>ranked_job = job_y, ranked_score = Fin (3805541685128069 / 70368744177664),
          ranked_reasons = [''Resume alignment 77%'']\<rparr>,
        \<lparr>ranked_job = job_x, ranked_score = Fin (7609675995372585 / 140737488355328),
          ranked_reasons = [''Resume alignment 77%'']\<rparr>]"
proof -
  let ?ranked = "[\<lparr>ranked_job = job_a, ranked_score = Fin 55,
          ranked_reasons = [''Matches preferred role focus'', ''Resume alignment 64%'']\<rparr>,
          \<lparr>ranked_job = job_b, ranked_score = Fin 55,
          ranked_reasons = [''Matches preferred role focus'', ''Resume alignment 64%'']\<rparr>]"
  let ?xy = "[\<lparr>ranked_job = job_y, ranked_score = Fin (3805541685128069 / 70368744177664),
          ranked_reasons = [''Resume alignment 77%'']\<rparr>,
          \<lparr>ranked_job = job_x, ranked_score = Fin (7609675995372585 / 140737488355328),
          ranked_reasons = [''Resume alignment 77%'']\<rparr>]"
  have run: "snd (rank_jobs example_provider_down 0 example_db [job_a, job_b] example_preferences
          example_profile (Some [Fin 1, Fin 0, Fin 0, Fin 0])) = Inr ?ranked"
    by (simp add: rank_clean_pair)
  from rank_jobs_sorted_stable[OF run]
  have s1: "sorted_wrt (\<lambda>a b. dbl_le (ranked_score b) (ranked_score a)) ?ranked" by blast
  have run2: "snd (rank_jobs example_provider_down 0 example_db [job_x, job_y] no_preferences
          example_profile (Some [Fin 1, Fin 0, Fin 0, Fin 0, Fin 0])) = Inr ?xy"
    by (simp add: rank_xy_pair)
  from rank_jobs_sorted_stable[OF run2]
  have s2: "sorted_wrt (\<lambda>a b. dbl_le (ranked_score b) (ranked_score a)) ?xy" by blast
  from run s1 run2 s2 show ?thesis by blast
qed

text \<open>
  Claim C6 as stated fails: ranking orders by the rounded score, so the list is not always
  in descending order of \<open>clamp(sim_score + pref_score, 0, 100)\<close>. Two jobs whose totals
  are 69.99650008749782 and 69.9984444617282 both round to 70.0 and stay in input order,
  the smaller total first.
\<close>

theorem rank_jobs_order_after_rounding:
  "snd (rank_jobs example_provider_down 0 example_db [job_near_a, job_near_b] no_preferences
          example_profile (Some [Fin 1, Fin 0])) =
     Inr [\<lparr>ranked_job = job_near_a, ranked_score = Fin 70,
          ranked_reasons = [''Resume alignment 99%'']\<rparr>,
          \<lparr>ranked_job = job_near_b, ranked_score = Fin 70,
          ranked_reasons = [''Resume alignment 99%'']\<rparr>]
   \<and> total_score_of example_provider_down no_preferences example_profile (Some [Fin 1, Fin 0]) job_near_a
       = Fin (2462782903994485 / 35184372088832)
   \<and> total_score_of example_provider_down no_preferences example_profile (Some [Fin 1, Fin 0]) job_near_b
       = Fin (4925702631161773 / 70368744177664)
   \<and> dbl_less
         (total_score_of example_provider_down no_preferences example_profile (Some [Fin 1, Fin 0]) job_near_a)
         (total_score_of example_provider_down no_preferences example_profile (Some [Fin 1, Fin 0]) job_near_b)"
  by (simp add: rank_near_pair total_near_a total_near_b)

text \<open>
  Claim C1, as amended. With a resume vector, if obtaining the embedding of a job of the
  list raises, the ranking call raises too, and it raises that very error when no earlier
  job of the list raises. If no job of the list raises, the call returns one entry per
  job, sorted, and every job for which no embedding was produced (no text to embed, or no
  vector from the provider) is scored with \<open>sim_score = 0\<close>: its score is the clamped
  preference score, rounded to two decimals.
\<close>

theorem rank_jobs_embedding_failure:
  "(truthy_vector resume_vector
      \<and> (\<forall>j\<in>set pre. job_failure provider resume_vector j = None)
      \<and> job_vector_of provider job = Inl e
      \<longrightarrow> snd (rank_jobs provider now db (pre @ job # post) preferences profile resume_vector)
            = Inl e)
   \<and> (truthy_vector resume_vector \<and> job \<in> set jobs \<and> job_vector_of provider job = Inl e
      \<longrightarrow> (\<exists>e'. snd (rank_jobs provider now db jobs preferences profile resume_vector) = Inl e'))
   \<and> ((\<forall>j\<in>set jobs. job_failure provider resume_vector j = None)
      \<longrightarrow> (\<exists>entries.
             snd (rank_jobs provider now db jobs preferences profile resume_vector)
               = Inr (sort_key descending_score entries)
             \<and> list_all2 (\<lambda>job entry. ranked_job entry = job
                 \<and> ranked_score entry =
                     py_round_ndigits
                       (total_score_of provider preferences profile resume_vector job) 2
                 \<and> ((\<exists>v. job_vector_of provider job = Inr v \<and> \<not> truthy_vector v) \<longrightarrow>
                      sim_score_of provider resume_vector job = Fin 0
                      \<and> ranked_score entry =
                          py_round_ndigits (py_min (Fin 100) (py_max (Fin 0)
                            (fl_add (Fin 0) (Fin (fst (evaluate_preferences job preferences
                               (extract_profile_skills profile))))))) 2))
                 jobs entries))"
proof (intro conjI impI)
  assume a: "truthy_vector resume_vector
      \<and> (\<forall>j\<in>set pre. job_failure provider resume_vector j = None)
      \<and> job_vector_of provider job = Inl e"
  then have f: "job_failure provider resume_vector job = Some e"
    by (simp add: job_failure_def)
  from a have "\<forall>j\<in>set pre. job_failure provider resume_vector j = None" by simp
  from rank_jobs_first_failure[OF this f]
  show "snd (rank_jobs provider now db (pre @ job # post) preferences profile resume_vector)
          = Inl e" .
next
  assume a: "truthy_vector resume_vector \<and> job \<in> set jobs \<and> job_vector_of provider job = Inl e"
  then have "job_failure provider resume_vector job = Some e"
    by (simp add: job_failure_def)
  with a have "\<not> (\<forall>j\<in>set jobs. job_failure provider resume_vector j = None)" by auto
  then have "\<not> (\<exists>ranked. snd (rank_jobs provider now db jobs preferences profile resume_vector)
                     = Inr ranked)"
    using rank_jobs_returns_iff[of provider now db jobs preferences profile resume_vector]
    by blast
  then show "\<exists>e'. snd (rank_jobs provider now db jobs preferences profile resume_vector) = Inl e'"
    by (cases "snd (rank_jobs provider now db jobs preferences profile resume_vector)") auto
next
  assume a: "\<forall>j\<in>set jobs. job_failure provider resume_vector j = None"
  from rank_jobs_no_failure[OF a, of now db preferences profile] obtain entries where
    run: "snd (rank_jobs provider now db jobs preferences profile resume_vector)
            = Inr (sort_key descending_score entries)"
    and all: "list_all2 (\<lambda>job entry. ranked_job entry = job
            \<and> ranked_score entry =
                py_round_ndigits
                  (total_score_of provider preferences profile resume_vector job) 2)
          jobs entries"
    by blast
  have zero: "sim_score_of provider resume_vector j = Fin 0"
    if "\<exists>v. job_vector_of provider j = Inr v \<and> \<not> truthy_vector v" for j
    using that by (auto simp: sim_score_of_def)
  have "list_all2 (\<lambda>job entry. ranked_job entry = job
                 \<and> ranked_score entry =
                     py_round_ndigits
                       (total_score_of provider preferences profile resume_vector job) 2
                 \<and> ((\<exists>v. job_vector_of provider job = Inr v \<and> \<not> truthy_vector v) \<longrightarrow>
                      sim_score_of provider resume_vector job = Fin 0
                      \<and> ranked_score entry =
                          py_round_ndigits (py_min (Fin 100) (py_max (Fin 0)
                            (fl_add (Fin 0) (Fin (fst (evaluate_preferences job preferences
                               (extract_profile_skills profile))))))) 2))
          jobs entries"
    using all
    by (rule list_all2_mono) (auto simp: zero total_score_of_def)
  with run show "\<exists>entries.
             snd (rank_jobs provider now db jobs preferences profile resume_vector)
               = Inr (sort_key descending_score entries)
             \<and> list_all2 (\<lambda>job entry. ranked_job entry = job
                 \<and> ranked_score entry =
                     py_round_ndigits
                       (total_score_of provider preferences profile resume_vector job) 2
                 \<and> ((\<exists>v. job_vector_of provider job = Inr v \<and> \<not> truthy_vector v) \<longrightarrow>
                      sim_score_of provider resume_vector job = Fin 0
                      \<and> ranked_score entry =
                          py_round_ndigits (py_min (Fin 100) (py_max (Fin 0)
                            (fl_add (Fin 0) (Fin (fst (evaluate_preferences job preferences
                               (extract_profile_skills profile))))))) 2))
                 jobs entries"
    by blast
qed

theorem rank_jobs_embedding_failure_witness:
  "truthy_vector (Some [Fin 1, Fin 0, Fin 0, Fin 0])
   \<and> job_failure example_provider_down (Some [Fin 1, Fin 0, Fin 0, Fin 0]) job_a = None
   \<and> job_vector_of example_provider_down job_unembedded = Inl (ProviderError ''unavailable'')
   \<and> snd (rank_jobs example_provider_down 0 example_db [job_a, job_unembedded]
            example_preferences example_profile (Some [Fin 1, Fin 0, Fin 0, Fin 0]))
       = Inl (ProviderError ''unavailable'')
   \<and> job_failure example_provider_down (Some [Fin 1, Fin 0, Fin 0, Fin 0]) job_blank = None
   \<and> job_vector_of example_provider_down job_blank = Inr None
   \<and> sim_score_of example_provider_down (Some [Fin 1, Fin 0, Fin 0, Fin 0]) job_blank = Fin 0
   \<and> snd (rank_jobs example_provider_down 0 example_db [job_a, job_blank]
            example_preferences example_profile (Some [Fin 1, Fin 0, Fin 0, Fin 0])) =
       Inr [\<lparr>ranked_job = job_a, ranked_score = Fin 55,
          ranked_reasons = [''Matches preferred role focus'', ''Resume alignment 64%'']\<rparr>,
            \<lparr>ranked_job = job_blank, ranked_score = Fin 0, ranked_reasons = []\<rparr>]"
proof -
  have t: "truthy_vector (Some [Fin 1, Fin 0, Fin 0, Fin 0])" by (simp add: truthy_vector_def)
  note f = job_vector_unembedded
  from rank_jobs_embedding_failure[of "Some [Fin 1, Fin 0, Fin 0, Fin 0]" "[job_a]"
         example_provider_down job_unembedded "ProviderError ''unavailable''"
         0 example_db "[]" example_preferences example_profile] t f
  have fail: "snd (rank_jobs example_provider_down 0 example_db [job_a, job_unembedded]
                  example_preferences example_profile (Some [Fin 1, Fin 0, Fin 0, Fin 0]))
                = Inl (ProviderError ''unavailable'')"
    by (simp add: no_failure_a)
  have z: "sim_score_of example_provider_down (Some [Fin 1, Fin 0, Fin 0, Fin 0]) job_blank = Fin 0"
    by (simp add: sim_score_of_def job_vector_blank truthy_vector_def)
  have run: "snd (rank_jobs example_provider_down 0 example_db [job_a, job_blank]
            example_preferences example_profile (Some [Fin 1, Fin 0, Fin 0, Fin 0])) =
       Inr [\<lparr>ranked_job = job_a, ranked_score = Fin 55,
          ranked_reasons = [''Matches preferred role focus'', ''Resume alignment 64%'']\<rparr>,
            \<lparr>ranked_job = job_blank, ranked_score = Fin 0, ranked_reasons = []\<rparr>]"
    by (simp add: rank_with_blank)
  from t f fail z run show ?thesis
    by (simp add: no_failure_a no_failure_blank job_vector_blank)
qed

text \<open>
  Claim C1 as stated fails: with the provider unavailable, ranking a job with a cached
  embedding together with a job that still needs one raises the provider's error, although
  the first job alone is ranked.
\<close>

theorem rank_jobs_aborts_on_embedding_failure:
  "job_vector_of example_provider_down job_unembedded = Inl (ProviderError ''unavailable'')
   \<and> snd (rank_jobs example_provider_down 0 example_db [job_a, job_unembedded]
            example_preferences example_profile (Some [Fin 1, Fin 0, Fin 0, Fin 0]))
       = Inl (ProviderError ''unavailable'')
   \<and> snd (rank_jobs example_provider_down 0 example_db [job_a]
            example_preferences example_profile (Some [Fin 1, Fin 0, Fin 0, Fin 0]))
       = Inr [\<lparr>ranked_job = job_a, ranked_score = Fin 55,
          ranked_reasons = [''Matches preferred role focus'', ''Resume alignment 64%'']\<rparr>]"
  by (simp add: job_vector_unembedded rank_with_failure rank_single)

end
